(* ===== verification/Prelude.thy ===== *)
theory Prelude
  imports Main "HOL-Library.Sublist" "HOL-Library.Multiset"
begin

text \<open>
  Shared vocabulary of the TicketRax client model: the names of the model's basic types
  (identifiers, timestamps, gateway responses), the theorem collections the component
  theories feed, and generic facts on lists that several components use (replacing the
  matching elements of a list, counting a list by the values of a finite key).
\<close>

section \<open>Basic types\<close>

text \<open>
  Identifiers are the opaque strings the Django backend assigns. Timestamps are the
  millisecond values \<open>new Date(s).getTime()\<close> yields for the ISO strings of the
  backend: the client only ever copies them or compares them through that number.
\<close>

type_synonym ident = string
type_synonym timestamp = int

text \<open>
  A request of the gateway (axios) either resolves with data or rejects. The rejection is
  an HTTP status the backend answered with, or a transport failure (no answer, timeout).
  The client never looks into the error: every \<open>catch\<close> logs it and rethrows or
  swallows it.
\<close>

datatype api_error = Http_Status nat | Network_Failure

type_synonym 'a response = "api_error + 'a"

section \<open>Theorem collections\<close>

named_theorems frame_simps "fields an operation leaves unchanged"

section \<open>Replacing the matching elements of a list\<close>

text \<open>
  \<open>xs.map(x => p(x) ? y : x)\<close>: the shape of every in-place replacement the client
  does on its snapshot.
\<close>

definition replace_where :: "('a \<Rightarrow> bool) \<Rightarrow> 'a \<Rightarrow> 'a list \<Rightarrow> 'a list" where
  "replace_where p y xs = map (\<lambda>x. if p x then y else x) xs"

lemma length_replace_where [simp]: "length (replace_where p y xs) = length xs"
  by (simp add: replace_where_def)

lemma replace_where_nth [simp]:
  "i < length xs \<Longrightarrow> replace_where p y xs ! i = (if p (xs ! i) then y else xs ! i)"
  by (simp add: replace_where_def)

lemma replace_where_no_match [simp]:
  "\<not> (\<exists>x \<in> set xs. p x) \<Longrightarrow> replace_where p y xs = xs"
  by (induction xs) (auto simp: replace_where_def)

lemma map_key_replace_where:
  "f y = k \<Longrightarrow> map f (replace_where (\<lambda>x. f x = k) y xs) = map f xs"
  by (induction xs) (auto simp: replace_where_def)

lemma set_replace_where:
  "set (replace_where p y xs) = {x \<in> set xs. \<not> p x} \<union> (if \<exists>x \<in> set xs. p x then {y} else {})"
  by (auto simp: replace_where_def)

lemma find_replace_where:
  "p y \<Longrightarrow> find p (replace_where p y xs) = (if \<exists>x \<in> set xs. p x then Some y else None)"
  by (induction xs) (auto simp: replace_where_def)

lemma find_replace_where_other:
  "\<not> q y \<Longrightarrow> (\<forall>x. q x \<longrightarrow> \<not> p x) \<Longrightarrow> find q (replace_where p y xs) = find q xs"
  by (induction xs) (auto simp: replace_where_def)

section \<open>Dropping a prefix\<close>

lemma all_set_dropWhile: "(\<forall>x \<in> set (dropWhile P xs). P x) \<longleftrightarrow> (\<forall>x \<in> set xs. P x)"
  by (induction xs) auto

section \<open>Counting by a key with finitely many values\<close>

text \<open>
  Counting a list once per value of a key and adding the counts gives the number of
  elements whose key is among the values counted, when no value is counted twice.
\<close>

lemma mset_filter_disj:
  "\<forall>x \<in> set xs. \<not> (P x \<and> Q x) \<Longrightarrow>
   mset (filter P xs) + mset (filter Q xs) = mset (filter (\<lambda>x. P x \<or> Q x) xs)"
  by (induction xs) auto

lemma sum_list_mset_filter_by_key:
  "distinct vs \<Longrightarrow>
   (\<Sum>v\<leftarrow>vs. mset (filter (\<lambda>x. g x = v) xs)) = mset (filter (\<lambda>x. g x \<in> set vs) xs)"
proof (induction vs)
  case Nil
  then show ?case by simp
next
  case (Cons v vs)
  then have "mset (filter (\<lambda>x. g x = v) xs) + mset (filter (\<lambda>x. g x \<in> set vs) xs)
      = mset (filter (\<lambda>x. g x = v \<or> g x \<in> set vs) xs)"
    by (intro mset_filter_disj) auto
  with Cons show ?case by simp
qed

lemma sum_list_count_by_key:
  "distinct vs \<Longrightarrow>
   (\<Sum>v\<leftarrow>vs. length (filter (\<lambda>x. g x = v) xs)) = length (filter (\<lambda>x. g x \<in> set vs) xs)"
proof -
  assume d: "distinct vs"
  have "(\<Sum>v\<leftarrow>vs. length (filter (\<lambda>x. g x = v) xs)) = size (\<Sum>v\<leftarrow>vs. mset (filter (\<lambda>x. g x = v) xs))"
    by (induction vs) (simp_all del: mset_filter)
  also have "\<dots> = length (filter (\<lambda>x. g x \<in> set vs) xs)"
    using d by (simp add: sum_list_mset_filter_by_key del: mset_filter)
  finally show ?thesis .
qed

section \<open>JavaScript white space\<close>

text \<open>
  The white space of \<open>String.prototype.trim\<close> and of the regular-expression class
  \<open>\s\<close>, on the ASCII characters the model's 8-bit characters can carry (tab, line
  feed, vertical tab, form feed, carriage return, space).
\<close>

definition js_space :: "char \<Rightarrow> bool" where
  "js_space ch \<longleftrightarrow> of_char ch \<in> {9, 10, 11, 12, 13, 32 :: nat}"

section \<open>Bounds on filtered lists\<close>

lemma length_filter_bound [simp]: "length xs \<le> n \<Longrightarrow> length (filter P xs) \<le> n"
  using length_filter_le le_trans by blast

section \<open>A counter that wraps\<close>

text \<open>
  The values \<open>(c + 1) mod m, ..., (c + k) mod m\<close> of a counter incremented modulo
  \<open>m\<close> are pairwise distinct exactly when at most \<open>m\<close> of them are taken.
\<close>

lemma mod_shift_differ:
  assumes "i < j" and "j - i < (m::nat)"
  shows "(c + i) mod m \<noteq> (c + j) mod m"
proof
  assume "(c + i) mod m = (c + j) mod m"
  then have "m dvd (c + j) - (c + i)" using mod_eq_dvd_iff_nat [of "c + i" "c + j" m] assms(1) by simp
  then show False using assms by (auto dest: dvd_imp_le)
qed

lemma counters_distinct:
  assumes m: "0 < (m::nat)"
  shows "distinct (map (\<lambda>j. (c + j) mod m) [1..<Suc k]) \<longleftrightarrow> k \<le> m"
proof
  assume k: "k \<le> m"
  have "inj_on (\<lambda>j. (c + j) mod m) (set [1..<Suc k])"
  proof (rule inj_onI)
    fix i j assume i: "i \<in> set [1..<Suc k]" and j: "j \<in> set [1..<Suc k]"
      and eq: "(c + i) mod m = (c + j) mod m"
    show "i = j"
    proof (cases i j rule: linorder_cases)
      case less
      moreover have "j - i < m" using i j k by auto
      ultimately show ?thesis using mod_shift_differ [of i j m c] eq by blast
    next
      case greater
      moreover have "i - j < m" using i j k by auto
      ultimately show ?thesis using mod_shift_differ [of j i m c] eq by simp
    qed
  qed
  then show "distinct (map (\<lambda>j. (c + j) mod m) [1..<Suc k])" by (simp add: distinct_map)
next
  assume d: "distinct (map (\<lambda>j. (c + j) mod m) [1..<Suc k])"
  show "k \<le> m"
  proof (rule ccontr)
    assume "\<not> k \<le> m"
    then have "1 \<in> set [1..<Suc k]" "Suc m \<in> set [1..<Suc k]" "1 \<noteq> Suc m"
      using m by auto
    moreover have "(c + 1) mod m = (c + Suc m) mod m"
    proof -
      have "c + Suc m = (c + 1) + m" by simp
      then show ?thesis by (simp only: mod_add_self2)
    qed
    moreover have "inj_on (\<lambda>j. (c + j) mod m) (set [1..<Suc k])"
      using d by (simp only: distinct_map)
    ultimately show False by (metis inj_onD)
  qed
qed

end
