(* ===== verification/Ticket_Model.thy ===== *)
theory Ticket_Model
  imports Prelude
begin

text \<open>
  The entity model of \<open>src/client/src/context/TicketContext.tsx\<close> (the string unions
  \<open>TicketStatus\<close>, \<open>TicketPriority\<close>, the activity type, the \<open>Ticket\<close> and
  \<open>TicketActivity\<close> object types) and the wire model of
  \<open>src/client/src/services/ticketService.ts\<close> (the Django REST records and the DTOs the
  client sends), with the conversions the context applies between them. A TypeScript
  string-literal union is a datatype with one constructor per literal; the literal itself
  is recovered by the \<open>*_str\<close> functions. An optional object field (\<open>assignedTo?\<close>, a
  Django \<open>null\<close>) is an \<open>option\<close>.
\<close>

section \<open>Enumerations\<close>

datatype ticket_status = New | Open | Pending | Resolved | Closed

datatype ticket_priority = Low | Medium | High | Urgent

datatype activity_type = Status_Change | Priority_Change | Assignment | Comment

fun status_str :: "ticket_status \<Rightarrow> string" where
  "status_str New = ''new''"
| "status_str Open = ''open''"
| "status_str Pending = ''pending''"
| "status_str Resolved = ''resolved''"
| "status_str Closed = ''closed''"

fun priority_str :: "ticket_priority \<Rightarrow> string" where
  "priority_str Low = ''low''"
| "priority_str Medium = ''medium''"
| "priority_str High = ''high''"
| "priority_str Urgent = ''urgent''"

fun activity_type_str :: "activity_type \<Rightarrow> string" where
  "activity_type_str Status_Change = ''status_change''"
| "activity_type_str Priority_Change = ''priority_change''"
| "activity_type_str Assignment = ''assignment''"
| "activity_type_str Comment = ''comment''"

text \<open>All values of each union, in the order the source lists them.\<close>

definition all_statuses :: "ticket_status list" where
  "all_statuses = [New, Open, Pending, Resolved, Closed]"

definition all_priorities :: "ticket_priority list" where
  "all_priorities = [Low, Medium, High, Urgent]"

section \<open>Client-side entities\<close>

text \<open>
  \<open>User\<close> of \<open>AuthContext.tsx\<close>, \<open>DjangoUser\<close> of \<open>ticketService.ts\<close> and the
  inline type of \<open>Ticket.assignedTo\<close> are the same five string fields.
\<close>

record app_user =
  user_id :: ident
  username :: string
  user_email :: string
  first_name :: string
  last_name :: string

record creator =
  creator_name :: string
  creator_email :: string

record ticket =
  ticket_id :: ident
  title :: string
  description :: string
  created_by :: creator
  assigned_to :: "app_user option"
  status :: ticket_status
  priority :: ticket_priority
  created_at :: timestamp
  updated_at :: timestamp

record ticket_activity =
  activity_id :: ident
  activity_ticket_id :: ident
  act_type :: activity_type
  message :: string
  activity_created_by :: string
  activity_created_at :: timestamp

section \<open>Wire records of the Django REST backend\<close>

record django_ticket =
  dj_id :: ident
  dj_title :: string
  dj_description :: string
  dj_status :: ticket_status
  dj_priority :: ticket_priority
  dj_created_by_name :: string
  dj_created_by_email :: string
  dj_assigned_to :: "app_user option"
  dj_created_at :: timestamp
  dj_updated_at :: timestamp

record django_activity =
  da_id :: ident
  da_ticket :: ident
  da_type :: activity_type
  da_message :: string
  da_created_by :: string
  da_created_at :: timestamp

record create_ticket_dto =
  ct_title :: string
  ct_description :: string
  ct_priority :: ticket_priority
  ct_created_by_name :: string
  ct_created_by_email :: string

text \<open>
  \<open>UpdateTicketDto\<close>: every field optional. A field left \<open>undefined\<close> is dropped by
  \<open>JSON.stringify\<close>, so \<open>None\<close> is a field the PATCH body does not carry.
\<close>

record update_ticket_dto =
  ut_title :: "string option"
  ut_description :: "string option"
  ut_status :: "ticket_status option"
  ut_priority :: "ticket_priority option"
  ut_assigned_to :: "ident option"

record create_activity_dto =
  ca_ticket :: ident
  ca_type :: activity_type
  ca_message :: string
  ca_created_by :: string

section \<open>Inputs of the context operations\<close>

text \<open>The argument of \<open>createTicket\<close>.\<close>

record ticket_input =
  in_title :: string
  in_description :: string
  in_priority :: ticket_priority
  in_created_by :: creator

text \<open>
  \<open>Partial<Ticket>\<close> as \<open>updateTicket\<close> reads it: only these five fields are looked
  at; any other field of the partial object is ignored by the code.
\<close>

record ticket_patch =
  p_title :: "string option"
  p_description :: "string option"
  p_status :: "ticket_status option"
  p_priority :: "ticket_priority option"
  p_assigned_to :: "app_user option"

definition empty_patch :: ticket_patch where
  "empty_patch = \<lparr>p_title = None, p_description = None, p_status = None,
     p_priority = None, p_assigned_to = None\<rparr>"

text \<open>\<open>Omit<TicketActivity, 'id' | 'createdAt'>\<close>, the argument of \<open>addActivity\<close>.\<close>

record activity_input =
  ai_ticket_id :: ident
  ai_type :: activity_type
  ai_message :: string
  ai_created_by :: string

section \<open>Conversions\<close>

text \<open>
  The "data transformation layer" of the context: the same object literal is written out
  in \<open>fetchTickets\<close>, \<open>createTicket\<close> and \<open>updateTicket\<close>.
  \<open>ticket.assigned_to || undefined\<close> keeps an object and turns \<open>null\<close> into
  \<open>undefined\<close>, which is the identity on \<open>app_user option\<close>.
\<close>

definition ticket_of_django :: "django_ticket \<Rightarrow> ticket" where
  "ticket_of_django d =
     \<lparr>ticket_id = dj_id d, title = dj_title d, description = dj_description d,
      created_by = \<lparr>creator_name = dj_created_by_name d, creator_email = dj_created_by_email d\<rparr>,
      assigned_to = dj_assigned_to d,
      status = dj_status d, priority = dj_priority d,
      created_at = dj_created_at d, updated_at = dj_updated_at d\<rparr>"

definition activity_of_django :: "django_activity \<Rightarrow> ticket_activity" where
  "activity_of_django a =
     \<lparr>activity_id = da_id a, activity_ticket_id = da_ticket a, act_type = da_type a,
      message = da_message a, activity_created_by = da_created_by a,
      activity_created_at = da_created_at a\<rparr>"

definition create_dto_of_input :: "ticket_input \<Rightarrow> create_ticket_dto" where
  "create_dto_of_input i =
     \<lparr>ct_title = in_title i, ct_description = in_description i, ct_priority = in_priority i,
      ct_created_by_name = creator_name (in_created_by i),
      ct_created_by_email = creator_email (in_created_by i)\<rparr>"

definition update_dto_of_patch :: "ticket_patch \<Rightarrow> update_ticket_dto" where
  "update_dto_of_patch u =
     \<lparr>ut_title = p_title u, ut_description = p_description u, ut_status = p_status u,
      ut_priority = p_priority u, ut_assigned_to = map_option user_id (p_assigned_to u)\<rparr>"

definition activity_dto_of_input :: "activity_input \<Rightarrow> create_activity_dto" where
  "activity_dto_of_input a =
     \<lparr>ca_ticket = ai_ticket_id a, ca_type = ai_type a, ca_message = ai_message a,
      ca_created_by = ai_created_by a\<rparr>"

lemmas conversion_defs = ticket_of_django_def activity_of_django_def
  create_dto_of_input_def update_dto_of_patch_def activity_dto_of_input_def

section \<open>Facts of the model\<close>

lemma status_str_inj [simp]: "status_str a = status_str b \<longleftrightarrow> a = b"
  by (cases a; cases b) simp_all

lemma priority_str_inj [simp]: "priority_str a = priority_str b \<longleftrightarrow> a = b"
  by (cases a; cases b) simp_all

lemma status_str_not_all [simp]: "status_str s \<noteq> ''all''"
  by (cases s) simp_all

lemma priority_str_not_all [simp]: "priority_str p \<noteq> ''all''"
  by (cases p) simp_all

lemma all_statuses_complete [simp]: "s \<in> set all_statuses" and distinct_all_statuses [simp]: "distinct all_statuses"
  by (cases s) (simp_all add: all_statuses_def)

lemma all_priorities_complete [simp]: "p \<in> set all_priorities" and distinct_all_priorities [simp]: "distinct all_priorities"
  by (cases p) (simp_all add: all_priorities_def)

lemma ticket_of_django_sel [simp]:
  "ticket_id (ticket_of_django d) = dj_id d"
  "status (ticket_of_django d) = dj_status d"
  "priority (ticket_of_django d) = dj_priority d"
  "created_at (ticket_of_django d) = dj_created_at d"
  "updated_at (ticket_of_django d) = dj_updated_at d"
  by (simp_all add: ticket_of_django_def)

lemma activity_of_django_sel [simp]:
  "activity_id (activity_of_django a) = da_id a"
  "activity_ticket_id (activity_of_django a) = da_ticket a"
  "act_type (activity_of_django a) = da_type a"
  "message (activity_of_django a) = da_message a"
  "activity_created_by (activity_of_django a) = da_created_by a"
  by (simp_all add: activity_of_django_def)

end
