(* ===== verification/Gateway.thy ===== *)
theory Gateway
  imports Ticket_Model
begin

text \<open>
  The REST gateway as the client sees it: \<open>src/client/src/services/ticketService.ts\<close>
  and the request half of \<open>src/client/src/services/authService.ts\<close>. Every service
  function issues one HTTP request through the shared axios instance and returns the
  response body or rethrows the rejection; the backend itself is not part of the
  repository. A request is a value of \<open>api_request\<close>, one constructor per service
  function; \<open>endpoint\<close> gives the method and path each function uses. The component
  theories record every request they issue and take the gateway's answer as an argument
  of type \<open>'a response\<close>, so that "no request was sent" and "the request carried these
  fields" are statements about the model's request log.
\<close>

datatype http_method = GET | POST | PUT | PATCH | DELETE

datatype api_request =
    List_Tickets
  | Get_Ticket ident
  | Create_Ticket create_ticket_dto
  | Update_Ticket ident update_ticket_dto
  | List_Activities ident
  | Create_Activity create_activity_dto
  | List_Filtered "(string \<times> string) list"
  | Login string string
  | Logout
  | Current_User

fun endpoint :: "api_request \<Rightarrow> http_method \<times> string" where
  "endpoint List_Tickets = (GET, ''/tickets/'')"
| "endpoint (Get_Ticket i) = (GET, ''/tickets/'' @ i @ ''/'')"
| "endpoint (Create_Ticket _) = (POST, ''/tickets/'')"
| "endpoint (Update_Ticket i _) = (PATCH, ''/tickets/'' @ i @ ''/'')"
| "endpoint (List_Activities i) = (GET, ''/tickets/'' @ i @ ''/activities/'')"
| "endpoint (Create_Activity _) = (POST, ''/activities/'')"
| "endpoint (List_Filtered _) = (GET, ''/tickets/'')"
| "endpoint (Login _ _) = (POST, ''/auth/login/'')"
| "endpoint Logout = (POST, ''/auth/logout/'')"
| "endpoint Current_User = (GET, ''/auth/user/'')"

text \<open>
  \<open>getFilteredTickets\<close>: the query parameters, appended in this order and only for a
  filter that is set; an empty search string is falsy in JavaScript and adds nothing.
  (\<open>URLSearchParams\<close> percent-encodes the values on the wire; the pairs are modelled
  before encoding.)
\<close>

definition filter_params ::
  "ticket_status option \<Rightarrow> ticket_priority option \<Rightarrow> string option \<Rightarrow> (string \<times> string) list" where
  "filter_params s p q =
     (case s of Some st \<Rightarrow> [(''status'', status_str st)] | None \<Rightarrow> []) @
     (case p of Some pr \<Rightarrow> [(''priority'', priority_str pr)] | None \<Rightarrow> []) @
     (case q of Some w \<Rightarrow> (if w = [] then [] else [(''search'', w)]) | None \<Rightarrow> [])"

text \<open>
  The request interceptor of the axios instance: the stored token, when there is a
  non-empty one, goes into \<open>Authorization: Token ...\<close>; the CSRF cookie, when there is a
  non-empty one, goes into \<open>X-CSRFToken\<close> for the unsafe methods only.
\<close>

fun unsafe_method :: "http_method \<Rightarrow> bool" where
  "unsafe_method GET = False"
| "unsafe_method _ = True"

definition request_headers :: "string option \<Rightarrow> string option \<Rightarrow> http_method \<Rightarrow> (string \<times> string) list" where
  "request_headers token csrf m =
     (case token of Some t \<Rightarrow> (if t = [] then [] else [(''Authorization'', ''Token '' @ t)]) | None \<Rightarrow> []) @
     (if unsafe_method m then
        (case csrf of Some c \<Rightarrow> (if c = [] then [] else [(''X-CSRFToken'', c)]) | None \<Rightarrow> [])
      else [])"

text \<open>The gateway operations that change server state, by their method.\<close>

definition state_changing :: "api_request \<Rightarrow> bool" where
  "state_changing r \<longleftrightarrow> unsafe_method (fst (endpoint r))"

lemma state_changing_simps [simp]:
  "state_changing List_Tickets = False"
  "state_changing (Get_Ticket i) = False"
  "state_changing (Create_Ticket d) = True"
  "state_changing (Update_Ticket i u) = True"
  "state_changing (List_Activities i) = False"
  "state_changing (Create_Activity a) = True"
  "state_changing (List_Filtered ps) = False"
  "state_changing (Login e pw) = True"
  "state_changing Logout = True"
  "state_changing Current_User = False"
  by (simp_all add: state_changing_def)

end
