(* ===== verification/Toast.thy ===== *)
theory Toast
  imports Prelude
begin

text \<open>
  The toast store of \<open>src/client/src/hooks/use-toast.ts\<close>: a module-level state (the id
  counter \<open>count\<close>, the \<open>memoryState\<close> every \<open>useToast\<close> listener is handed, and the
  keys of the \<open>toastTimeouts\<close> map) changed only by \<open>dispatch\<close>, which runs the
  \<open>reducer\<close> (including its side effect on the removal queue) on the current state.
  The listeners, which copy \<open>memoryState\<close> into each \<open>useToast\<close> state, are in
  \<open>Toast_Listeners\<close>. A pending removal timer is
  an element of the queue; its firing after \<open>TOAST_REMOVE_DELAY\<close> milliseconds is the
  event \<open>fire_timeout\<close>, which may come at any later point.
\<close>

section \<open>Data\<close>

text \<open>
  What a caller hands to \<open>toast()\<close>: a title, a description, and whether the variant is
  \<open>"destructive"\<close>. Every toast of the client is of this shape.
\<close>

record notice =
  notice_title :: string
  notice_description :: string
  notice_destructive :: bool

record toaster_toast =
  tt_id :: string
  tt_open :: bool
  tt_props :: notice

text \<open>
  \<open>Partial<ToasterToast>\<close> of an \<open>UPDATE_TOAST\<close>: a field that is absent leaves the
  toast's field as it is under the spread \<open>{ ...t, ...action.toast }\<close>.
\<close>

record toast_patch =
  up_title :: "string option"
  up_description :: "string option"
  up_destructive :: "bool option"
  up_open :: "bool option"

datatype toast_action =
    Add_Toast toaster_toast
  | Update_Toast string toast_patch
  | Dismiss_Toast "string option"
  | Remove_Toast "string option"

record toast_globals =
  tg_count :: nat
  memory_state :: "toaster_toast list"
  toast_timeouts :: "string list"

definition init_toasts :: toast_globals where
  "init_toasts = \<lparr>tg_count = 0, memory_state = [], toast_timeouts = []\<rparr>"

definition toast_limit :: nat where
  "toast_limit = 1"

text \<open>\<open>Number.MAX_SAFE_INTEGER\<close> = \<open>2^53 - 1\<close>.\<close>

definition max_safe_integer :: nat where
  "max_safe_integer = 9007199254740991"

section \<open>Identifiers\<close>

text \<open>\<open>Number.prototype.toString()\<close> on a non-negative integer: its decimal digits.\<close>

definition dec_digit :: "nat \<Rightarrow> char" where
  "dec_digit d = ''0123456789'' ! d"

fun dec_string :: "nat \<Rightarrow> string" where
  "dec_string n = (if n < 10 then [dec_digit n] else dec_string (n div 10) @ [dec_digit (n mod 10)])"

declare dec_string.simps [simp del]

text \<open>\<open>genId\<close>: the counter wraps at \<open>MAX_SAFE_INTEGER\<close>, so it stays an exact integer.\<close>

definition gen_id :: "toast_globals \<Rightarrow> string \<times> toast_globals" where
  "gen_id g = (let c = (tg_count g + 1) mod max_safe_integer in (dec_string c, g\<lparr>tg_count := c\<rparr>))"

text \<open>The identifiers of \<open>k\<close> successive calls of \<open>genId\<close>.\<close>

fun gen_ids :: "nat \<Rightarrow> toast_globals \<Rightarrow> string list" where
  "gen_ids 0 g = []"
| "gen_ids (Suc k) g = (let (i, g1) = gen_id g in i # gen_ids k g1)"

section \<open>The reducer and dispatch\<close>

definition add_to_remove_queue :: "string \<Rightarrow> toast_globals \<Rightarrow> toast_globals" where
  "add_to_remove_queue i g =
     (if i \<in> set (toast_timeouts g) then g else g\<lparr>toast_timeouts := toast_timeouts g @ [i]\<rparr>)"

definition merge_toast :: "toaster_toast \<Rightarrow> toast_patch \<Rightarrow> toaster_toast" where
  "merge_toast t p =
     t\<lparr>tt_open := case_option (tt_open t) id (up_open p),
       tt_props := \<lparr>notice_title = case_option (notice_title (tt_props t)) id (up_title p),
                    notice_description = case_option (notice_description (tt_props t)) id (up_description p),
                    notice_destructive = case_option (notice_destructive (tt_props t)) id (up_destructive p)\<rparr>\<rparr>"

text \<open>
  \<open>DISMISS_TOAST\<close> queues the removal of the named toast, or, when the id is
  \<open>undefined\<close> or the empty string (both falsy), of every toast shown; it then closes the
  toasts whose id equals the given one, or all of them when the id is \<open>undefined\<close>.
\<close>

fun reducer :: "toast_action \<Rightarrow> toast_globals \<Rightarrow> toast_globals" where
  "reducer (Add_Toast t) g = g\<lparr>memory_state := take toast_limit (t # memory_state g)\<rparr>"
| "reducer (Update_Toast i p) g =
     g\<lparr>memory_state := map (\<lambda>t. if tt_id t = i then merge_toast t p else t) (memory_state g)\<rparr>"
| "reducer (Dismiss_Toast tid) g =
     (let g1 = (case tid of
                  Some i \<Rightarrow> if i \<noteq> [] then add_to_remove_queue i g
                            else fold add_to_remove_queue (map tt_id (memory_state g)) g
                | None \<Rightarrow> fold add_to_remove_queue (map tt_id (memory_state g)) g)
      in g1\<lparr>memory_state := map (\<lambda>t. if tid = Some (tt_id t) \<or> tid = None then t\<lparr>tt_open := False\<rparr> else t)
                                (memory_state g)\<rparr>)"
| "reducer (Remove_Toast tid) g =
     g\<lparr>memory_state := (case tid of None \<Rightarrow> [] | Some i \<Rightarrow> filter (\<lambda>t. tt_id t \<noteq> i) (memory_state g))\<rparr>"

text \<open>\<open>toast(props)\<close>: a fresh id, then \<open>ADD_TOAST\<close> of an open toast; returns the id.\<close>

definition toast_fn :: "notice \<Rightarrow> toast_globals \<Rightarrow> string \<times> toast_globals" where
  "toast_fn n g = (let (i, g1) = gen_id g in (i, reducer (Add_Toast \<lparr>tt_id = i, tt_open = True, tt_props = n\<rparr>) g1))"

text \<open>The removal timer of a queued id fires: it leaves the map, then \<open>REMOVE_TOAST\<close>.\<close>

definition fire_timeout :: "string \<Rightarrow> toast_globals \<Rightarrow> toast_globals" where
  "fire_timeout i g =
     (if i \<in> set (toast_timeouts g)
      then reducer (Remove_Toast (Some i)) (g\<lparr>toast_timeouts := removeAll i (toast_timeouts g)\<rparr>)
      else g)"

text \<open>
  The events that reach the store: a \<open>toast()\<close> call, the \<open>dismiss\<close> of a returned
  handle (also what \<open>onOpenChange(false)\<close> runs), the \<open>dismiss()\<close> of \<open>useToast\<close>
  with or without an id, an \<open>update\<close> of a handle, and a removal timer firing.
\<close>

datatype toast_event =
    Call_Toast notice
  | Call_Dismiss "string option"
  | Call_Update string toast_patch
  | Timer_Fires string

fun toast_event_step :: "toast_event \<Rightarrow> toast_globals \<Rightarrow> toast_globals" where
  "toast_event_step (Call_Toast n) g = snd (toast_fn n g)"
| "toast_event_step (Call_Dismiss tid) g = reducer (Dismiss_Toast tid) g"
| "toast_event_step (Call_Update i p) g = reducer (Update_Toast i p) g"
| "toast_event_step (Timer_Fires i) g = fire_timeout i g"

inductive toast_reachable :: "toast_globals \<Rightarrow> bool" where
  toast_init: "toast_reachable init_toasts"
| toast_step: "toast_reachable g \<Longrightarrow> toast_reachable (toast_event_step e g)"

inductive_cases toast_reachable_cases: "toast_reachable g"

text \<open>The toasts a sequence of \<open>toast()\<close> calls leaves on screen.\<close>

definition show_all :: "notice list \<Rightarrow> toast_globals \<Rightarrow> toast_globals" where
  "show_all ns g = fold (\<lambda>n. toast_event_step (Call_Toast n)) ns g"

definition sample_notice :: "string \<Rightarrow> notice" where
  "sample_notice t = \<lparr>notice_title = t, notice_description = [], notice_destructive = False\<rparr>"

text \<open>Reading the digits back, to show that distinct counters give distinct strings.\<close>

definition dec_value :: "string \<Rightarrow> nat" where
  "dec_value s = foldl (\<lambda>a c. 10 * a + (of_char c - 48)) 0 s"

section \<open>Invariant\<close>

definition toast_wf :: "toast_globals \<Rightarrow> bool" where
  "toast_wf g \<longleftrightarrow> length (memory_state g) \<le> toast_limit \<and> distinct (toast_timeouts g) \<and>
     tg_count g < max_safe_integer"

section \<open>Facts of the identifier generator\<close>

lemma gen_ids_numeral [simp]:
  "gen_ids (numeral k) g = (let (i, g1) = gen_id g in i # gen_ids (pred_numeral k) g1)"
  by (simp add: numeral_eq_Suc)

lemma max_safe_integer_pos [simp]: "0 < max_safe_integer"
  by (simp add: max_safe_integer_def)

lemma of_char_dec_digit: "d < 10 \<Longrightarrow> of_char (dec_digit d) = 48 + d"
proof -
  assume "d < 10"
  then have "d \<in> {0, 1, 2, 3, 4, 5, 6, 7, 8, 9}" by auto
  then show ?thesis by (auto simp: dec_digit_def)
qed

lemma dec_value_dec_string: "dec_value (dec_string n) = n"
proof (induction n rule: dec_string.induct)
  case (1 n)
  show ?case
  proof (cases "n < 10")
    case True
    then show ?thesis by (simp add: dec_string.simps dec_value_def of_char_dec_digit)
  next
    case False
    then have "dec_value (dec_string (n div 10)) = n div 10" using 1 by simp
    with False show ?thesis
      by (simp add: dec_string.simps [of n] dec_value_def of_char_dec_digit)
  qed
qed

lemma dec_string_inj: "dec_string m = dec_string n \<longleftrightarrow> m = n"
  by (metis dec_value_dec_string)

lemma gen_ids_counters:
  "gen_ids k g = map (\<lambda>j. dec_string ((tg_count g + j) mod max_safe_integer)) [1..<Suc k]"
proof (induction k arbitrary: g)
  case 0
  then show ?case by simp
next
  case (Suc k)
  have "[1..<Suc (Suc k)] = 1 # map Suc [1..<Suc k]"
    by (simp add: map_Suc_upt upt_conv_Cons del: upt_Suc)
  with Suc show ?case
    by (simp add: gen_id_def Let_def mod_add_left_eq comp_def)
qed

section \<open>Facts of the reducer\<close>

lemma distinct_add_to_remove_queue:
  "distinct (toast_timeouts g) \<Longrightarrow> distinct (toast_timeouts (add_to_remove_queue i g))"
  by (simp add: add_to_remove_queue_def)

lemma add_to_remove_queue_sel [simp]:
  "memory_state (add_to_remove_queue i g) = memory_state g"
  "tg_count (add_to_remove_queue i g) = tg_count g"
  by (simp_all add: add_to_remove_queue_def)

lemma fold_add_to_remove_queue:
  "distinct (toast_timeouts g) \<Longrightarrow>
   distinct (toast_timeouts (fold add_to_remove_queue is g)) \<and>
   memory_state (fold add_to_remove_queue is g) = memory_state g \<and>
   tg_count (fold add_to_remove_queue is g) = tg_count g"
  by (induction "is" arbitrary: g) (simp_all add: distinct_add_to_remove_queue)

lemma reducer_wf: "toast_wf g \<Longrightarrow> toast_wf (reducer a g)"
proof (cases a)
  case (Dismiss_Toast tid)
  moreover assume "toast_wf g"
  ultimately show ?thesis
    by (auto simp: toast_wf_def Let_def fold_add_to_remove_queue distinct_add_to_remove_queue
        split: option.split)
qed (auto simp: toast_wf_def toast_limit_def split: option.split)

lemma toast_event_step_wf: "toast_wf g \<Longrightarrow> toast_wf (toast_event_step e g)"
proof (cases e)
  case (Call_Toast n)
  moreover assume "toast_wf g"
  ultimately show ?thesis
    by (simp add: toast_fn_def gen_id_def Let_def reducer_wf toast_wf_def toast_limit_def)
next
  case (Timer_Fires i)
  assume "toast_wf g"
  show ?thesis
  proof -
    have "toast_wf (g\<lparr>toast_timeouts := removeAll i (toast_timeouts g)\<rparr>)"
      using \<open>toast_wf g\<close> by (simp add: toast_wf_def distinct_removeAll)
    with Timer_Fires \<open>toast_wf g\<close> show ?thesis by (simp add: fire_timeout_def reducer_wf del: reducer.simps)
  qed
qed (simp_all add: reducer_wf del: reducer.simps)

lemma toast_fn_memory:
  "memory_state (snd (toast_fn n g)) = [\<lparr>tt_id = fst (toast_fn n g), tt_open = True, tt_props = n\<rparr>]"
  by (simp add: toast_fn_def gen_id_def Let_def toast_limit_def)

section \<open>Properties\<close>

text \<open>
  C35. The toast store keeps its shape in every reachable state: at most
  \<open>TOAST_LIMIT\<close> = 1 toast in \<open>memoryState\<close>, no id queued twice for removal, and the
  counter below \<open>MAX_SAFE_INTEGER\<close>.
\<close>

theorem toast_reachable_wf: "toast_reachable g \<Longrightarrow> toast_wf g"
  by (induction rule: toast_reachable.induct)
     (simp_all add: toast_wf_def init_toasts_def toast_event_step_wf [unfolded toast_wf_def])

theorem toast_reachable_wf_witness:
  "toast_wf (toast_event_step (Timer_Fires ''1'') (toast_event_step (Call_Dismiss (Some ''1''))
     (toast_event_step (Call_Toast (sample_notice ''Hi'')) init_toasts)))"
  by (rule toast_reachable_wf [OF toast_step [OF toast_step [OF toast_step [OF toast_init]]]])

text \<open>
  C38. \<open>genId\<close> never hands out the same id twice within \<open>MAX_SAFE_INTEGER\<close>
  successive calls, whatever the counter's start, and does after one call more: the
  wrap-around bounds the uniqueness of toast ids exactly.
\<close>

theorem toast_ids_unique: "distinct (gen_ids k g) \<longleftrightarrow> k \<le> max_safe_integer"
proof -
  have "gen_ids k g = map dec_string (map (\<lambda>j. (tg_count g + j) mod max_safe_integer) [1..<Suc k])"
    by (simp add: gen_ids_counters)
  moreover have "inj_on dec_string X" for X by (simp add: inj_on_def dec_string_inj)
  ultimately show ?thesis by (simp only: distinct_map [of dec_string] counters_distinct [OF max_safe_integer_pos]) simp
qed

theorem toast_ids_unique_witness: "distinct (gen_ids 3 init_toasts)"
  using toast_ids_unique [of 3 init_toasts] by (simp add: max_safe_integer_def)

text \<open>
  With \<open>TOAST_LIMIT\<close> = 1, after a sequence of \<open>toast()\<close> calls exactly one toast
  is on screen: the last one raised, open.
\<close>

theorem show_all_latest:
  "ns \<noteq> [] \<Longrightarrow> map (\<lambda>t. (tt_props t, tt_open t)) (memory_state (show_all ns g)) = [(last ns, True)]"
proof (induction ns arbitrary: g rule: rev_induct)
  case (snoc n ns)
  then show ?case by (simp add: show_all_def toast_fn_memory)
qed simp

theorem show_all_latest_witness:
  "map (\<lambda>t. (tt_props t, tt_open t)) (memory_state (show_all [sample_notice ''A'', sample_notice ''B''] init_toasts))
     = [(sample_notice ''B'', True)]"
  using show_all_latest [of "[sample_notice ''A'', sample_notice ''B'']" init_toasts] by simp

text \<open>
  Dismissing a toast by its id and letting its removal timer fire removes it from
  \<open>memoryState\<close> and from the removal queue.
\<close>

lemma dismiss_then_timer_removes:
  "i \<noteq> [] \<Longrightarrow>
   i \<notin> tt_id ` set (memory_state (fire_timeout i (reducer (Dismiss_Toast (Some i)) g))) \<and>
   i \<notin> set (toast_timeouts (fire_timeout i (reducer (Dismiss_Toast (Some i)) g)))"
  by (auto simp: fire_timeout_def add_to_remove_queue_def)

end
