(* ===== verification/Ticket_Store.thy ===== *)
theory Ticket_Store
  imports Gateway Toast
begin

text \<open>
  The ticket repository and activity log: the state and the operations of
  \<open>TicketProvider\<close> in \<open>src/client/src/context/TicketContext.tsx\<close>. The provider's
  React state (\<open>tickets\<close>, \<open>activities\<close>, \<open>loading\<close>, \<open>error\<close>) is a record, and
  so are its two effects on the outside world: the requests it sends (through the service
  functions of \<open>Gateway\<close>) and the toasts it raises (through \<open>toast()\<close> of
  \<open>use-toast.ts\<close>), both as logs that only grow. Each asynchronous operation is split at
  its \<open>await\<close>: \<open>issue\<close> is what happens before it (loading on, request sent), the
  \<open>*_settle\<close> function what happens when the gateway answers; the operation itself is
  the two in sequence. The \<open>setX(prev => ...)\<close> updaters are applied to the state at
  settle time, as React applies them to the latest state.
\<close>

section \<open>State\<close>

record ticket_ctx =
  tickets :: "ticket list"
  activities :: "ticket_activity list"
  loading :: bool
  ctx_error :: "string option"
  requests :: "api_request list"
  notices :: "notice list"

text \<open>\<open>useState([])\<close>, \<open>useState(true)\<close> for loading, \<open>useState(null)\<close>.\<close>

definition init_ctx :: ticket_ctx where
  "init_ctx = \<lparr>tickets = [], activities = [], loading = True, ctx_error = None,
     requests = [], notices = []\<rparr>"

definition issue :: "api_request \<Rightarrow> ticket_ctx \<Rightarrow> ticket_ctx" where
  "issue r c = c\<lparr>loading := True, requests := requests c @ [r]\<rparr>"

definition toast :: "notice \<Rightarrow> ticket_ctx \<Rightarrow> ticket_ctx" where
  "toast n c = c\<lparr>notices := notices c @ [n]\<rparr>"

definition done_loading :: "ticket_ctx \<Rightarrow> ticket_ctx" where
  "done_loading c = c\<lparr>loading := False\<rparr>"

section \<open>Toasts the provider raises\<close>

definition fetch_failed_notice :: notice where
  "fetch_failed_notice = \<lparr>notice_title = ''Error'',
     notice_description = ''Failed to load tickets. Please try again later.'', notice_destructive = True\<rparr>"

definition created_notice :: notice where
  "created_notice = \<lparr>notice_title = ''Ticket Created'',
     notice_description = ''Your ticket has been submitted successfully.'', notice_destructive = False\<rparr>"

definition create_failed_notice :: notice where
  "create_failed_notice = \<lparr>notice_title = ''Error'',
     notice_description = ''Failed to create ticket. Please try again.'', notice_destructive = True\<rparr>"

definition updated_notice :: notice where
  "updated_notice = \<lparr>notice_title = ''Ticket Updated'',
     notice_description = ''Ticket has been updated successfully.'', notice_destructive = False\<rparr>"

definition update_failed_notice :: notice where
  "update_failed_notice = \<lparr>notice_title = ''Error'',
     notice_description = ''Failed to update ticket. Please try again.'', notice_destructive = True\<rparr>"

definition activity_failed_notice :: notice where
  "activity_failed_notice = \<lparr>notice_title = ''Error'',
     notice_description = ''Failed to add comment or update. Please try again.'', notice_destructive = True\<rparr>"

section \<open>Operations\<close>

text \<open>
  \<open>fetchTickets\<close>: the snapshot is replaced wholesale by the converted list; on a
  rejection the old snapshot stays, the error message is set and a toast raised.
\<close>

definition fetch_tickets_settle :: "django_ticket list response \<Rightarrow> ticket_ctx \<Rightarrow> ticket_ctx" where
  "fetch_tickets_settle r c = done_loading (case r of
       Inr ds \<Rightarrow> c\<lparr>tickets := map ticket_of_django ds, ctx_error := None\<rparr>
     | Inl _ \<Rightarrow> toast fetch_failed_notice (c\<lparr>ctx_error := Some ''Failed to load tickets from server''\<rparr>))"

definition fetch_tickets :: "django_ticket list response \<Rightarrow> ticket_ctx \<Rightarrow> ticket_ctx" where
  "fetch_tickets r c = fetch_tickets_settle r (issue List_Tickets c)"

text \<open>
  \<open>createTicket\<close>: the DTO is sent, the server's record is converted and appended.
  No field of the input is checked here (the submit form validates before calling).
\<close>

definition create_ticket_settle ::
  "django_ticket response \<Rightarrow> ticket_ctx \<Rightarrow> ticket response \<times> ticket_ctx" where
  "create_ticket_settle r c = (case r of
       Inr d \<Rightarrow> (let t = ticket_of_django d in
                 (Inr t, done_loading (toast created_notice (c\<lparr>tickets := tickets c @ [t]\<rparr>))))
     | Inl e \<Rightarrow> (Inl e, done_loading (toast create_failed_notice c)))"

definition create_ticket ::
  "ticket_input \<Rightarrow> django_ticket response \<Rightarrow> ticket_ctx \<Rightarrow> ticket response \<times> ticket_ctx" where
  "create_ticket i r c = create_ticket_settle r (issue (Create_Ticket (create_dto_of_input i)) c)"

text \<open>
  \<open>updateTicket\<close>: the PATCH carries the fields of the partial ticket; every snapshot
  entry whose id is the requested id is replaced by the server's record. The id is not
  looked up first: an id absent from the snapshot is still sent.
\<close>

definition update_ticket_settle ::
  "ident \<Rightarrow> django_ticket response \<Rightarrow> ticket_ctx \<Rightarrow> ticket response \<times> ticket_ctx" where
  "update_ticket_settle i r c = (case r of
       Inr d \<Rightarrow> (let t = ticket_of_django d in
                 (Inr t, done_loading (toast updated_notice
                    (c\<lparr>tickets := replace_where (\<lambda>x. ticket_id x = i) t (tickets c)\<rparr>))))
     | Inl e \<Rightarrow> (Inl e, done_loading (toast update_failed_notice c)))"

definition update_ticket ::
  "ident \<Rightarrow> ticket_patch \<Rightarrow> django_ticket response \<Rightarrow> ticket_ctx \<Rightarrow> ticket response \<times> ticket_ctx" where
  "update_ticket i u r c = update_ticket_settle i r (issue (Update_Ticket i (update_dto_of_patch u)) c)"

text \<open>\<open>addActivity\<close>: the server's record is appended; success raises no toast.\<close>

definition add_activity_settle ::
  "django_activity response \<Rightarrow> ticket_ctx \<Rightarrow> ticket_activity response \<times> ticket_ctx" where
  "add_activity_settle r c = (case r of
       Inr da \<Rightarrow> (let a = activity_of_django da in
                  (Inr a, done_loading (c\<lparr>activities := activities c @ [a]\<rparr>)))
     | Inl e \<Rightarrow> (Inl e, done_loading (toast activity_failed_notice c)))"

definition add_activity ::
  "activity_input \<Rightarrow> django_activity response \<Rightarrow> ticket_ctx \<Rightarrow> ticket_activity response \<times> ticket_ctx" where
  "add_activity a r c = add_activity_settle r (issue (Create_Activity (activity_dto_of_input a)) c)"

section \<open>Synchronous helpers\<close>

definition get_ticket_by_id :: "ticket_ctx \<Rightarrow> ident \<Rightarrow> ticket option" where
  "get_ticket_by_id c i = find (\<lambda>t. ticket_id t = i) (tickets c)"

definition get_activities_by_ticket_id :: "ticket_ctx \<Rightarrow> ident \<Rightarrow> ticket_activity list" where
  "get_activities_by_ticket_id c i = filter (\<lambda>a. activity_ticket_id a = i) (activities c)"

definition filter_tickets ::
  "ticket_ctx \<Rightarrow> ticket_status option \<Rightarrow> ticket_priority option \<Rightarrow> ticket list" where
  "filter_tickets c fs fp = filter (\<lambda>t.
       (case fs of Some s \<Rightarrow> status t = s | None \<Rightarrow> True) \<and>
       (case fp of Some p \<Rightarrow> priority t = p | None \<Rightarrow> True)) (tickets c)"

section \<open>The operations as one step function\<close>

text \<open>
  The four operations that change the provider's state, with the gateway's answer, as a
  datatype; \<open>ctx_step\<close> runs one of them to completion and \<open>ctx_run\<close> a sequence.
\<close>

datatype ctx_op =
    Fetch "django_ticket list response"
  | Create ticket_input "django_ticket response"
  | Update ident ticket_patch "django_ticket response"
  | Add_Activity activity_input "django_activity response"

fun ctx_step :: "ctx_op \<Rightarrow> ticket_ctx \<Rightarrow> ticket_ctx" where
  "ctx_step (Fetch r) c = fetch_tickets r c"
| "ctx_step (Create i r) c = snd (create_ticket i r c)"
| "ctx_step (Update i u r) c = snd (update_ticket i u r c)"
| "ctx_step (Add_Activity a r) c = snd (add_activity a r c)"

fun ctx_run :: "ctx_op list \<Rightarrow> ticket_ctx \<Rightarrow> ticket_ctx" where
  "ctx_run [] c = c"
| "ctx_run (op # ops) c = ctx_run ops (ctx_step op c)"

fun op_request :: "ctx_op \<Rightarrow> api_request" where
  "op_request (Fetch _) = List_Tickets"
| "op_request (Create i _) = Create_Ticket (create_dto_of_input i)"
| "op_request (Update i u _) = Update_Ticket i (update_dto_of_patch u)"
| "op_request (Add_Activity a _) = Create_Activity (activity_dto_of_input a)"

lemmas store_defs = issue_def toast_def done_loading_def
  fetch_tickets_settle_def fetch_tickets_def create_ticket_settle_def create_ticket_def
  update_ticket_settle_def update_ticket_def add_activity_settle_def add_activity_def

section \<open>Frame lemmas\<close>

lemma issue_sel [simp, frame_simps]:
  "tickets (issue r c) = tickets c" "activities (issue r c) = activities c"
  "ctx_error (issue r c) = ctx_error c" "notices (issue r c) = notices c"
  "requests (issue r c) = requests c @ [r]" "loading (issue r c) = True"
  by (simp_all add: issue_def)

lemma toast_sel [simp, frame_simps]:
  "tickets (toast n c) = tickets c" "activities (toast n c) = activities c"
  "ctx_error (toast n c) = ctx_error c" "requests (toast n c) = requests c"
  "loading (toast n c) = loading c" "notices (toast n c) = notices c @ [n]"
  by (simp_all add: toast_def)

lemma done_loading_sel [simp, frame_simps]:
  "tickets (done_loading c) = tickets c" "activities (done_loading c) = activities c"
  "ctx_error (done_loading c) = ctx_error c" "requests (done_loading c) = requests c"
  "notices (done_loading c) = notices c" "loading (done_loading c) = False"
  by (simp_all add: done_loading_def)

section \<open>The gateway's contract\<close>

text \<open>
  What the backend promises (spec, section 6), stated on the records it returns: a
  created ticket starts as \<open>new\<close> and echoes the submitted fields, an updated ticket
  keeps its id and carries the patched fields, a created activity echoes its DTO, and
  every ticket has \<open>updated_at \<ge> created_at\<close>. The client checks none of this; the
  invariants below hold for runs in which the backend keeps it.
\<close>

definition ticket_wf :: "ticket \<Rightarrow> bool" where
  "ticket_wf t \<longleftrightarrow> created_at t \<le> updated_at t"

definition snapshot_ok :: "ticket list \<Rightarrow> bool" where
  "snapshot_ok ts \<longleftrightarrow> distinct (map ticket_id ts) \<and> list_all ticket_wf ts"

definition create_contract :: "create_ticket_dto \<Rightarrow> django_ticket \<Rightarrow> bool" where
  "create_contract dto d \<longleftrightarrow>
     dj_status d = New \<and> dj_title d = ct_title dto \<and> dj_description d = ct_description dto \<and>
     dj_priority d = ct_priority dto \<and> dj_created_by_name d = ct_created_by_name dto \<and>
     dj_created_by_email d = ct_created_by_email dto \<and> dj_assigned_to d = None \<and>
     dj_created_at d \<le> dj_updated_at d"

definition update_contract :: "ident \<Rightarrow> update_ticket_dto \<Rightarrow> django_ticket \<Rightarrow> bool" where
  "update_contract i u d \<longleftrightarrow>
     dj_id d = i \<and> dj_created_at d \<le> dj_updated_at d \<and>
     (case ut_title u of Some x \<Rightarrow> dj_title d = x | None \<Rightarrow> True) \<and>
     (case ut_description u of Some x \<Rightarrow> dj_description d = x | None \<Rightarrow> True) \<and>
     (case ut_status u of Some x \<Rightarrow> dj_status d = x | None \<Rightarrow> True) \<and>
     (case ut_priority u of Some x \<Rightarrow> dj_priority d = x | None \<Rightarrow> True)"

definition activity_contract :: "create_activity_dto \<Rightarrow> django_activity \<Rightarrow> bool" where
  "activity_contract a d \<longleftrightarrow>
     da_ticket d = ca_ticket a \<and> da_type d = ca_type a \<and> da_message d = ca_message a \<and>
     da_created_by d = ca_created_by a"

text \<open>A created ticket's id is new to the snapshot: the backend assigns it.\<close>

fun gateway_honours :: "ticket_ctx \<Rightarrow> ctx_op \<Rightarrow> bool" where
  "gateway_honours c (Fetch r) = (case r of Inr ds \<Rightarrow> snapshot_ok (map ticket_of_django ds) | Inl _ \<Rightarrow> True)"
| "gateway_honours c (Create i r) = (case r of
     Inr d \<Rightarrow> create_contract (create_dto_of_input i) d \<and> dj_id d \<notin> set (map ticket_id (tickets c))
   | Inl _ \<Rightarrow> True)"
| "gateway_honours c (Update i u r) = (case r of
     Inr d \<Rightarrow> update_contract i (update_dto_of_patch u) d | Inl _ \<Rightarrow> True)"
| "gateway_honours c (Add_Activity a r) = (case r of
     Inr d \<Rightarrow> activity_contract (activity_dto_of_input a) d | Inl _ \<Rightarrow> True)"

text \<open>The states the provider reaches from its first render when the backend keeps its contract.\<close>

inductive ctx_reachable :: "ticket_ctx \<Rightarrow> bool" where
  start: "ctx_reachable init_ctx"
| step: "ctx_reachable c \<Longrightarrow> gateway_honours c op \<Longrightarrow> ctx_reachable (ctx_step op c)"

fun op_failed :: "ctx_op \<Rightarrow> bool" where
  "op_failed (Fetch r) = isl r"
| "op_failed (Create _ r) = isl r"
| "op_failed (Update _ _ r) = isl r"
| "op_failed (Add_Activity _ r) = isl r"

section \<open>Each operation on each branch\<close>

lemma fetch_tickets_Inr:
  "fetch_tickets (Inr ds) c = c\<lparr>tickets := map ticket_of_django ds, ctx_error := None,
     loading := False, requests := requests c @ [List_Tickets]\<rparr>"
  by (simp add: store_defs)

lemma fetch_tickets_Inl:
  "fetch_tickets (Inl e) c = c\<lparr>ctx_error := Some ''Failed to load tickets from server'',
     loading := False, requests := requests c @ [List_Tickets], notices := notices c @ [fetch_failed_notice]\<rparr>"
  by (simp add: store_defs)

lemma create_ticket_Inr:
  "create_ticket i (Inr d) c = (Inr (ticket_of_django d),
     c\<lparr>tickets := tickets c @ [ticket_of_django d], loading := False,
       requests := requests c @ [Create_Ticket (create_dto_of_input i)],
       notices := notices c @ [created_notice]\<rparr>)"
  by (simp add: store_defs Let_def)

lemma create_ticket_Inl:
  "create_ticket i (Inl e) c = (Inl e, c\<lparr>loading := False,
     requests := requests c @ [Create_Ticket (create_dto_of_input i)], notices := notices c @ [create_failed_notice]\<rparr>)"
  by (simp add: store_defs)

lemma update_ticket_Inr:
  "update_ticket i u (Inr d) c = (Inr (ticket_of_django d),
     c\<lparr>tickets := replace_where (\<lambda>x. ticket_id x = i) (ticket_of_django d) (tickets c), loading := False,
       requests := requests c @ [Update_Ticket i (update_dto_of_patch u)],
       notices := notices c @ [updated_notice]\<rparr>)"
  by (simp add: store_defs Let_def)

lemma update_ticket_Inl:
  "update_ticket i u (Inl e) c = (Inl e, c\<lparr>loading := False,
     requests := requests c @ [Update_Ticket i (update_dto_of_patch u)], notices := notices c @ [update_failed_notice]\<rparr>)"
  by (simp add: store_defs)

lemma add_activity_Inr:
  "add_activity a (Inr da) c = (Inr (activity_of_django da),
     c\<lparr>activities := activities c @ [activity_of_django da], loading := False,
       requests := requests c @ [Create_Activity (activity_dto_of_input a)]\<rparr>)"
  by (simp add: store_defs Let_def)

lemma add_activity_Inl:
  "add_activity a (Inl e) c = (Inl e, c\<lparr>loading := False,
     requests := requests c @ [Create_Activity (activity_dto_of_input a)], notices := notices c @ [activity_failed_notice]\<rparr>)"
  by (simp add: store_defs)

lemmas store_branches = fetch_tickets_Inr fetch_tickets_Inl create_ticket_Inr create_ticket_Inl
  update_ticket_Inr update_ticket_Inl add_activity_Inr add_activity_Inl

text \<open>Case analysis on an operation together with the gateway's answer to it.\<close>

lemma ctx_op_response_cases [case_names fetch_err fetch_ok create_err create_ok
    update_err update_ok activity_err activity_ok]:
  obtains (fetch_err) e where "op = Fetch (Inl e)"
  | (fetch_ok) ds where "op = Fetch (Inr ds)"
  | (create_err) i e where "op = Create i (Inl e)"
  | (create_ok) i d where "op = Create i (Inr d)"
  | (update_err) i u e where "op = Update i u (Inl e)"
  | (update_ok) i u d where "op = Update i u (Inr d)"
  | (activity_err) a e where "op = Add_Activity a (Inl e)"
  | (activity_ok) a d where "op = Add_Activity a (Inr d)"
  by (metis ctx_op.exhaust sumE)

lemma ctx_step_requests: "requests (ctx_step op c) = requests c @ [op_request op]"
  by (cases op rule: ctx_op_response_cases) (simp_all add: store_branches)

lemma ctx_step_activities_prefix: "prefix (activities c) (activities (ctx_step op c))"
  by (cases op rule: ctx_op_response_cases) (simp_all add: store_branches)

lemma get_ticket_by_id_Some: "get_ticket_by_id c i = Some t \<Longrightarrow> ticket_id t = i \<and> t \<in> set (tickets c)"
  by (auto simp: get_ticket_by_id_def find_Some_iff)

section \<open>The snapshot invariant\<close>

lemma snapshot_ok_append:
  "snapshot_ok ts \<Longrightarrow> ticket_id t \<notin> set (map ticket_id ts) \<Longrightarrow> ticket_wf t \<Longrightarrow> snapshot_ok (ts @ [t])"
  by (simp add: snapshot_ok_def)

lemma snapshot_ok_replace:
  assumes "snapshot_ok ts" "ticket_id t = i" "ticket_wf t"
  shows "snapshot_ok (replace_where (\<lambda>x. ticket_id x = i) t ts)"
proof -
  have "map ticket_id (replace_where (\<lambda>x. ticket_id x = i) t ts) = map ticket_id ts"
    using assms(2) by (rule map_key_replace_where)
  moreover have "list_all ticket_wf (replace_where (\<lambda>x. ticket_id x = i) t ts)"
    using assms(1,3) by (auto simp: snapshot_ok_def list_all_iff set_replace_where)
  ultimately show ?thesis using assms(1) by (simp add: snapshot_ok_def)
qed

lemma ctx_step_snapshot_ok:
  "snapshot_ok (tickets c) \<Longrightarrow> gateway_honours c op \<Longrightarrow> snapshot_ok (tickets (ctx_step op c))"
  by (cases op rule: ctx_op_response_cases)
    (auto simp: store_branches create_contract_def update_contract_def ticket_wf_def
      intro!: snapshot_ok_append snapshot_ok_replace)

section \<open>Sample data\<close>

text \<open>The ticket of the spec's scenario, as the backend returns it after creation.\<close>

definition demo_input :: ticket_input where
  "demo_input = \<lparr>in_title = ''Login broken'', in_description = ''Cannot log in since update'',
     in_priority = High, in_created_by = \<lparr>creator_name = ''Ana'', creator_email = ''ana@x.com''\<rparr>\<rparr>"

definition demo_django_ticket :: django_ticket where
  "demo_django_ticket = \<lparr>dj_id = ''t1'', dj_title = ''Login broken'',
     dj_description = ''Cannot log in since update'', dj_status = New, dj_priority = High,
     dj_created_by_name = ''Ana'', dj_created_by_email = ''ana@x.com'', dj_assigned_to = None,
     dj_created_at = 1000, dj_updated_at = 1000\<rparr>"

lemmas demo_defs = demo_input_def demo_django_ticket_def

section \<open>Properties of the repository\<close>

text \<open>
  C7. \<open>createTicket\<close> on a backend that keeps its contract returns a ticket whose
  status is \<open>new\<close>, with the submitted priority, title, description and requester, and
  appends exactly that ticket to the end of the snapshot.
\<close>

theorem create_ticket_status_new:
  assumes "create_contract (create_dto_of_input i) d"
    and "create_ticket i (Inr d) c = (r, c')"
  shows "\<exists>t. r = Inr t \<and> status t = New \<and> priority t = in_priority i \<and> title t = in_title i \<and>
           description t = in_description i \<and> created_by t = in_created_by i \<and>
           tickets c' = tickets c @ [t]"
  using assms by (auto simp: create_ticket_Inr create_contract_def create_dto_of_input_def ticket_of_django_def)

theorem create_ticket_status_new_witness:
  "\<exists>t. fst (create_ticket demo_input (Inr demo_django_ticket) init_ctx) = Inr t \<and> status t = New \<and>
     priority t = High \<and> tickets (snd (create_ticket demo_input (Inr demo_django_ticket) init_ctx)) = [t]"
proof -
  have "create_contract (create_dto_of_input demo_input) demo_django_ticket"
    by (simp add: create_contract_def create_dto_of_input_def demo_defs)
  from create_ticket_status_new [where c = init_ctx, OF this prod.collapse [symmetric]]
  show ?thesis by (auto simp: demo_defs init_ctx_def)
qed

text \<open>
  C8. \<open>updateTicket\<close> never merges: when the backend answers for the requested id, the
  snapshot entry with that id becomes the server's record, every other lookup is
  unchanged, and the snapshot keeps its length.
\<close>

theorem update_ticket_server_authoritative:
  assumes "dj_id d = i" and "update_ticket i u (Inr d) c = (r, c')"
  shows "r = Inr (ticket_of_django d) \<and>
    get_ticket_by_id c' i = map_option (\<lambda>_. ticket_of_django d) (get_ticket_by_id c i) \<and>
    (\<forall>j. j \<noteq> i \<longrightarrow> get_ticket_by_id c' j = get_ticket_by_id c j) \<and>
    length (tickets c') = length (tickets c)"
proof -
  have c': "tickets c' = replace_where (\<lambda>x. ticket_id x = i) (ticket_of_django d) (tickets c)"
    and r: "r = Inr (ticket_of_django d)"
    using assms(2) by (auto simp: update_ticket_Inr)
  have new: "get_ticket_by_id c' i =
      (if \<exists>x \<in> set (tickets c). ticket_id x = i then Some (ticket_of_django d) else None)"
    using assms(1) by (simp add: get_ticket_by_id_def c' find_replace_where)
  have "get_ticket_by_id c i = None \<longleftrightarrow> \<not> (\<exists>x \<in> set (tickets c). ticket_id x = i)"
    by (auto simp: get_ticket_by_id_def find_None_iff)
  then have "get_ticket_by_id c' i = map_option (\<lambda>_. ticket_of_django d) (get_ticket_by_id c i)"
    using new by (cases "get_ticket_by_id c i") auto
  moreover have "get_ticket_by_id c' j = get_ticket_by_id c j" if "j \<noteq> i" for j
    using assms(1) that by (simp add: get_ticket_by_id_def c' find_replace_where_other)
  ultimately show ?thesis using r c' by simp
qed

theorem update_ticket_server_authoritative_witness:
  "get_ticket_by_id (snd (update_ticket ''t1'' (empty_patch\<lparr>p_status := Some Open\<rparr>)
      (Inr (demo_django_ticket\<lparr>dj_status := Open\<rparr>)) (snd (create_ticket demo_input (Inr demo_django_ticket) init_ctx)))) ''t1''
   = Some (ticket_of_django (demo_django_ticket\<lparr>dj_status := Open\<rparr>))"
proof -
  let ?c = "snd (create_ticket demo_input (Inr demo_django_ticket) init_ctx)"
  let ?d = "demo_django_ticket\<lparr>dj_status := Open\<rparr>"
  have "dj_id ?d = ''t1''" by (simp add: demo_defs)
  from update_ticket_server_authoritative [OF this prod.collapse [symmetric]]
  have "get_ticket_by_id (snd (update_ticket ''t1'' (empty_patch\<lparr>p_status := Some Open\<rparr>) (Inr ?d) ?c)) ''t1''
      = map_option (\<lambda>_. ticket_of_django ?d) (get_ticket_by_id ?c ''t1'')"
    by blast
  then show ?thesis by (simp add: create_ticket_Inr get_ticket_by_id_def init_ctx_def demo_defs)
qed

text \<open>
  C9. An update for an id the snapshot does not hold is still sent, and when the backend
  accepts it the operation reports success (result and "Ticket Updated" toast) while the
  snapshot stays as it was: there is no not-found error on the client.
\<close>

theorem update_ticket_unknown_id:
  assumes "i \<notin> set (map ticket_id (tickets c))" and "update_ticket i u (Inr d) c = (r, c')"
  shows "r = Inr (ticket_of_django d) \<and> tickets c' = tickets c \<and>
    requests c' = requests c @ [Update_Ticket i (update_dto_of_patch u)] \<and>
    notices c' = notices c @ [updated_notice]"
  using assms by (auto simp: update_ticket_Inr intro!: replace_where_no_match)

theorem update_ticket_unknown_id_witness:
  "tickets (snd (update_ticket ''t9'' empty_patch (Inr demo_django_ticket) init_ctx)) = [] \<and>
   fst (update_ticket ''t9'' empty_patch (Inr demo_django_ticket) init_ctx) = Inr (ticket_of_django demo_django_ticket)"
proof -
  have "''t9'' \<notin> set (map ticket_id (tickets init_ctx))" by (simp add: init_ctx_def)
  from update_ticket_unknown_id [where u = empty_patch and d = demo_django_ticket, OF this prod.collapse [symmetric]]
  show ?thesis by (simp add: init_ctx_def)
qed

text \<open>
  A successful \<open>fetchTickets\<close> replaces the snapshot wholesale (last fetch wins,
  nothing of the previous snapshot is kept), clears the error and ends loading.
\<close>

theorem fetch_tickets_replaces:
  "tickets (fetch_tickets (Inr ds) c) = map ticket_of_django ds \<and>
   ctx_error (fetch_tickets (Inr ds) c) = None \<and> \<not> loading (fetch_tickets (Inr ds) c)"
  by (simp add: fetch_tickets_Inr)

text \<open>
  A failed \<open>fetchTickets\<close> keeps the previous snapshot, sets the error message,
  raises the error toast and ends loading.
\<close>

lemma fetch_tickets_failure_keeps:
  "tickets (fetch_tickets (Inl e) c) = tickets c \<and>
   ctx_error (fetch_tickets (Inl e) c) = Some ''Failed to load tickets from server'' \<and>
   notices (fetch_tickets (Inl e) c) = notices c @ [fetch_failed_notice] \<and>
   \<not> loading (fetch_tickets (Inl e) c)"
  by (simp add: fetch_tickets_Inl)

text \<open>
  C10. Failure atomicity of the repository: an operation the gateway rejects leaves the
  ticket snapshot and the activity log exactly as they were, and ends loading.
\<close>

theorem failed_op_keeps_snapshot:
  "op_failed op \<Longrightarrow> tickets (ctx_step op c) = tickets c \<and> activities (ctx_step op c) = activities c \<and>
     \<not> loading (ctx_step op c)"
  by (cases op rule: ctx_op_response_cases) (simp_all add: store_branches)

theorem failed_op_keeps_snapshot_witness:
  "tickets (ctx_step (Create demo_input (Inl Network_Failure)) init_ctx) = [] \<and>
   activities (ctx_step (Create demo_input (Inl Network_Failure)) init_ctx) = []"
  using failed_op_keeps_snapshot [of "Create demo_input (Inl Network_Failure)" init_ctx]
  by (simp add: init_ctx_def)

text \<open>
  C11. The activity log is append-only: over any sequence of provider operations, the
  log before is a prefix of the log after.
\<close>

theorem activities_append_only: "prefix (activities c) (activities (ctx_run ops c))"
proof (induction ops arbitrary: c)
  case Nil
  then show ?case by simp
next
  case (Cons op ops)
  then show ?case using ctx_step_activities_prefix prefix_order.order_trans by fastforce
qed

text \<open>
  \<open>filterTickets({status})\<close> over the five statuses partitions the snapshot: the
  five results together hold every ticket exactly as often as the snapshot does.
\<close>

theorem filter_tickets_partition:
  "(\<Sum>s\<leftarrow>all_statuses. mset (filter_tickets c (Some s) None)) = mset (tickets c)"
  by (simp add: filter_tickets_def sum_list_mset_filter_by_key del: mset_filter)

end
