(* ===== verification/Ticket_Workflow.thy ===== *)
theory Ticket_Workflow
  imports Ticket_Store
begin

text \<open>
  The ticket workflow controller: the detail page \<open>src/client/src/pages/admin/TicketDetail.tsx\<close>.
  Its own React state (the local activity list, the selected status and priority, the
  comment box, the submitting flag) is a record next to the provider's \<open>ticket_ctx\<close>;
  every handler takes and returns both. A status or priority change is the two-step
  protocol of the page: \<open>updateTicket\<close>, then, only if it resolved, \<open>addActivity\<close>
  with a message built from the page's previous selection. A handler exists only once the
  page has found its ticket in the snapshot (the page returns "Ticket Not Found" before
  defining them), so a handler run on an id missing from the snapshot does nothing.
\<close>

section \<open>State of the page\<close>

record detail_state =
  d_id :: ident
  d_activities :: "ticket_activity list"
  d_loading_activities :: bool
  d_status :: ticket_status
  d_priority :: ticket_priority
  d_comment :: string
  d_submitting :: bool

text \<open>
  The first render: the selections are initialised from the ticket found at that moment
  (\<open>ticket?.status || 'new'\<close>, \<open>ticket?.priority || 'medium'\<close>) and \<open>useState\<close>
  ignores its argument on every later render. The mount effect requests the ticket's
  activities through the service function directly, outside the provider.
\<close>

definition log_request :: "api_request \<Rightarrow> ticket_ctx \<Rightarrow> ticket_ctx" where
  "log_request r c = c\<lparr>requests := requests c @ [r]\<rparr>"

definition mount_detail :: "ident \<Rightarrow> ticket_ctx \<Rightarrow> detail_state \<times> ticket_ctx" where
  "mount_detail i c =
     (let t = get_ticket_by_id c i in
      (\<lparr>d_id = i, d_activities = [], d_loading_activities = (i \<noteq> []),
        d_status = (case t of Some x \<Rightarrow> status x | None \<Rightarrow> New),
        d_priority = (case t of Some x \<Rightarrow> priority x | None \<Rightarrow> Medium),
        d_comment = [], d_submitting = False\<rparr>,
       if i = [] then c else log_request (List_Activities i) c))"

definition activities_loaded :: "django_activity list response \<Rightarrow> detail_state \<Rightarrow> detail_state" where
  "activities_loaded r d = (case r of
       Inr raw \<Rightarrow> d\<lparr>d_activities := map activity_of_django raw, d_loading_activities := False\<rparr>
     | Inl _ \<Rightarrow> d\<lparr>d_loading_activities := False\<rparr>)"

section \<open>Strings of the page\<close>

definition display_name :: "app_user option \<Rightarrow> string" where
  "display_name u = (case u of
       None \<Rightarrow> ''System''
     | Some x \<Rightarrow> (if first_name x \<noteq> [] then first_name x @ '' '' @ last_name x else username x))"

definition status_message :: "ticket_status \<Rightarrow> ticket_status \<Rightarrow> string" where
  "status_message a b = ''Status changed from '' @ status_str a @ '' to '' @ status_str b"

definition priority_message :: "ticket_priority \<Rightarrow> ticket_priority \<Rightarrow> string" where
  "priority_message a b = ''Priority changed from '' @ priority_str a @ '' to '' @ priority_str b"

text \<open>
  \<open>String.prototype.trim\<close>: white space (\<open>js_space\<close> of the prelude) removed at both
  ends.
\<close>

definition js_trim :: "string \<Rightarrow> string" where
  "js_trim s = rev (dropWhile js_space (rev (dropWhile js_space s)))"

definition status_updated_notice :: "ticket_status \<Rightarrow> notice" where
  "status_updated_notice v = \<lparr>notice_title = ''Status Updated'',
     notice_description = ''Ticket status changed to '' @ status_str v, notice_destructive = False\<rparr>"

definition status_failed_notice :: notice where
  "status_failed_notice = \<lparr>notice_title = ''Update Failed'',
     notice_description = ''Failed to update ticket status'', notice_destructive = True\<rparr>"

definition priority_updated_notice :: "ticket_priority \<Rightarrow> notice" where
  "priority_updated_notice v = \<lparr>notice_title = ''Priority Updated'',
     notice_description = ''Ticket priority changed to '' @ priority_str v, notice_destructive = False\<rparr>"

definition priority_failed_notice :: notice where
  "priority_failed_notice = \<lparr>notice_title = ''Update Failed'',
     notice_description = ''Failed to update ticket priority'', notice_destructive = True\<rparr>"

definition comment_added_notice :: notice where
  "comment_added_notice = \<lparr>notice_title = ''Comment Added'',
     notice_description = ''Your comment has been added to the ticket'', notice_destructive = False\<rparr>"

definition comment_failed_notice :: notice where
  "comment_failed_notice = \<lparr>notice_title = ''Failed to Add Comment'',
     notice_description = ''There was an error adding your comment'', notice_destructive = True\<rparr>"

text \<open>The activity inputs the handlers pass to \<open>addActivity\<close>.\<close>

definition status_activity :: "app_user option \<Rightarrow> ident \<Rightarrow> ticket_status \<Rightarrow> ticket_status \<Rightarrow> activity_input" where
  "status_activity user i old v = \<lparr>ai_ticket_id = i, ai_type = Status_Change,
     ai_message = status_message old v, ai_created_by = display_name user\<rparr>"

definition priority_activity :: "app_user option \<Rightarrow> ident \<Rightarrow> ticket_priority \<Rightarrow> ticket_priority \<Rightarrow> activity_input" where
  "priority_activity user i old v = \<lparr>ai_ticket_id = i, ai_type = Priority_Change,
     ai_message = priority_message old v, ai_created_by = display_name user\<rparr>"

definition comment_activity :: "app_user option \<Rightarrow> ident \<Rightarrow> string \<Rightarrow> activity_input" where
  "comment_activity user i txt = \<lparr>ai_ticket_id = i, ai_type = Comment,
     ai_message = txt, ai_created_by = display_name user\<rparr>"

section \<open>Handlers\<close>

type_synonym page = "detail_state \<times> ticket_ctx"

text \<open>
  \<open>handleStatusChange\<close>. The early return compares with the page's selection, which is
  set to the new value before the first \<open>await\<close> and never reset; the activity message
  uses the selection held before. Either rejection ends in the same catch block.
\<close>

definition handle_status_change ::
  "app_user option \<Rightarrow> ticket_status \<Rightarrow> django_ticket response \<Rightarrow> django_activity response \<Rightarrow> page \<Rightarrow> page" where
  "handle_status_change user v r1 r2 pg = (case pg of (d, c) \<Rightarrow>
     (case get_ticket_by_id c (d_id d) of
        None \<Rightarrow> (d, c)
      | Some t \<Rightarrow>
          (if v = d_status d then (d, c) else
           (let old = d_status d;
                d1 = d\<lparr>d_submitting := True, d_status := v\<rparr>
            in (case update_ticket (ticket_id t) (empty_patch\<lparr>p_status := Some v\<rparr>) r1 c of
                  (Inl _, c1) \<Rightarrow> (d1\<lparr>d_submitting := False\<rparr>, toast status_failed_notice c1)
                | (Inr _, c1) \<Rightarrow>
                    (case add_activity (status_activity user (ticket_id t) old v) r2 c1 of
                       (Inl _, c2) \<Rightarrow> (d1\<lparr>d_submitting := False\<rparr>, toast status_failed_notice c2)
                     | (Inr a, c2) \<Rightarrow> (d1\<lparr>d_activities := d_activities d1 @ [a], d_submitting := False\<rparr>,
                                       toast (status_updated_notice v) c2)))))))"

text \<open>\<open>handlePriorityChange\<close>: the same protocol on the priority.\<close>

definition handle_priority_change ::
  "app_user option \<Rightarrow> ticket_priority \<Rightarrow> django_ticket response \<Rightarrow> django_activity response \<Rightarrow> page \<Rightarrow> page" where
  "handle_priority_change user v r1 r2 pg = (case pg of (d, c) \<Rightarrow>
     (case get_ticket_by_id c (d_id d) of
        None \<Rightarrow> (d, c)
      | Some t \<Rightarrow>
          (if v = d_priority d then (d, c) else
           (let old = d_priority d;
                d1 = d\<lparr>d_submitting := True, d_priority := v\<rparr>
            in (case update_ticket (ticket_id t) (empty_patch\<lparr>p_priority := Some v\<rparr>) r1 c of
                  (Inl _, c1) \<Rightarrow> (d1\<lparr>d_submitting := False\<rparr>, toast priority_failed_notice c1)
                | (Inr _, c1) \<Rightarrow>
                    (case add_activity (priority_activity user (ticket_id t) old v) r2 c1 of
                       (Inl _, c2) \<Rightarrow> (d1\<lparr>d_submitting := False\<rparr>, toast priority_failed_notice c2)
                     | (Inr a, c2) \<Rightarrow> (d1\<lparr>d_activities := d_activities d1 @ [a], d_submitting := False\<rparr>,
                                       toast (priority_updated_notice v) c2)))))))"

text \<open>
  \<open>handleAddComment\<close>: a comment that trims to nothing is dropped before any request;
  otherwise the untrimmed text is sent, and the box is cleared only on success.
\<close>

definition handle_add_comment ::
  "app_user option \<Rightarrow> django_activity response \<Rightarrow> page \<Rightarrow> page" where
  "handle_add_comment user r pg = (case pg of (d, c) \<Rightarrow>
     (case get_ticket_by_id c (d_id d) of
        None \<Rightarrow> (d, c)
      | Some t \<Rightarrow>
          (if js_trim (d_comment d) = [] then (d, c) else
           (let d1 = d\<lparr>d_submitting := True\<rparr>
            in (case add_activity (comment_activity user (ticket_id t) (d_comment d)) r c of
                  (Inl _, c1) \<Rightarrow> (d1\<lparr>d_submitting := False\<rparr>, toast comment_failed_notice c1)
                | (Inr a, c1) \<Rightarrow> (d1\<lparr>d_activities := d_activities d1 @ [a], d_comment := [],
                                    d_submitting := False\<rparr>, toast comment_added_notice c1))))))"

definition set_comment :: "string \<Rightarrow> detail_state \<Rightarrow> detail_state" where
  "set_comment s d = d\<lparr>d_comment := s\<rparr>"

lemmas handler_defs = handle_status_change_def handle_priority_change_def handle_add_comment_def

section \<open>The handlers on each branch\<close>

lemma js_trim_Nil_iff: "js_trim s = [] \<longleftrightarrow> (\<forall>ch \<in> set s. js_space ch)"
  by (simp add: js_trim_def dropWhile_eq_Nil_conv all_set_dropWhile)

lemma status_message_mentions:
  "sublist (status_str a) (status_message a b) \<and> sublist (status_str b) (status_message a b)"
proof
  show "sublist (status_str a) (status_message a b)"
    unfolding status_message_def by (rule sublist_appendI)
  show "sublist (status_str b) (status_message a b)"
    unfolding status_message_def by (metis append.assoc sublist_append_leftI)
qed

lemma priority_message_mentions:
  "sublist (priority_str a) (priority_message a b) \<and> sublist (priority_str b) (priority_message a b)"
proof
  show "sublist (priority_str a) (priority_message a b)"
    unfolding priority_message_def by (rule sublist_appendI)
  show "sublist (priority_str b) (priority_message a b)"
    unfolding priority_message_def by (metis append.assoc sublist_append_leftI)
qed

lemma status_change_ok_state:
  assumes "get_ticket_by_id c (d_id d) = Some t" "v \<noteq> d_status d"
    and "handle_status_change user v (Inr dt) (Inr da) (d, c) = (d', c')"
  shows "requests c' = requests c @ [Update_Ticket (ticket_id t) (update_dto_of_patch (empty_patch\<lparr>p_status := Some v\<rparr>)),
           Create_Activity (activity_dto_of_input (status_activity user (ticket_id t) (d_status d) v))]
    \<and> activities c' = activities c @ [activity_of_django da]
    \<and> tickets c' = replace_where (\<lambda>x. ticket_id x = ticket_id t) (ticket_of_django dt) (tickets c)
    \<and> notices c' = notices c @ [updated_notice, status_updated_notice v]
    \<and> d' = d\<lparr>d_submitting := False, d_status := v, d_activities := d_activities d @ [activity_of_django da]\<rparr>"
  using assms by (auto simp: handle_status_change_def store_branches)

lemma status_change_update_err_state:
  assumes "get_ticket_by_id c (d_id d) = Some t" "v \<noteq> d_status d"
  shows "handle_status_change user v (Inl e) r2 (d, c) =
    (d\<lparr>d_submitting := False, d_status := v\<rparr>,
     c\<lparr>loading := False, requests := requests c @ [Update_Ticket (ticket_id t) (update_dto_of_patch (empty_patch\<lparr>p_status := Some v\<rparr>))],
       notices := notices c @ [update_failed_notice, status_failed_notice]\<rparr>)"
  using assms by (simp add: handle_status_change_def store_branches)

lemma status_change_audit_err_state:
  assumes "get_ticket_by_id c (d_id d) = Some t" "v \<noteq> d_status d"
  shows "handle_status_change user v (Inr dt) (Inl e) (d, c) =
    (d\<lparr>d_submitting := False, d_status := v\<rparr>,
     c\<lparr>tickets := replace_where (\<lambda>x. ticket_id x = ticket_id t) (ticket_of_django dt) (tickets c),
       loading := False,
       requests := requests c @ [Update_Ticket (ticket_id t) (update_dto_of_patch (empty_patch\<lparr>p_status := Some v\<rparr>)),
           Create_Activity (activity_dto_of_input (status_activity user (ticket_id t) (d_status d) v))],
       notices := notices c @ [updated_notice, activity_failed_notice, status_failed_notice]\<rparr>)"
  using assms by (simp add: handle_status_change_def store_branches)

lemma priority_change_ok_state:
  assumes "get_ticket_by_id c (d_id d) = Some t" "v \<noteq> d_priority d"
    and "handle_priority_change user v (Inr dt) (Inr da) (d, c) = (d', c')"
  shows "requests c' = requests c @ [Update_Ticket (ticket_id t) (update_dto_of_patch (empty_patch\<lparr>p_priority := Some v\<rparr>)),
           Create_Activity (activity_dto_of_input (priority_activity user (ticket_id t) (d_priority d) v))]
    \<and> activities c' = activities c @ [activity_of_django da]
    \<and> tickets c' = replace_where (\<lambda>x. ticket_id x = ticket_id t) (ticket_of_django dt) (tickets c)
    \<and> d_priority d' = v"
  using assms by (auto simp: handle_priority_change_def store_branches)

text \<open>
  The ticket the backend returns for a status (priority) change on a contract-keeping
  backend is the one the snapshot then holds under the page's id, with the new value.
\<close>

lemma lookup_after_update:
  assumes "get_ticket_by_id c i = Some t" and "dj_id dt = ticket_id t"
    and "tickets c' = replace_where (\<lambda>x. ticket_id x = ticket_id t) (ticket_of_django dt) (tickets c)"
  shows "get_ticket_by_id c' i = Some (ticket_of_django dt)"
  using assms get_ticket_by_id_Some [OF assms(1)]
  by (auto simp: get_ticket_by_id_def find_replace_where)

section \<open>Sample page\<close>

text \<open>The detail page of the created sample ticket, opened after the ticket is in the snapshot.\<close>

definition demo_page :: page where
  "demo_page = mount_detail ''t1'' (snd (create_ticket demo_input (Inr demo_django_ticket) init_ctx))"

definition demo_activity :: django_activity where
  "demo_activity = \<lparr>da_id = ''a1'', da_ticket = ''t1'', da_type = Status_Change,
     da_message = ''Status changed from new to open'', da_created_by = ''System'', da_created_at = 2000\<rparr>"

lemma demo_page_eval:
  "demo_page = (\<lparr>d_id = ''t1'', d_activities = [], d_loading_activities = True, d_status = New,
      d_priority = High, d_comment = [], d_submitting = False\<rparr>,
    snd (create_ticket demo_input (Inr demo_django_ticket) init_ctx)\<lparr>requests :=
      [Create_Ticket (create_dto_of_input demo_input), List_Activities ''t1'']\<rparr>)"
  by (simp add: demo_page_def mount_detail_def create_ticket_Inr get_ticket_by_id_def log_request_def
      init_ctx_def demo_defs)

lemma demo_page_sel [simp]:
  "d_id (fst demo_page) = ''t1''" "d_status (fst demo_page) = New" "d_priority (fst demo_page) = High"
  "d_comment (fst demo_page) = []"
  by (simp_all add: demo_page_eval)

lemma demo_page_ticket:
  "get_ticket_by_id (snd demo_page) (d_id (fst demo_page)) = Some (ticket_of_django demo_django_ticket)"
  by (simp add: demo_page_eval create_ticket_Inr get_ticket_by_id_def init_ctx_def demo_defs)

section \<open>Properties of the workflow\<close>

text \<open>
  C1. A successful status change on a contract-keeping backend records exactly one new
  activity: of type \<open>status_change\<close>, for the page's ticket, with a message naming the
  previous and the new status; and the snapshot then holds the ticket with the new status.
\<close>

theorem status_change_records_one_activity:
  assumes tk: "get_ticket_by_id c (d_id d) = Some t" and ne: "v \<noteq> d_status d"
    and gw1: "update_contract (ticket_id t) (update_dto_of_patch (empty_patch\<lparr>p_status := Some v\<rparr>)) dt"
    and gw2: "activity_contract (activity_dto_of_input (status_activity user (ticket_id t) (d_status d) v)) da"
    and run: "handle_status_change user v (Inr dt) (Inr da) (d, c) = (d', c')"
  shows "\<exists>a. activities c' = activities c @ [a] \<and> act_type a = Status_Change \<and>
           activity_ticket_id a = d_id d \<and>
           sublist (status_str (d_status d)) (message a) \<and> sublist (status_str v) (message a) \<and>
           map_option status (get_ticket_by_id c' (d_id d)) = Some v"
proof -
  note s = status_change_ok_state [OF tk ne run]
  have tid: "ticket_id t = d_id d"
    using get_ticket_by_id_Some [OF tk] by simp
  let ?a = "activity_of_django da"
  have "act_type ?a = Status_Change" "activity_ticket_id ?a = d_id d"
       "message ?a = status_message (d_status d) v"
    using gw2 tid by (simp_all add: activity_contract_def activity_dto_of_input_def status_activity_def)
  moreover have "get_ticket_by_id c' (d_id d) = Some (ticket_of_django dt)"
    using s gw1 by (intro lookup_after_update [OF tk]) (simp_all add: update_contract_def)
  moreover have "status (ticket_of_django dt) = v"
    using gw1 by (simp add: update_contract_def update_dto_of_patch_def empty_patch_def)
  ultimately show ?thesis using s status_message_mentions by auto
qed

theorem status_change_records_one_activity_witness:
  "\<exists>a. activities (snd (handle_status_change None Open (Inr (demo_django_ticket\<lparr>dj_status := Open\<rparr>))
        (Inr demo_activity) demo_page)) = activities (snd demo_page) @ [a] \<and>
      message a = ''Status changed from new to open''"
proof -
  note tk = demo_page_ticket
  have ne: "Open \<noteq> d_status (fst demo_page)" by simp
  have gw1: "update_contract (ticket_id (ticket_of_django demo_django_ticket))
      (update_dto_of_patch (empty_patch\<lparr>p_status := Some Open\<rparr>)) (demo_django_ticket\<lparr>dj_status := Open\<rparr>)"
    by (simp add: update_contract_def update_dto_of_patch_def empty_patch_def demo_defs)
  have gw2: "activity_contract (activity_dto_of_input (status_activity None (ticket_id (ticket_of_django demo_django_ticket))
      (d_status (fst demo_page)) Open)) demo_activity"
    by (simp add: activity_contract_def activity_dto_of_input_def status_activity_def
        status_message_def display_name_def demo_activity_def demo_defs)
  from status_change_records_one_activity [OF tk ne gw1 gw2 prod.collapse [symmetric]]
  obtain a where "activities (snd (handle_status_change None Open (Inr (demo_django_ticket\<lparr>dj_status := Open\<rparr>))
        (Inr demo_activity) (fst demo_page, snd demo_page))) = activities (snd demo_page) @ [a]"
    by blast
  moreover have "activities (snd (handle_status_change None Open (Inr (demo_django_ticket\<lparr>dj_status := Open\<rparr>))
        (Inr demo_activity) (fst demo_page, snd demo_page))) = activities (snd demo_page) @ [activity_of_django demo_activity]"
    using status_change_ok_state [OF tk ne prod.collapse [symmetric]] by blast
  ultimately show ?thesis by (simp add: demo_activity_def)
qed

text \<open>
  C3. Choosing the status the page already shows is a no-op: no request is sent, no
  activity recorded, neither the page nor the provider changes.
\<close>

theorem status_change_noop: "v = d_status d \<Longrightarrow> handle_status_change user v r1 r2 (d, c) = (d, c)"
  by (simp add: handle_status_change_def split: option.split)

theorem status_change_noop_witness:
  "handle_status_change None New (Inr demo_django_ticket) (Inl Network_Failure) demo_page = demo_page"
  using status_change_noop [of New "fst demo_page" None "Inr demo_django_ticket" "Inl Network_Failure" "snd demo_page"]
  by simp

text \<open>
  C4. A comment that is empty or white space only is rejected on the page: no request is
  sent, no activity recorded, nothing changes.
\<close>

theorem blank_comment_rejected: "js_trim (d_comment d) = [] \<Longrightarrow> handle_add_comment user r (d, c) = (d, c)"
  by (simp add: handle_add_comment_def split: option.split)

theorem blank_comment_rejected_witness:
  "handle_add_comment None (Inl Network_Failure) (set_comment '' '' (fst demo_page), snd demo_page)
     = (set_comment '' '' (fst demo_page), snd demo_page)"
  by (rule blank_comment_rejected) (simp add: set_comment_def js_trim_def js_space_def)

text \<open>
  C5. When the status update is rejected the change aborts: only the PATCH was sent, no
  activity is recorded, the snapshot is unchanged and a failure toast is raised.
\<close>

theorem status_change_update_failure:
  assumes "get_ticket_by_id c (d_id d) = Some t" and "v \<noteq> d_status d"
  shows "case handle_status_change user v (Inl e) r2 (d, c) of (d', c') \<Rightarrow>
     requests c' = requests c @ [Update_Ticket (d_id d) (update_dto_of_patch (empty_patch\<lparr>p_status := Some v\<rparr>))] \<and>
     activities c' = activities c \<and> tickets c' = tickets c \<and>
     last (notices c') = status_failed_notice \<and> d_activities d' = d_activities d"
  using status_change_update_err_state [OF assms] get_ticket_by_id_Some [OF assms(1)] by simp

theorem status_change_update_failure_witness:
  "case handle_status_change None Open (Inl Network_Failure) (Inl Network_Failure) demo_page of (d', c') \<Rightarrow>
     activities c' = activities (snd demo_page) \<and> tickets c' = tickets (snd demo_page)"
proof -
  note tk = demo_page_ticket
  have ne: "Open \<noteq> d_status (fst demo_page)" by simp
  show ?thesis
    using status_change_update_failure [OF tk ne, of None Network_Failure "Inl Network_Failure"]
    by (auto split: prod.splits)
qed

text \<open>
  C6. A status change whose update is accepted but whose audit entry is rejected leaves
  the ticket changed without an activity, and the page ends exactly as if the update had
  been rejected (same page state, same final "Update Failed" toast): the partial failure
  is not reported as such.
\<close>

theorem status_change_audit_failure:
  assumes tk: "get_ticket_by_id c (d_id d) = Some t" and ne: "v \<noteq> d_status d"
    and gw1: "update_contract (ticket_id t) (update_dto_of_patch (empty_patch\<lparr>p_status := Some v\<rparr>)) dt"
  shows "fst (handle_status_change user v (Inr dt) (Inl e2) (d, c)) = fst (handle_status_change user v (Inl e1) r2 (d, c)) \<and>
    last (notices (snd (handle_status_change user v (Inr dt) (Inl e2) (d, c)))) =
      last (notices (snd (handle_status_change user v (Inl e1) r2 (d, c)))) \<and>
    activities (snd (handle_status_change user v (Inr dt) (Inl e2) (d, c))) = activities c \<and>
    map_option status (get_ticket_by_id (snd (handle_status_change user v (Inr dt) (Inl e2) (d, c))) (d_id d)) = Some v"
proof -
  have "get_ticket_by_id (snd (handle_status_change user v (Inr dt) (Inl e2) (d, c))) (d_id d) = Some (ticket_of_django dt)"
    using gw1 by (intro lookup_after_update [OF tk]) (simp_all add: status_change_audit_err_state [OF tk ne] update_contract_def)
  moreover have "status (ticket_of_django dt) = v"
    using gw1 by (simp add: update_contract_def update_dto_of_patch_def empty_patch_def)
  ultimately show ?thesis
    by (simp add: status_change_audit_err_state [OF tk ne] status_change_update_err_state [OF tk ne])
qed

theorem status_change_audit_failure_witness:
  "fst (handle_status_change None Open (Inr (demo_django_ticket\<lparr>dj_status := Open\<rparr>)) (Inl Network_Failure) demo_page)
   = fst (handle_status_change None Open (Inl Network_Failure) (Inl Network_Failure) demo_page)"
proof -
  note tk = demo_page_ticket
  have ne: "Open \<noteq> d_status (fst demo_page)" by simp
  have gw1: "update_contract (ticket_id (ticket_of_django demo_django_ticket))
      (update_dto_of_patch (empty_patch\<lparr>p_status := Some Open\<rparr>)) (demo_django_ticket\<lparr>dj_status := Open\<rparr>)"
    by (simp add: update_contract_def update_dto_of_patch_def empty_patch_def demo_defs)
  show ?thesis
    using status_change_audit_failure [OF tk ne gw1, of None Network_Failure Network_Failure "Inl Network_Failure"]
    by simp
qed

text \<open>
  C15. The page's selections are taken from the snapshot at the first render only. A page
  opened on an id that is not in the snapshot yet selects \<open>new\<close>; when the fetch then
  brings the ticket, whatever its status, choosing \<open>new\<close> is silently ignored, and any
  other choice is sent and logged as a change "from new".
\<close>

theorem stale_selection_blocks_change:
  assumes absent: "get_ticket_by_id c i = None"
    and arrives: "get_ticket_by_id (fetch_tickets (Inr ds) (snd (mount_detail i c))) i = Some t"
    and other: "v \<noteq> New"
  shows "d_status (fst (mount_detail i c)) = New \<and>
         handle_status_change user New r1 r2 (fst (mount_detail i c), fetch_tickets (Inr ds) (snd (mount_detail i c))) =
           (fst (mount_detail i c), fetch_tickets (Inr ds) (snd (mount_detail i c))) \<and>
         requests (snd (handle_status_change user v (Inr dt) r2
             (fst (mount_detail i c), fetch_tickets (Inr ds) (snd (mount_detail i c))))) =
           requests (fetch_tickets (Inr ds) (snd (mount_detail i c))) @
             [Update_Ticket i (update_dto_of_patch (empty_patch\<lparr>p_status := Some v\<rparr>)),
              Create_Activity (activity_dto_of_input (status_activity user i New v))]"
proof -
  have id: "ticket_id t = i" using get_ticket_by_id_Some [OF arrives] by simp
  have m: "d_status (fst (mount_detail i c)) = New" "d_id (fst (mount_detail i c)) = i"
    using absent by (simp_all add: mount_detail_def Let_def)
  show ?thesis
    using m arrives id other
    by (cases r2) (simp_all add: handle_status_change_def store_branches)
qed

theorem stale_selection_blocks_change_witness:
  "d_status (fst (mount_detail ''t1'' init_ctx)) = New \<and>
   handle_status_change None New (Inr demo_django_ticket) (Inr demo_activity)
     (fst (mount_detail ''t1'' init_ctx),
      fetch_tickets (Inr [demo_django_ticket\<lparr>dj_status := Open\<rparr>]) (snd (mount_detail ''t1'' init_ctx))) =
     (fst (mount_detail ''t1'' init_ctx),
      fetch_tickets (Inr [demo_django_ticket\<lparr>dj_status := Open\<rparr>]) (snd (mount_detail ''t1'' init_ctx))) \<and>
   requests (snd (handle_status_change None Pending (Inr demo_django_ticket) (Inr demo_activity)
       (fst (mount_detail ''t1'' init_ctx),
        fetch_tickets (Inr [demo_django_ticket\<lparr>dj_status := Open\<rparr>]) (snd (mount_detail ''t1'' init_ctx))))) =
     requests (fetch_tickets (Inr [demo_django_ticket\<lparr>dj_status := Open\<rparr>]) (snd (mount_detail ''t1'' init_ctx))) @
       [Update_Ticket ''t1'' (update_dto_of_patch (empty_patch\<lparr>p_status := Some Pending\<rparr>)),
        Create_Activity (activity_dto_of_input (status_activity None ''t1'' New Pending))]"
  by (rule stale_selection_blocks_change [where t = "ticket_of_django (demo_django_ticket\<lparr>dj_status := Open\<rparr>)"])
    (simp_all add: get_ticket_by_id_def init_ctx_def mount_detail_def log_request_def fetch_tickets_Inr
      ticket_of_django_def demo_defs)

text \<open>
  C16. The selection is set before the update is sent and is not restored when the update
  is rejected: the ticket keeps its status, the page shows the rejected one, and choosing
  that status again does nothing.
\<close>

theorem failed_update_blocks_retry:
  assumes tk: "get_ticket_by_id c (d_id d) = Some t" and ne: "v \<noteq> d_status d"
  shows "case handle_status_change user v (Inl e) ra (d, c) of (d', c') \<Rightarrow>
     get_ticket_by_id c' (d_id d) = Some t \<and> d_status d' = v \<and>
     handle_status_change user v rb rc (d', c') = (d', c')"
proof -
  have frame: "get_ticket_by_id (c\<lparr>loading := False, requests := rs, notices := ns\<rparr>) i = get_ticket_by_id c i" for rs ns i
    by (simp add: get_ticket_by_id_def)
  show ?thesis
    unfolding status_change_update_err_state [OF tk ne]
    by (simp add: frame tk handle_status_change_def)
qed

theorem failed_update_blocks_retry_witness:
  "case handle_status_change None Open (Inl Network_Failure) (Inl Network_Failure) demo_page of (d', c') \<Rightarrow>
     get_ticket_by_id c' ''t1'' = Some (ticket_of_django demo_django_ticket) \<and> d_status d' = Open \<and>
     handle_status_change None Open (Inr demo_django_ticket) (Inl Network_Failure) (d', c') = (d', c')"
proof -
  have ne: "Open \<noteq> d_status (fst demo_page)" by simp
  show ?thesis
    using failed_update_blocks_retry [where user = None and e = Network_Failure
        and ra = "Inl Network_Failure" and rb = "Inr demo_django_ticket" and rc = "Inl Network_Failure",
        OF demo_page_ticket ne]
    by (simp split: prod.splits)
qed

text \<open>
  A non-blank comment accepted by a contract-keeping backend appends one
  \<open>comment\<close> activity carrying the text as typed (untrimmed) to both the provider's log
  and the page's list, sends exactly one request, leaves the snapshot alone and clears the
  comment box.
\<close>

theorem comment_success:
  assumes tk: "get_ticket_by_id c (d_id d) = Some t" and nb: "js_trim (d_comment d) \<noteq> []"
    and gw: "activity_contract (activity_dto_of_input (comment_activity user (ticket_id t) (d_comment d))) da"
    and run: "handle_add_comment user (Inr da) (d, c) = (d', c')"
  shows "\<exists>a. activities c' = activities c @ [a] \<and> d_activities d' = d_activities d @ [a] \<and>
    act_type a = Comment \<and> message a = d_comment d \<and> activity_ticket_id a = d_id d \<and>
    tickets c' = tickets c \<and> d_comment d' = [] \<and>
    requests c' = requests c @ [Create_Activity (activity_dto_of_input (comment_activity user (d_id d) (d_comment d)))]"
proof -
  have tid: "ticket_id t = d_id d" using get_ticket_by_id_Some [OF tk] by simp
  have "activities c' = activities c @ [activity_of_django da] \<and> d_activities d' = d_activities d @ [activity_of_django da] \<and>
    tickets c' = tickets c \<and> d_comment d' = [] \<and>
    requests c' = requests c @ [Create_Activity (activity_dto_of_input (comment_activity user (d_id d) (d_comment d)))]"
    using run tk nb tid by (auto simp: handle_add_comment_def store_branches)
  moreover have "act_type (activity_of_django da) = Comment \<and> message (activity_of_django da) = d_comment d \<and>
      activity_ticket_id (activity_of_django da) = d_id d"
    using gw tid by (simp add: activity_contract_def activity_dto_of_input_def comment_activity_def)
  ultimately show ?thesis by blast
qed

theorem comment_success_witness:
  "\<exists>a. activities (snd (handle_add_comment None
        (Inr \<lparr>da_id = ''a2'', da_ticket = ''t1'', da_type = Comment, da_message = ''Looking into it'',
              da_created_by = ''System'', da_created_at = 3000\<rparr>)
        (set_comment ''Looking into it'' (fst demo_page), snd demo_page))) = activities (snd demo_page) @ [a] \<and>
      message a = ''Looking into it''"
proof -
  let ?d = "set_comment ''Looking into it'' (fst demo_page)"
  have tk: "get_ticket_by_id (snd demo_page) (d_id ?d) = Some (ticket_of_django demo_django_ticket)"
    using demo_page_ticket by (simp add: set_comment_def)
  have nb: "js_trim (d_comment ?d) \<noteq> []"
    by (simp add: set_comment_def js_trim_def js_space_def)
  have gw: "activity_contract (activity_dto_of_input (comment_activity None (ticket_id (ticket_of_django demo_django_ticket))
      (d_comment ?d))) \<lparr>da_id = ''a2'', da_ticket = ''t1'', da_type = Comment, da_message = ''Looking into it'',
              da_created_by = ''System'', da_created_at = 3000\<rparr>"
    by (simp add: activity_contract_def activity_dto_of_input_def comment_activity_def display_name_def
        set_comment_def demo_defs)
  show ?thesis
    using comment_success [OF tk nb gw prod.collapse [symmetric]] by (auto simp: set_comment_def)
qed

text \<open>
  A successful priority change on a contract-keeping backend records exactly one
  \<open>priority_change\<close> activity for the page's ticket, whose message names the previous and
  the new priority, and the snapshot holds the ticket with the new priority.
\<close>

theorem priority_change_records_one_activity:
  assumes tk: "get_ticket_by_id c (d_id d) = Some t" and ne: "v \<noteq> d_priority d"
    and gw1: "update_contract (ticket_id t) (update_dto_of_patch (empty_patch\<lparr>p_priority := Some v\<rparr>)) dt"
    and gw2: "activity_contract (activity_dto_of_input (priority_activity user (ticket_id t) (d_priority d) v)) da"
    and run: "handle_priority_change user v (Inr dt) (Inr da) (d, c) = (d', c')"
  shows "\<exists>a. activities c' = activities c @ [a] \<and> act_type a = Priority_Change \<and>
           activity_ticket_id a = d_id d \<and>
           sublist (priority_str (d_priority d)) (message a) \<and> sublist (priority_str v) (message a) \<and>
           map_option priority (get_ticket_by_id c' (d_id d)) = Some v"
proof -
  note s = priority_change_ok_state [OF tk ne run]
  have tid: "ticket_id t = d_id d"
    using get_ticket_by_id_Some [OF tk] by simp
  let ?a = "activity_of_django da"
  have "act_type ?a = Priority_Change" "activity_ticket_id ?a = d_id d"
       "message ?a = priority_message (d_priority d) v"
    using gw2 tid by (simp_all add: activity_contract_def activity_dto_of_input_def priority_activity_def)
  moreover have "get_ticket_by_id c' (d_id d) = Some (ticket_of_django dt)"
    using s gw1 by (intro lookup_after_update [OF tk]) (simp_all add: update_contract_def)
  moreover have "priority (ticket_of_django dt) = v"
    using gw1 by (simp add: update_contract_def update_dto_of_patch_def empty_patch_def)
  ultimately show ?thesis using s priority_message_mentions by auto
qed

theorem priority_change_records_one_activity_witness:
  "\<exists>a. activities (snd (handle_priority_change None Urgent (Inr (demo_django_ticket\<lparr>dj_priority := Urgent\<rparr>))
        (Inr (demo_activity\<lparr>da_type := Priority_Change, da_message := ''Priority changed from high to urgent''\<rparr>))
        demo_page)) = activities (snd demo_page) @ [a] \<and> act_type a = Priority_Change"
proof -
  have ne: "Urgent \<noteq> d_priority (fst demo_page)" by simp
  have gw1: "update_contract (ticket_id (ticket_of_django demo_django_ticket))
      (update_dto_of_patch (empty_patch\<lparr>p_priority := Some Urgent\<rparr>)) (demo_django_ticket\<lparr>dj_priority := Urgent\<rparr>)"
    by (simp add: update_contract_def update_dto_of_patch_def empty_patch_def demo_defs)
  have gw2: "activity_contract (activity_dto_of_input (priority_activity None (ticket_id (ticket_of_django demo_django_ticket))
      (d_priority (fst demo_page)) Urgent))
      (demo_activity\<lparr>da_type := Priority_Change, da_message := ''Priority changed from high to urgent''\<rparr>)"
    by (simp add: activity_contract_def activity_dto_of_input_def priority_activity_def
        priority_message_def display_name_def demo_activity_def demo_defs)
  show ?thesis
    using priority_change_records_one_activity [OF demo_page_ticket ne gw1 gw2 prod.collapse [symmetric]] by auto
qed

end
