(* ===== verification/Ticket_Queries.thy ===== *)
theory Ticket_Queries
  imports Ticket_Store
begin

text \<open>
  The query and filter engine: the pure derivations the admin pages compute from the
  provider's snapshot. \<open>src/client/src/pages/admin/TicketList.tsx\<close> filters by status
  and priority (the select values, \<open>'all'\<close> for no constraint) and searches title,
  description, requester name and e-mail case-insensitively;
  \<open>src/client/src/pages/admin/Dashboard.tsx\<close> counts by status groups, by priority and
  by status, and shows the five newest tickets through \<open>Array.prototype.sort\<close> with a
  comparator. String operations are modelled on the model's 8-bit characters:
  \<open>toLowerCase\<close> maps the ASCII capitals (other characters are left as they are),
  \<open>includes\<close> is a substring test.
\<close>

section \<open>Case-insensitive substring search\<close>

definition js_lower_char :: "char \<Rightarrow> char" where
  "js_lower_char ch = (let n = (of_char ch :: nat) in if 65 \<le> n \<and> n \<le> 90 then char_of (n + 32) else ch)"

definition js_lower :: "string \<Rightarrow> string" where
  "js_lower s = map js_lower_char s"

text \<open>\<open>s.startsWith(q)\<close> and \<open>s.includes(q)\<close>: try every start position from the left.\<close>

fun starts_with :: "string \<Rightarrow> string \<Rightarrow> bool" where
  "starts_with s [] = True"
| "starts_with [] (q # qs) = False"
| "starts_with (c # cs) (q # qs) = (c = q \<and> starts_with cs qs)"

fun js_includes :: "string \<Rightarrow> string \<Rightarrow> bool" where
  "js_includes [] q = (q = [])"
| "js_includes (c # cs) q = (starts_with (c # cs) q \<or> js_includes cs q)"

section \<open>The list page filter\<close>

definition matches_search :: "string \<Rightarrow> ticket \<Rightarrow> bool" where
  "matches_search query t =
     (let q = js_lower query in
      js_includes (js_lower (title t)) q \<or> js_includes (js_lower (description t)) q \<or>
      js_includes (js_lower (creator_name (created_by t))) q \<or>
      js_includes (js_lower (creator_email (created_by t))) q)"

definition list_filter :: "string \<Rightarrow> string \<Rightarrow> string \<Rightarrow> ticket \<Rightarrow> bool" where
  "list_filter sf pf q t =
     (if sf \<noteq> ''all'' \<and> status_str (status t) \<noteq> sf then False
      else if pf \<noteq> ''all'' \<and> priority_str (priority t) \<noteq> pf then False
      else if q \<noteq> [] then matches_search q t
      else True)"

definition filtered_tickets :: "ticket list \<Rightarrow> string \<Rightarrow> string \<Rightarrow> string \<Rightarrow> ticket list" where
  "filtered_tickets ts sf pf q = filter (list_filter sf pf q) ts"

section \<open>Dashboard statistics\<close>

record dashboard_stats =
  total_tickets :: nat
  open_tickets :: nat
  pending_tickets :: nat
  resolved_tickets :: nat
  priority_stats :: "(string \<times> nat) list"
  status_stats :: "(string \<times> nat) list"

definition count_where :: "(ticket \<Rightarrow> bool) \<Rightarrow> ticket list \<Rightarrow> nat" where
  "count_where p ts = length (filter p ts)"

definition dashboard :: "ticket list \<Rightarrow> dashboard_stats" where
  "dashboard ts =
     \<lparr>total_tickets = length ts,
      open_tickets = count_where (\<lambda>t. status t = New \<or> status t = Open) ts,
      pending_tickets = count_where (\<lambda>t. status t = Pending) ts,
      resolved_tickets = count_where (\<lambda>t. status t = Resolved \<or> status t = Closed) ts,
      priority_stats =
        [(''Low'', count_where (\<lambda>t. priority t = Low) ts),
         (''Medium'', count_where (\<lambda>t. priority t = Medium) ts),
         (''High'', count_where (\<lambda>t. priority t = High) ts),
         (''Urgent'', count_where (\<lambda>t. priority t = Urgent) ts)],
      status_stats =
        [(''New'', count_where (\<lambda>t. status t = New) ts),
         (''Open'', count_where (\<lambda>t. status t = Open) ts),
         (''Pending'', count_where (\<lambda>t. status t = Pending) ts),
         (''Resolved'', count_where (\<lambda>t. status t = Resolved) ts),
         (''Closed'', count_where (\<lambda>t. status t = Closed) ts)]\<rparr>"

section \<open>The five newest tickets\<close>

text \<open>
  The comparator \<open>(a, b) => time(b) - time(a)\<close>, and \<open>Array.prototype.sort\<close> with it.
  The language requires the sort to be stable (ECMAScript 2019 and later): an element
  precedes another when the comparator is negative, and elements the comparator calls
  equal keep their order. Insertion of each element before the first one it does not
  exceed computes exactly that order.
\<close>

definition created_desc_cmp :: "ticket \<Rightarrow> ticket \<Rightarrow> int" where
  "created_desc_cmp a b = created_at b - created_at a"

fun insert_by :: "('a \<Rightarrow> 'a \<Rightarrow> int) \<Rightarrow> 'a \<Rightarrow> 'a list \<Rightarrow> 'a list" where
  "insert_by cmp x [] = [x]"
| "insert_by cmp x (y # ys) = (if cmp x y \<le> 0 then x # y # ys else y # insert_by cmp x ys)"

fun sort_by :: "('a \<Rightarrow> 'a \<Rightarrow> int) \<Rightarrow> 'a list \<Rightarrow> 'a list" where
  "sort_by cmp [] = []"
| "sort_by cmp (x # xs) = insert_by cmp x (sort_by cmp xs)"

definition recent_tickets :: "ticket list \<Rightarrow> ticket list" where
  "recent_tickets ts = take 5 (sort_by created_desc_cmp ts)"

section \<open>Lemmas\<close>

lemma starts_with_prefix: "starts_with s q \<longleftrightarrow> prefix q s"
  by (induction s q rule: starts_with.induct) auto

lemma js_lower_char_idem [simp]: "js_lower_char (js_lower_char c) = js_lower_char c"
  by (simp add: js_lower_char_def Let_def)

lemma js_lower_idem [simp]: "js_lower (js_lower s) = js_lower s"
  by (simp add: js_lower_def comp_def)

lemma js_lower_Nil [simp]: "js_lower [] = []"
  by (simp add: js_lower_def)

lemma js_lower_Nil_iff [simp]: "js_lower s = [] \<longleftrightarrow> s = []"
  by (simp add: js_lower_def)

lemma insert_by_created_desc:
  "insert_by created_desc_cmp x ys = insort_key (\<lambda>t. - created_at t) x ys"
  by (induction ys) (auto simp: created_desc_cmp_def)

lemma sort_by_created_desc:
  "sort_by created_desc_cmp ts = sort_key (\<lambda>t. - created_at t) ts"
  by (induction ts) (simp_all add: insert_by_created_desc)

lemma sorted_desc_sort_by:
  "sorted_wrt (\<lambda>a b. created_at b \<le> created_at a) (sort_by created_desc_cmp ts)"
proof -
  have "sorted (map (\<lambda>t. - created_at t) (sort_key (\<lambda>t. - created_at t) ts))"
    by (rule sorted_sort_key)
  then show ?thesis by (simp add: sort_by_created_desc sorted_map)
qed

lemma mset_sort_by: "mset (sort_by created_desc_cmp ts) = mset ts"
  by (simp add: sort_by_created_desc)

lemma js_includes_sublist_aux: "js_includes s q \<longleftrightarrow> sublist q s"
  by (induction s) (simp_all add: starts_with_prefix sublist_Cons_right)

lemma set_sort_by: "set (sort_by created_desc_cmp ts) = set ts"
  by (metis mset_sort_by set_mset_mset)

lemma length_filter_disj:
  "\<forall>x \<in> set xs. \<not> (P x \<and> Q x) \<Longrightarrow>
   length (filter (\<lambda>x. P x \<or> Q x) xs) = length (filter P xs) + length (filter Q xs)"
  by (induction xs) auto

lemma list_filter_lower: "list_filter sf pf (js_lower q) = list_filter sf pf q"
  by (rule ext) (simp add: list_filter_def matches_search_def)

section \<open>Sample tickets\<close>

definition demo_tickets :: "ticket list" where
  "demo_tickets = [ticket_of_django (demo_django_ticket\<lparr>dj_priority := Low\<rparr>),
     ticket_of_django (demo_django_ticket\<lparr>dj_id := ''t2'', dj_priority := Urgent, dj_created_at := 2000\<rparr>)]"

section \<open>Properties of the queries\<close>

text \<open>
  With no search text and both selects on "all" the list page shows the snapshot
  unchanged.
\<close>

lemma search_all_identity: "filtered_tickets ts ''all'' ''all'' [] = ts"
  by (simp add: filtered_tickets_def list_filter_def)

text \<open>
  The list page filter refines its specification: it keeps, in snapshot order,
  exactly the tickets whose status and priority match the selects (or the select is
  "all") and whose title, description, requester name or e-mail contains the lower-cased
  search text as a substring, ignoring case.
\<close>

theorem filtered_tickets_spec:
  "filtered_tickets ts sf pf q = filter (\<lambda>t.
     (sf = ''all'' \<or> status_str (status t) = sf) \<and> (pf = ''all'' \<or> priority_str (priority t) = pf) \<and>
     (sublist (js_lower q) (js_lower (title t)) \<or> sublist (js_lower q) (js_lower (description t)) \<or>
      sublist (js_lower q) (js_lower (creator_name (created_by t))) \<or>
      sublist (js_lower q) (js_lower (creator_email (created_by t))))) ts"
  unfolding filtered_tickets_def
  by (rule filter_cong) (auto simp: list_filter_def matches_search_def js_includes_sublist_aux)

text \<open>
  The substring test the search uses (\<open>includes\<close>, every start position from the
  left) is the library's contiguous-sublist relation.
\<close>

theorem js_includes_sublist: "js_includes s q \<longleftrightarrow> sublist q s"
  by (induction s) (simp_all add: starts_with_prefix sublist_Cons_right)

text \<open>
  The search is insensitive to the case of the query: lower-casing the query first
  gives the same list.
\<close>

lemma search_case_insensitive: "filtered_tickets ts sf pf (js_lower q) = filtered_tickets ts sf pf q"
  by (simp add: filtered_tickets_def list_filter_lower)

text \<open>
  The dashboard's counts are consistent: open, pending and resolved tickets add up to
  the total, and so do the bars of the priority chart and of the status chart.
\<close>

theorem dashboard_partition:
  "open_tickets (dashboard ts) + pending_tickets (dashboard ts) + resolved_tickets (dashboard ts) = total_tickets (dashboard ts) \<and>
   sum_list (map snd (priority_stats (dashboard ts))) = total_tickets (dashboard ts) \<and>
   sum_list (map snd (status_stats (dashboard ts))) = total_tickets (dashboard ts)"
proof -
  have st: "(\<Sum>s\<leftarrow>all_statuses. length (filter (\<lambda>t. status t = s) ts)) = length ts"
    using sum_list_count_by_key [of all_statuses status ts] by simp
  have pr: "(\<Sum>p\<leftarrow>all_priorities. length (filter (\<lambda>t. priority t = p) ts)) = length ts"
    using sum_list_count_by_key [of all_priorities priority ts] by simp
  have grp: "count_where (\<lambda>t. status t = New \<or> status t = Open) ts + count_where (\<lambda>t. status t = Pending) ts +
      count_where (\<lambda>t. status t = Resolved \<or> status t = Closed) ts =
      (\<Sum>s\<leftarrow>all_statuses. length (filter (\<lambda>t. status t = s) ts))"
    by (simp add: all_statuses_def count_where_def length_filter_disj)
  show ?thesis
    using st pr grp by (simp add: dashboard_def count_where_def all_statuses_def all_priorities_def)
qed

text \<open>
  The spec's scenario: with one low and one urgent ticket the priority chart reads
  low 1, medium 0, high 0, urgent 1.
\<close>

lemma count_by_priority_scenario:
  "priority_stats (dashboard demo_tickets) = [(''Low'', 1), (''Medium'', 0), (''High'', 0), (''Urgent'', 1)]"
  by (simp add: dashboard_def count_where_def demo_tickets_def)

text \<open>
  The recent-tickets panel shows at most five tickets, newest first, all from the
  snapshot, and every ticket left out is no newer than each one shown.
\<close>

theorem recent_tickets_spec:
  "sorted_wrt (\<lambda>a b. created_at b \<le> created_at a) (recent_tickets ts) \<and>
   length (recent_tickets ts) = min 5 (length ts) \<and>
   mset (recent_tickets ts) \<subseteq># mset ts \<and>
   (\<forall>t \<in> set ts. t \<notin> set (recent_tickets ts) \<longrightarrow> (\<forall>r \<in> set (recent_tickets ts). created_at t \<le> created_at r))"
proof -
  let ?L = "sort_by created_desc_cmp ts"
  have srt: "sorted_wrt (\<lambda>a b. created_at b \<le> created_at a) ?L" by (rule sorted_desc_sort_by)
  have len: "length ?L = length ts" by (metis mset_sort_by size_mset)
  have sub: "mset (take 5 ?L) \<subseteq># mset ts"
    by (metis append_take_drop_id mset_append mset_sort_by mset_subset_eq_add_left)
  have top: "created_at t \<le> created_at r" if "t \<in> set ts" "t \<notin> set (take 5 ?L)" "r \<in> set (take 5 ?L)" for t r
  proof -
    have "t \<in> set (drop 5 ?L)"
      using that(1,2) set_sort_by [of ts] by (metis Un_iff append_take_drop_id set_append)
    moreover have "sorted_wrt (\<lambda>a b. created_at b \<le> created_at a) (take 5 ?L @ drop 5 ?L)"
      using srt by simp
    then have "\<forall>x \<in> set (take 5 ?L). \<forall>y \<in> set (drop 5 ?L). created_at y \<le> created_at x"
      unfolding sorted_wrt_append by blast
    ultimately show ?thesis using that(3) by blast
  qed
  show ?thesis
    using srt len sub top by (simp add: recent_tickets_def sorted_wrt_take)
qed

theorem recent_tickets_spec_witness:
  "length (recent_tickets demo_tickets) = 2 \<and>
   sorted_wrt (\<lambda>a b. created_at b \<le> created_at a) (recent_tickets demo_tickets) \<and>
   mset (recent_tickets demo_tickets) \<subseteq># mset demo_tickets"
  using recent_tickets_spec [of demo_tickets]
  by (simp add: demo_tickets_def)

text \<open>
  The dashboard's sort is the library's stable sort on the negated creation time, so
  tickets created at the same time keep their snapshot order.
\<close>

theorem recent_sort_stable:
  "sort_by created_desc_cmp ts = sort_key (\<lambda>t. - created_at t) ts \<and>
   filter (\<lambda>t. created_at t = k) (sort_by created_desc_cmp ts) = filter (\<lambda>t. created_at t = k) ts"
proof -
  have "filter (\<lambda>t. - created_at t = - k) (sort_key (\<lambda>t. - created_at t) ts) = filter (\<lambda>t. - created_at t = - k) ts"
    by (rule sort_key_stable)
  then show ?thesis by (simp add: sort_by_created_desc)
qed

end
