(* ===== verification/Session.thy ===== *)
theory Session
  imports Gateway Toast
begin

text \<open>
  The session store: the authentication service \<open>src/client/src/services/authService.ts\<close>
  (the browser storage it reads and writes, the request interceptor of the shared axios
  instance, \<open>login\<close>, \<open>logout\<close>, \<open>getCurrentUser\<close>, \<open>isAuthenticated\<close>) and the
  provider of \<open>src/client/src/context/AuthContext.tsx\<close> (\<open>checkAuth\<close> on mount,
  \<open>login\<close>, \<open>logout\<close>, the derived \<open>isAuthenticated\<close> flag). The state is one record:
  the \<open>token\<close> entry of \<open>localStorage\<close>, \<open>document.cookie\<close>, the log of the requests
  sent with the headers the interceptor put on them, and the provider's React state with
  the toasts it raised. Every gateway answer is an argument; a provider operation runs
  from its first statement to its \<open>finally\<close> block.
\<close>

section \<open>State\<close>

record login_response =
  lr_token :: string
  lr_user :: app_user

type_synonym header = "string \<times> string"

record session =
  ls_token :: "string option"
  cookie :: string
  sent :: "(api_request \<times> header list) list"
  au_user :: "app_user option"
  au_loading :: bool
  au_notices :: "notice list"

text \<open>
  The provider's first render: \<open>user = null\<close>, \<open>isLoading = true\<close>, with whatever token
  and cookies the browser kept from an earlier visit.
\<close>

definition init_session :: "string option \<Rightarrow> string \<Rightarrow> session" where
  "init_session tok ck = \<lparr>ls_token = tok, cookie = ck, sent = [], au_user = None,
     au_loading = True, au_notices = []\<rparr>"

section \<open>Reading the CSRF cookie\<close>

text \<open>
  \<open>getCsrfToken\<close> runs \<open>/(^|;)\s*csrftoken\s*=\s*([^;]+)/\<close> on \<open>document.cookie\<close> and
  returns the last group of the first match. A match starts at the beginning of the string
  or at a semicolon; \<open>csrf_value\<close> is the rest of the pattern tried on the text after
  that point (\<open>csrf_after_eq\<close> matches \<open>\s*=\<close>), \<open>csrf_group\<close> the part after
  the \<open>=\<close>. There, the greedy \<open>\s*\<close> takes the leading white space and the
  group the rest up to the next semicolon; when nothing but white space is left, the
  \<open>\s*\<close> gives its last character back to the group, which must not be empty.
\<close>

definition csrf_group :: "string \<Rightarrow> string option" where
  "csrf_group r =
     (let v = takeWhile (\<lambda>x. x \<noteq> CHR '';'') r in
      if v = [] then None
      else (let w = dropWhile js_space v in Some (if w = [] then [last v] else w)))"

definition csrf_after_eq :: "string \<Rightarrow> string option" where
  "csrf_after_eq s = (case dropWhile js_space s of c # r \<Rightarrow> (if c = CHR ''='' then Some r else None) | [] \<Rightarrow> None)"

definition csrf_value :: "string \<Rightarrow> string option" where
  "csrf_value seg =
     (let a = dropWhile js_space seg in
      if take 9 a = ''csrftoken'' then
        (case csrf_after_eq (drop 9 a) of Some r \<Rightarrow> csrf_group r | None \<Rightarrow> None)
      else None)"

fun csrf_scan :: "string \<Rightarrow> string option" where
  "csrf_scan [] = None"
| "csrf_scan (c # cs) =
     (if c = CHR '';'' then (case csrf_value cs of Some v \<Rightarrow> Some v | None \<Rightarrow> csrf_scan cs)
      else csrf_scan cs)"

definition get_csrf_token :: "string \<Rightarrow> string option" where
  "get_csrf_token ck = (case csrf_value ck of Some v \<Rightarrow> Some v | None \<Rightarrow> csrf_scan ck)"

text \<open>
  \<open>document.cookie\<close> as the browser writes it: the \<open>name=value\<close> pairs joined by
  \<open>"; "\<close>.
\<close>

fun cookie_string :: "(string \<times> string) list \<Rightarrow> string" where
  "cookie_string [] = []"
| "cookie_string [(n, v)] = n @ ''='' @ v"
| "cookie_string ((n, v) # ps) = n @ ''='' @ v @ ''; '' @ cookie_string ps"

text \<open>
  The cookies a server can set with \<open>Set-Cookie\<close> and the browser reports back
  unchanged: a name of token characters (no white space, \<open>;\<close> or \<open>=\<close>), and a
  non-empty value without \<open>;\<close> that does not start with white space.
\<close>

definition cookie_pair_ok :: "string \<times> string \<Rightarrow> bool" where
  "cookie_pair_ok p \<longleftrightarrow> fst p \<noteq> [] \<and> snd p \<noteq> [] \<and>
     (\<forall>c \<in> set (fst p). \<not> js_space c \<and> c \<noteq> CHR '';'' \<and> c \<noteq> CHR ''='') \<and>
     \<not> js_space (hd (snd p)) \<and> CHR '';'' \<notin> set (snd p)"

section \<open>The authentication service\<close>

text \<open>
  Every request leaves through the interceptor, which reads the stored token and the CSRF
  cookie at the moment the request is sent.
\<close>

definition send :: "api_request \<Rightarrow> session \<Rightarrow> session" where
  "send r s = s\<lparr>sent := sent s @
     [(r, request_headers (ls_token s) (get_csrf_token (cookie s)) (fst (endpoint r)))]\<rparr>"

definition svc_login ::
  "string \<Rightarrow> string \<Rightarrow> login_response response \<Rightarrow> session \<Rightarrow> login_response response \<times> session" where
  "svc_login e pw r s =
     (let s1 = send (Login e pw) s in
      case r of
        Inr lr \<Rightarrow> (Inr lr, s1\<lparr>ls_token := Some (lr_token lr)\<rparr>)
      | Inl err \<Rightarrow> (Inl err, s1))"

text \<open>\<open>logout\<close> swallows a rejection and removes the token in \<open>finally\<close>.\<close>

definition svc_logout :: "unit response \<Rightarrow> session \<Rightarrow> session" where
  "svc_logout r s = (send Logout s)\<lparr>ls_token := None\<rparr>"

definition svc_get_current_user :: "app_user response \<Rightarrow> session \<Rightarrow> app_user response \<times> session" where
  "svc_get_current_user r s = (r, send Current_User s)"

text \<open>
  \<open>isAuthenticated\<close>: no request without a non-empty token; a rejected check removes the
  token (the token is "stale").
\<close>

definition svc_is_authenticated :: "app_user response \<Rightarrow> session \<Rightarrow> bool \<times> session" where
  "svc_is_authenticated r s =
     (case ls_token s of
        None \<Rightarrow> (False, s)
      | Some t \<Rightarrow>
          (if t = [] then (False, s)
           else (let s1 = send Current_User s in
                 case r of
                   Inr _ \<Rightarrow> (True, s1)
                 | Inl _ \<Rightarrow> (False, s1\<lparr>ls_token := None\<rparr>))))"

section \<open>The authentication provider\<close>

definition login_ok_notice :: "string \<Rightarrow> notice" where
  "login_ok_notice name = \<lparr>notice_title = ''Login Successful'',
     notice_description = ''Welcome back, '' @ name @ ''!'', notice_destructive = False\<rparr>"

definition login_failed_notice :: notice where
  "login_failed_notice = \<lparr>notice_title = ''Login Failed'',
     notice_description = ''Invalid email or password. Please try again.'', notice_destructive = True\<rparr>"

definition logged_out_notice :: notice where
  "logged_out_notice = \<lparr>notice_title = ''Logged Out'',
     notice_description = ''You have been successfully logged out.'', notice_destructive = False\<rparr>"

definition au_toast :: "notice \<Rightarrow> session \<Rightarrow> session" where
  "au_toast n s = s\<lparr>au_notices := au_notices s @ [n]\<rparr>"

text \<open>
  \<open>checkAuth\<close>, run once on mount: the freshness check, then, only if it passed, a second
  \<open>GET /auth/user/\<close> whose answer becomes the user; a rejection of that second request is
  caught and logged. Loading ends in every case.
\<close>

definition check_auth :: "app_user response \<Rightarrow> app_user response \<Rightarrow> session \<Rightarrow> session" where
  "check_auth r1 r2 s =
     (let (ok, s1) = svc_is_authenticated r1 s in
      if ok then
        (case svc_get_current_user r2 s1 of
           (Inr u, s2) \<Rightarrow> s2\<lparr>au_user := Some u, au_loading := False\<rparr>
         | (Inl _, s2) \<Rightarrow> s2\<lparr>au_loading := False\<rparr>)
      else s1\<lparr>au_loading := False\<rparr>)"

text \<open>\<open>login\<close> of the provider rethrows the service's rejection after its toast.\<close>

definition ctx_login ::
  "string \<Rightarrow> string \<Rightarrow> login_response response \<Rightarrow> session \<Rightarrow> unit response \<times> session" where
  "ctx_login e pw r s =
     (case svc_login e pw r (s\<lparr>au_loading := True\<rparr>) of
        (Inr lr, s1) \<Rightarrow>
          (Inr (), (au_toast (login_ok_notice (username (lr_user lr))) (s1\<lparr>au_user := Some (lr_user lr)\<rparr>))
                     \<lparr>au_loading := False\<rparr>)
      | (Inl err, s1) \<Rightarrow> (Inl err, (au_toast login_failed_notice s1)\<lparr>au_loading := False\<rparr>))"

text \<open>
  \<open>logout\<close> of the provider: the service never rejects, so the user is always cleared
  and the toast always raised; the \<open>catch\<close> branch is dead.
\<close>

definition ctx_logout :: "unit response \<Rightarrow> session \<Rightarrow> session" where
  "ctx_logout r s =
     (au_toast logged_out_notice ((svc_logout r (s\<lparr>au_loading := True\<rparr>))\<lparr>au_user := None\<rparr>))
       \<lparr>au_loading := False\<rparr>"

text \<open>\<open>isAuthenticated: !!user\<close>.\<close>

definition is_authenticated :: "session \<Rightarrow> bool" where
  "is_authenticated s \<longleftrightarrow> au_user s \<noteq> None"

definition demo_user :: app_user where
  "demo_user = \<lparr>user_id = ''1'', username = ''admin'', user_email = ''admin@x.com'',
     first_name = ''Ada'', last_name = ''Admin''\<rparr>"

datatype auth_phase = Checking | Authenticated | Anonymous

definition auth_phase :: "session \<Rightarrow> auth_phase" where
  "auth_phase s = (if au_loading s then Checking else if is_authenticated s then Authenticated else Anonymous)"

section \<open>Facts of the cookie parser\<close>

lemma csrf_group_nonempty: "csrf_group r \<noteq> Some []"
  unfolding csrf_group_def Let_def by simp
lemma csrf_value_nonempty: "csrf_value x \<noteq> Some []"
  unfolding csrf_value_def Let_def by (simp add: csrf_group_nonempty split: option.split)
lemma csrf_scan_nonempty: "csrf_scan x \<noteq> Some []"
proof (induction x)
  case (Cons c x)
  then show ?case using csrf_value_nonempty [of x] by (cases "csrf_value x") simp_all
qed simp
lemma get_csrf_token_nonempty: "get_csrf_token x \<noteq> Some []"
  using csrf_value_nonempty [of x] csrf_scan_nonempty [of x]
  by (cases "csrf_value x") (simp_all add: get_csrf_token_def)

lemma js_space_simps [simp]:
  "\<not> js_space CHR ''=''" "\<not> js_space CHR '';''" "js_space CHR '' ''"
  by (simp_all add: js_space_def)

lemma dropWhile_js_space_keep:
  "x \<noteq> [] \<Longrightarrow> \<not> js_space (hd x) \<Longrightarrow> dropWhile js_space (x @ y) = x @ y"
  by (cases x) simp_all

lemma takeWhile_upto: "c \<notin> set xs \<Longrightarrow> takeWhile (\<lambda>x. x \<noteq> c) (xs @ c # ys) = xs"
  by (induction xs) auto

lemma csrf_group_value:
  assumes "snd p \<noteq> []" "\<not> js_space (hd (snd p))" "CHR '';'' \<notin> set (snd p)"
    and "r = [] \<or> hd r = CHR '';''"
  shows "csrf_group (snd p @ r) = Some (snd p)"
proof -
  have "takeWhile (\<lambda>x. x \<noteq> CHR '';'') (snd p @ r) = snd p"
    using assms(3,4) takeWhile_upto [of "CHR '';''" "snd p"]
    by (cases r) (auto simp: takeWhile_append2 [of "snd p"])
  moreover have "dropWhile js_space (snd p) = snd p"
    using dropWhile_js_space_keep [of "snd p" "[]"] assms(1,2) by simp
  ultimately show ?thesis using assms(1) by (simp add: csrf_group_def Let_def)
qed

lemma csrf_value_pair:
  assumes ok: "cookie_pair_ok (n, v)" and r: "r = [] \<or> hd r = CHR '';''"
  shows "csrf_value (n @ CHR ''='' # v @ r) = (if n = ''csrftoken'' then Some v else None)"
proof -
  have n: "n \<noteq> []" "\<forall>c \<in> set n. \<not> js_space c \<and> c \<noteq> CHR '';'' \<and> c \<noteq> CHR ''=''"
    using ok by (simp_all add: cookie_pair_ok_def)
  have dw: "dropWhile js_space (n @ CHR ''='' # v @ r) = n @ CHR ''='' # v @ r"
    using n dropWhile_js_space_keep [of n] by (cases n) simp_all
  have grp: "csrf_group (v @ r) = Some v"
    using csrf_group_value [of "(n, v)" r] ok r by (simp add: cookie_pair_ok_def)
  show ?thesis
  proof (cases "n = ''csrftoken''")
    case True
    then show ?thesis using dw grp by (simp add: csrf_value_def csrf_after_eq_def)
  next
    case False
    show ?thesis
    proof (cases "length n < 9")
      case True
      then have "CHR ''='' \<in> set (take 9 (n @ CHR ''='' # v @ r))"
        by (cases "9 - length n") (simp_all add: take_append)
      moreover have "CHR ''='' \<notin> set ''csrftoken''" by simp
      ultimately have "take 9 (n @ CHR ''='' # v @ r) \<noteq> ''csrftoken''" by metis
      with False dw show ?thesis by (simp add: csrf_value_def)
    next
      case long: False
      show ?thesis
      proof (cases "take 9 n = ''csrftoken''")
        case True
        then obtain c x where x: "drop 9 n = c # x"
          using \<open>n \<noteq> ''csrftoken''\<close> by (metis append_take_drop_id neq_Nil_conv self_append_conv)
        then have "c \<in> set n" by (metis in_set_dropD list.set_intros(1))
        then have "\<not> js_space c" "c \<noteq> CHR ''=''" using n(2) by auto
        moreover have "drop 9 (n @ CHR ''='' # v @ r) = c # x @ CHR ''='' # v @ r"
          using long x by simp
        ultimately show ?thesis using dw True long False
          by (simp add: csrf_value_def csrf_after_eq_def)
      next
        case False
        then show ?thesis using dw long \<open>n \<noteq> ''csrftoken''\<close> by (simp add: csrf_value_def)
      qed
    qed
  qed
qed

lemma csrf_scan_append: "CHR '';'' \<notin> set x \<Longrightarrow> csrf_scan (x @ y) = csrf_scan y"
  by (induction x) auto

lemma csrf_value_space: "csrf_value (CHR '' '' # z) = csrf_value z"
  by (simp add: csrf_value_def)

lemma cookie_pair_no_semicolon:
  "cookie_pair_ok (n, v) \<Longrightarrow> CHR '';'' \<notin> set (n @ CHR ''='' # v)"
  by (auto simp: cookie_pair_ok_def)

lemma get_csrf_token_cons:
  assumes ok: "cookie_pair_ok (n, v)"
  shows "get_csrf_token (n @ CHR ''='' # v @ ''; '' @ rest) =
           (if n = ''csrftoken'' then Some v else get_csrf_token rest)"
proof -
  have val: "csrf_value (n @ CHR ''='' # v @ ''; '' @ rest) = (if n = ''csrftoken'' then Some v else None)"
    using csrf_value_pair [OF ok, of "''; '' @ rest"] by simp
  have "csrf_scan (n @ CHR ''='' # v @ ''; '' @ rest) = csrf_scan (''; '' @ rest)"
    using csrf_scan_append [OF cookie_pair_no_semicolon [OF ok], of "''; '' @ rest"] by simp
  also have "\<dots> = get_csrf_token rest"
    by (simp add: get_csrf_token_def csrf_value_space split: option.split)
  finally show ?thesis using val by (simp add: get_csrf_token_def)
qed

lemma get_csrf_token_last:
  assumes ok: "cookie_pair_ok (n, v)"
  shows "get_csrf_token (n @ CHR ''='' # v) = (if n = ''csrftoken'' then Some v else None)"
proof -
  have "csrf_value (n @ CHR ''='' # v) = (if n = ''csrftoken'' then Some v else None)"
    using csrf_value_pair [OF ok, of "[]"] by simp
  moreover have "csrf_scan (n @ CHR ''='' # v) = None"
    using csrf_scan_append [OF cookie_pair_no_semicolon [OF ok], of "[]"] by simp
  ultimately show ?thesis by (simp add: get_csrf_token_def)
qed


section \<open>Facts of the service and the provider\<close>

lemma send_sel [simp]:
  "ls_token (send r s) = ls_token s" "cookie (send r s) = cookie s" "au_user (send r s) = au_user s"
  "au_loading (send r s) = au_loading s" "au_notices (send r s) = au_notices s"
  "sent (send r s) = sent s @ [(r, request_headers (ls_token s) (get_csrf_token (cookie s)) (fst (endpoint r)))]"
  by (simp_all add: send_def)

lemma au_toast_sel [simp]:
  "ls_token (au_toast n s) = ls_token s" "cookie (au_toast n s) = cookie s" "au_user (au_toast n s) = au_user s"
  "au_loading (au_toast n s) = au_loading s" "sent (au_toast n s) = sent s"
  "au_notices (au_toast n s) = au_notices s @ [n]"
  by (simp_all add: au_toast_def)

lemma request_headers_csrf:
  "(''X-CSRFToken'', c) \<in> set (request_headers tok cs m) \<longleftrightarrow> unsafe_method m \<and> cs = Some c \<and> c \<noteq> []"
  by (cases "unsafe_method m"; cases tok; cases cs; auto simp: request_headers_def)

lemma request_headers_auth:
  "(''Authorization'', h) \<in> set (request_headers tok cs m) \<longleftrightarrow> (\<exists>t. tok = Some t \<and> t \<noteq> [] \<and> h = ''Token '' @ t)"
  by (cases "unsafe_method m"; cases tok; cases cs; simp add: request_headers_def)

lemma check_auth_cases:
  "check_auth r1 r2 s =
     (if ls_token s \<notin> {None, Some []} then
        (case r1 of
           Inl _ \<Rightarrow> (send Current_User s)\<lparr>ls_token := None, au_loading := False\<rparr>
         | Inr _ \<Rightarrow>
             (case r2 of
                Inr u \<Rightarrow> (send Current_User (send Current_User s))\<lparr>au_user := Some u, au_loading := False\<rparr>
              | Inl _ \<Rightarrow> (send Current_User (send Current_User s))\<lparr>au_loading := False\<rparr>))
      else s\<lparr>au_loading := False\<rparr>)"
  by (auto simp: check_auth_def svc_is_authenticated_def svc_get_current_user_def Let_def
      split: option.splits sum.splits)

section \<open>Properties\<close>

text \<open>
  C25. \<open>getCsrfToken\<close> reads back what the server set: on a \<open>document.cookie\<close> string
  made of well-formed cookies it returns the value of the first cookie named
  \<open>csrftoken\<close>, and nothing when there is none.
\<close>

theorem csrf_cookie_roundtrip:
  "list_all cookie_pair_ok ps \<Longrightarrow> get_csrf_token (cookie_string ps) = map_of ps ''csrftoken''"
proof (induction ps rule: cookie_string.induct)
  case 1
  then show ?case by (simp add: get_csrf_token_def csrf_value_def)
next
  case (2 n v)
  then show ?case using get_csrf_token_last [of n v] by simp
next
  case (3 n v p ps)
  then show ?case using get_csrf_token_cons [of n v] by simp
qed

theorem csrf_cookie_roundtrip_witness:
  "get_csrf_token (cookie_string [(''sessionid'', ''abc''), (''csrftoken'', ''XyZ12''), (''theme'', ''dark'')])
     = Some ''XyZ12''"
  using csrf_cookie_roundtrip [of "[(''sessionid'', ''abc''), (''csrftoken'', ''XyZ12''), (''theme'', ''dark'')]"]
  by (simp add: cookie_pair_ok_def js_space_def)

text \<open>
  The request interceptor puts \<open>X-CSRFToken\<close> on exactly the state-changing
  requests, with the cookie's CSRF token, and \<open>Authorization: Token t\<close> on every request
  sent while a non-empty token \<open>t\<close> is stored.
\<close>

theorem interceptor_headers:
  "((''X-CSRFToken'', c) \<in> set (snd (last (sent (send r s)))) \<longleftrightarrow>
      state_changing r \<and> get_csrf_token (cookie s) = Some c) \<and>
   ((''Authorization'', h) \<in> set (snd (last (sent (send r s)))) \<longleftrightarrow>
      (\<exists>t. ls_token s = Some t \<and> t \<noteq> [] \<and> h = ''Token '' @ t))"
  using get_csrf_token_nonempty [of "cookie s"]
  by (auto simp: request_headers_csrf request_headers_auth state_changing_def)

text \<open>
  \<open>isAuthenticated\<close> answers true exactly when a non-empty token is stored and the
  gateway accepts it; a rejected check removes the token (stale-token self-healing);
  without a token no request is sent.
\<close>

theorem is_authenticated_self_healing:
  "(fst (svc_is_authenticated r s) \<longleftrightarrow> ls_token s \<notin> {None, Some []} \<and> \<not> isl r) \<and>
   ls_token (snd (svc_is_authenticated r s)) =
     (if ls_token s \<notin> {None, Some []} \<and> isl r then None else ls_token s) \<and>
   map fst (sent (snd (svc_is_authenticated r s))) =
     map fst (sent s) @ (if ls_token s \<notin> {None, Some []} then [Current_User] else [])"
  by (auto simp: svc_is_authenticated_def Let_def split: option.splits sum.splits)

text \<open>
  C23. Logout always clears the local session, whatever the gateway answers: the token and
  the user are gone, loading is off, one logout request was sent and the Logged Out toast
  raised.
\<close>

theorem logout_always_clears:
  "ls_token (ctx_logout r s) = None \<and> au_user (ctx_logout r s) = None \<and> \<not> au_loading (ctx_logout r s) \<and>
   map fst (sent (ctx_logout r s)) = map fst (sent s) @ [Logout] \<and>
   au_notices (ctx_logout r s) = au_notices s @ [logged_out_notice]"
  by (simp add: ctx_logout_def svc_logout_def)


text \<open>
  A successful login stores the token and the user and greets the user by name; a
  rejected login rethrows the error and leaves the token and the user as they were, with
  the Login Failed toast. Either way exactly one login request is sent and loading ends.
\<close>

theorem login_outcomes:
  "fst (ctx_login e pw (Inr lr) s) = Inr () \<and>
   ls_token (snd (ctx_login e pw (Inr lr) s)) = Some (lr_token lr) \<and>
   au_user (snd (ctx_login e pw (Inr lr) s)) = Some (lr_user lr) \<and>
   \<not> au_loading (snd (ctx_login e pw (Inr lr) s)) \<and>
   map fst (sent (snd (ctx_login e pw (Inr lr) s))) = map fst (sent s) @ [Login e pw] \<and>
   au_notices (snd (ctx_login e pw (Inr lr) s)) = au_notices s @ [login_ok_notice (username (lr_user lr))] \<and>
   fst (ctx_login e pw (Inl err) s) = Inl err \<and>
   ls_token (snd (ctx_login e pw (Inl err) s)) = ls_token s \<and>
   au_user (snd (ctx_login e pw (Inl err) s)) = au_user s \<and>
   \<not> au_loading (snd (ctx_login e pw (Inl err) s)) \<and>
   map fst (sent (snd (ctx_login e pw (Inl err) s))) = map fst (sent s) @ [Login e pw] \<and>
   au_notices (snd (ctx_login e pw (Inl err) s)) = au_notices s @ [login_failed_notice]"
  by (simp add: ctx_login_def svc_login_def Let_def)


text \<open>
  C24. \<open>checkAuth\<close> on mount ends in Authenticated exactly when a non-empty token is
  stored and both user requests succeed, and in Anonymous otherwise; the token is removed
  only when the first request is rejected, so a rejection of the second one leaves an
  Anonymous session that keeps its token.
\<close>

theorem check_auth_outcome:
  "auth_phase (check_auth r1 r2 (init_session tok ck)) =
     (if tok \<notin> {None, Some []} \<and> \<not> isl r1 \<and> \<not> isl r2 then Authenticated else Anonymous) \<and>
   ls_token (check_auth r1 r2 (init_session tok ck)) = (if tok \<notin> {None, Some []} \<and> isl r1 then None else tok)"
  by (cases r1; cases r2) (simp_all add: check_auth_cases init_session_def auth_phase_def is_authenticated_def)


end
