(* ===== verification/Navigation.thy ===== *)
theory Navigation
  imports Session Ticket_Queries
begin

text \<open>
  Routing and the authentication gate: the route table of
  \<open>src/client/src/components/AppRouter.tsx\<close> with its two loading timers, the guard of
  \<open>src/client/src/components/admin/AdminLayout.tsx\<close>, the redirect and spinner at the
  top of \<open>src/client/src/pages/admin/Login.tsx\<close>, and the authentication-dependent
  parts of \<open>Navbar.tsx\<close> and \<open>AdminSidebar.tsx\<close>. A location is its
  \<open>pathname\<close>; what a location shows is a \<open>view\<close> computed from the route and the
  session state of \<open>Session\<close>.
\<close>

section \<open>The route table\<close>

datatype app_page =
    Index_Page
  | Submit_Page
  | Submitted_Page
  | Login_Page
  | Admin_Home
  | Dashboard_Page
  | Ticket_List_Page
  | Ticket_Detail_Page string
  | Not_Found_Page

text \<open>
  React Router compiles each route path into a pattern matched case-insensitively against
  the whole pathname, allowing trailing slashes; a \<open>:id\<close> segment matches any non-empty
  segment and keeps its case. The layout route \<open>/admin\<close> matches on its own (its outlet
  is then empty) and as the prefix of its three children; everything else is \<open>*\<close>.
  Percent-decoding of the pathname is not modelled.
\<close>

fun split_slash :: "string \<Rightarrow> string list" where
  "split_slash [] = [[]]"
| "split_slash (c # cs) =
     (if c = CHR ''/'' then [] # split_slash cs
      else (case split_slash cs of w # ws \<Rightarrow> (c # w) # ws | [] \<Rightarrow> [[c]]))"

definition path_segments :: "string \<Rightarrow> string list option" where
  "path_segments p = (case p of
       CHR ''/'' # rest \<Rightarrow> Some (rev (dropWhile (\<lambda>w. w = []) (rev (split_slash rest))))
     | _ \<Rightarrow> None)"

fun match_segments :: "string list \<Rightarrow> app_page" where
  "match_segments [] = Index_Page"
| "match_segments [a] =
     (if js_lower a = ''submit-ticket'' then Submit_Page
      else if js_lower a = ''ticket-submitted'' then Submitted_Page
      else if js_lower a = ''admin'' then Admin_Home
      else Not_Found_Page)"
| "match_segments [a, b] =
     (if js_lower a = ''admin'' \<and> js_lower b = ''login'' then Login_Page
      else if js_lower a = ''admin'' \<and> js_lower b = ''dashboard'' then Dashboard_Page
      else if js_lower a = ''admin'' \<and> js_lower b = ''tickets'' then Ticket_List_Page
      else Not_Found_Page)"
| "match_segments [a, b, c] =
     (if js_lower a = ''admin'' \<and> js_lower b = ''tickets'' \<and> c \<noteq> [] then Ticket_Detail_Page c
      else Not_Found_Page)"
| "match_segments _ = Not_Found_Page"

definition route :: "string \<Rightarrow> app_page" where
  "route p = (case path_segments p of Some ws \<Rightarrow> match_segments ws | None \<Rightarrow> Not_Found_Page)"

fun admin_page :: "app_page \<Rightarrow> bool" where
  "admin_page Admin_Home = True"
| "admin_page Dashboard_Page = True"
| "admin_page Ticket_List_Page = True"
| "admin_page (Ticket_Detail_Page _) = True"
| "admin_page _ = False"

section \<open>What a location shows\<close>

datatype view = Show_Page app_page | Auth_Loading | Login_Spinner | Redirect string

text \<open>
  \<open>AdminLayout\<close>: a loading screen while the session is checked, a redirect to the login
  page without a user, the page otherwise.
\<close>

definition admin_layout :: "session \<Rightarrow> app_page \<Rightarrow> view" where
  "admin_layout s p =
     (if au_loading s then Auth_Loading
      else if \<not> is_authenticated s then Redirect ''/admin/login''
      else Show_Page p)"

text \<open>
  The login page: to the dashboard when a user is there and loading is over, a spinner
  while loading, the form otherwise.
\<close>

definition login_view :: "session \<Rightarrow> view" where
  "login_view s =
     (if is_authenticated s \<and> \<not> au_loading s then Redirect ''/admin/dashboard''
      else if au_loading s then Login_Spinner
      else Show_Page Login_Page)"

definition render :: "session \<Rightarrow> app_page \<Rightarrow> view" where
  "render s p =
     (if admin_page p then admin_layout s p
      else if p = Login_Page then login_view s
      else Show_Page p)"

text \<open>\<open><Navigate>\<close> replaces the location, which renders again.\<close>

definition resolve :: "session \<Rightarrow> string \<Rightarrow> view" where
  "resolve s path = (case render s (route path) of Redirect q \<Rightarrow> render s (route q) | v \<Rightarrow> v)"

section \<open>The loading screens of the router\<close>

text \<open>
  \<open>AppRouter\<close> shows the loader while \<open>isLoading\<close> (the 1.5 s splash after mount) or
  \<open>isNavigating\<close> (0.8 s after every change of the pathname, and once more when the
  splash ends, since \<open>isLoading\<close> is a dependency of the same effect). Each timer is a
  flag "pending"; the effect's cleanup clears the previous navigation timer before it sets
  a new one.
\<close>

record router_state =
  r_path :: string
  r_loading :: bool
  r_navigating :: bool
  r_splash_timer :: bool
  r_nav_timer :: bool

definition router_mount :: "string \<Rightarrow> router_state" where
  "router_mount p = \<lparr>r_path = p, r_loading = True, r_navigating = False, r_splash_timer = True,
     r_nav_timer = False\<rparr>"

text \<open>The effect on \<open>[location.pathname, isLoading]\<close>.\<close>

definition nav_effect :: "router_state \<Rightarrow> router_state" where
  "nav_effect r = (if \<not> r_loading r then r\<lparr>r_navigating := True, r_nav_timer := True\<rparr> else r)"

datatype router_event = Splash_Fires | Nav_Fires | Path_Change string

fun router_step :: "router_event \<Rightarrow> router_state \<Rightarrow> router_state" where
  "router_step Splash_Fires r =
     (if r_splash_timer r then nav_effect (r\<lparr>r_loading := False, r_splash_timer := False\<rparr>) else r)"
| "router_step Nav_Fires r =
     (if r_nav_timer r then r\<lparr>r_navigating := False, r_nav_timer := False\<rparr> else r)"
| "router_step (Path_Change p) r =
     (if p = r_path r then r else nav_effect (r\<lparr>r_path := p, r_nav_timer := False\<rparr>))"

definition loader_visible :: "router_state \<Rightarrow> bool" where
  "loader_visible r \<longleftrightarrow> r_loading r \<or> r_navigating r"

inductive router_reachable :: "router_state \<Rightarrow> bool" where
  router_init: "router_reachable (router_mount p)"
| router_next: "router_reachable r \<Longrightarrow> router_reachable (router_step e r)"

text \<open>The timers still pending, in the order they fire.\<close>

definition pending_timers :: "router_state \<Rightarrow> router_event list" where
  "pending_timers r = (if r_splash_timer r then [Splash_Fires, Nav_Fires]
                       else if r_nav_timer r then [Nav_Fires] else [])"

definition router_ok :: "router_state \<Rightarrow> bool" where
  "router_ok r \<longleftrightarrow> (r_loading r \<longleftrightarrow> r_splash_timer r) \<and> (r_navigating r \<longleftrightarrow> r_nav_timer r) \<and>
     \<not> (r_loading r \<and> r_navigating r)"

section \<open>Ticket card and badges\<close>

text \<open>
  \<open>TicketCard\<close>'s link: the admin detail route, or \<open>/ticket/:id\<close> for the public view
  (the default, \<open>isAdmin = false\<close>).
\<close>

definition card_link :: "bool \<Rightarrow> ticket \<Rightarrow> string" where
  "card_link is_admin t = (if is_admin then ''/admin/tickets/'' @ ticket_id t else ''/ticket/'' @ ticket_id t)"

text \<open>The class and label maps of \<open>TicketStatusBadge\<close> and \<open>TicketPriorityBadge\<close>.\<close>

definition status_badge :: "ticket_status \<Rightarrow> string \<times> string" where
  "status_badge st = (''ticket-status-'' @ status_str st, (case st of
       New \<Rightarrow> ''New'' | Open \<Rightarrow> ''Open'' | Pending \<Rightarrow> ''Pending''
     | Resolved \<Rightarrow> ''Resolved'' | Closed \<Rightarrow> ''Closed''))"

definition priority_badge :: "ticket_priority \<Rightarrow> string \<times> string" where
  "priority_badge p = (''ticket-priority-'' @ priority_str p, (case p of
       Low \<Rightarrow> ''Low'' | Medium \<Rightarrow> ''Medium'' | High \<Rightarrow> ''High'' | Urgent \<Rightarrow> ''Urgent''))"

definition admin_session :: session where
  "admin_session = (init_session (Some ''tok'') [])\<lparr>au_loading := False, au_user := Some demo_user\<rparr>"

definition anonymous_session :: session where
  "anonymous_session = (init_session None [])\<lparr>au_loading := False\<rparr>"

section \<open>Navigation bar and sidebar\<close>

text \<open>\<open>getUserDisplayName\<close> of the navbar: \<open>user.first_name || user.username\<close>.\<close>

definition nav_display_name :: "app_user option \<Rightarrow> string" where
  "nav_display_name u = (case u of None \<Rightarrow> [] | Some x \<Rightarrow> if first_name x \<noteq> [] then first_name x else username x)"

datatype nav_item = Nav_Link string string bool | Nav_User string | Nav_Logout

text \<open>
  The desktop navigation: label, target and whether the link is marked active (the
  pathname equal to the target), then either the login link or the dashboard link, the
  user's name and the logout button.
\<close>

definition nav_items :: "session \<Rightarrow> string \<Rightarrow> nav_item list" where
  "nav_items s path =
     [Nav_Link ''Home'' ''/'' (path = ''/''),
      Nav_Link ''Submit a Ticket'' ''/submit-ticket'' (path = ''/submit-ticket'')] @
     (if \<not> is_authenticated s then [Nav_Link ''Admin Login'' ''/admin/login'' False]
      else [Nav_Link ''Dashboard'' ''/admin/dashboard'' (path = ''/admin/dashboard''),
            Nav_User (nav_display_name (au_user s)), Nav_Logout])"

text \<open>
  The sidebar's \<open>NavLink\<close>s: active when the pathname is the target or lies below it.
\<close>

definition nav_link_active :: "string \<Rightarrow> string \<Rightarrow> bool" where
  "nav_link_active target path \<longleftrightarrow>
     js_lower path = js_lower target \<or> starts_with (js_lower path) (js_lower (target @ ''/''))"

definition sidebar_items :: "string \<Rightarrow> (string \<times> bool) list" where
  "sidebar_items path =
     [(''Dashboard'', nav_link_active ''/admin/dashboard'' path),
      (''Tickets'', nav_link_active ''/admin/tickets'' path)]"

record navbar_state =
  nb_scrolled :: bool
  nb_menu_open :: bool

datatype navbar_event = Scrolled int | Toggle_Menu | Pathname_Changed

fun navbar_step :: "navbar_event \<Rightarrow> navbar_state \<Rightarrow> navbar_state" where
  "navbar_step (Scrolled y) n = n\<lparr>nb_scrolled := y > 10\<rparr>"
| "navbar_step Toggle_Menu n = n\<lparr>nb_menu_open := \<not> nb_menu_open n\<rparr>"
| "navbar_step Pathname_Changed n = n\<lparr>nb_menu_open := False\<rparr>"

section \<open>Facts of routing\<close>

lemma route_redirect_targets [simp]:
  "route ''/admin/login'' = Login_Page" "route ''/admin/dashboard'' = Dashboard_Page"
  by code_simp+

lemma render_cases:
  "render s p =
     (if admin_page p then
        (if au_loading s then Auth_Loading
         else if \<not> is_authenticated s then Redirect ''/admin/login'' else Show_Page p)
      else if p = Login_Page then
        (if is_authenticated s \<and> \<not> au_loading s then Redirect ''/admin/dashboard''
         else if au_loading s then Login_Spinner else Show_Page Login_Page)
      else Show_Page p)"
  by (simp add: render_def admin_layout_def login_view_def)

lemma resolve_cases:
  "resolve s path =
     (if admin_page (route path) then
        (if au_loading s then Auth_Loading
         else if \<not> is_authenticated s then Show_Page Login_Page else Show_Page (route path))
      else if route path = Login_Page then
        (if au_loading s then Login_Spinner
         else if is_authenticated s then Show_Page Dashboard_Page else Show_Page Login_Page)
      else Show_Page (route path))"
  by (simp add: resolve_def render_cases)

lemma router_ok_step: "router_ok r \<Longrightarrow> router_ok (router_step e r)"
  by (cases e) (auto simp: router_ok_def nav_effect_def)

lemma router_reachable_ok: "router_reachable r \<Longrightarrow> router_ok r"
  by (induction rule: router_reachable.induct)
     (simp_all add: router_ok_step, simp add: router_ok_def router_mount_def)


lemma split_slash_no_slash: "CHR ''/'' \<notin> set x \<Longrightarrow> split_slash x = [x]"
  by (induction x) auto

lemma split_slash_append_seg:
  "CHR ''/'' \<notin> set a \<Longrightarrow> split_slash (a @ CHR ''/'' # x) = a # split_slash x"
  by (induction a) auto

lemma trim_segments_head:
  "a \<noteq> [] \<Longrightarrow> \<exists>ws'. rev (dropWhile (\<lambda>w. w = []) (rev (a # ws))) = a # ws'"
  by (cases "\<forall>w \<in> set ws. w = []") (auto simp: dropWhile_append3 dropWhile_append1)

lemma js_lower_route_words [simp]:
  "js_lower ''admin'' = ''admin''" "js_lower ''tickets'' = ''tickets''" "js_lower ''ticket'' = ''ticket''"
  by code_simp+

lemma admin_card_link_route:
  "ticket_id t \<noteq> [] \<Longrightarrow> CHR ''/'' \<notin> set (ticket_id t) \<Longrightarrow>
   route (card_link True t) = Ticket_Detail_Page (ticket_id t)"
  using split_slash_append_seg [of "''admin''" "''tickets/'' @ ticket_id t"]
    split_slash_append_seg [of "''tickets''" "ticket_id t"] split_slash_no_slash [of "ticket_id t"]
  by (simp add: card_link_def route_def path_segments_def)

text \<open>
  The public link of the card leads nowhere: no route matches \<open>/ticket/...\<close>, whatever
  the id, so it always shows the 404 page.
\<close>

lemma public_card_link_not_found: "route (card_link False t) = Not_Found_Page"
proof -
  obtain ws where ws: "rev (dropWhile (\<lambda>w. w = []) (rev (''ticket'' # split_slash (ticket_id t)))) = ''ticket'' # ws"
    using trim_segments_head [of "''ticket''" "split_slash (ticket_id t)"] by auto
  have "split_slash (''ticket/'' @ ticket_id t) = ''ticket'' # split_slash (ticket_id t)"
    using split_slash_append_seg [of "''ticket''" "ticket_id t"] by simp
  then have "route (card_link False t) = match_segments (''ticket'' # ws)"
    using ws by (simp add: card_link_def route_def path_segments_def)
  also have "\<dots> = Not_Found_Page"
    by (cases ws rule: match_segments.cases) (auto simp: js_lower_def js_lower_char_def)
  finally show ?thesis .
qed

section \<open>Properties\<close>

text \<open>
  C20. An admin page (dashboard, ticket list, ticket detail, the bare layout) is shown only
  to a session that has a user and is done loading: the guard of \<open>AdminLayout\<close>, after
  any redirect the login page makes.
\<close>

theorem admin_pages_need_session:
  "resolve s path = Show_Page p \<Longrightarrow> admin_page p \<Longrightarrow> is_authenticated s \<and> \<not> au_loading s"
  by (auto simp: resolve_cases split: if_splits)


theorem admin_pages_need_session_witness:
  "is_authenticated admin_session \<and> \<not> au_loading admin_session"
proof -
  have "resolve admin_session ''/admin/tickets/t1'' = Show_Page (Ticket_Detail_Page ''t1'')"
    by code_simp
  then show ?thesis
    using admin_pages_need_session [of admin_session "''/admin/tickets/t1''" "Ticket_Detail_Page ''t1''"]
    by simp
qed

text \<open>
  C32. The redirects of the admin layout and the login page never chain into a loop: a
  location resolves, after at most one redirect, to something other than a redirect, and
  an anonymous session asking for an admin page sees the login form.
\<close>

theorem no_redirect_loop:
  "resolve s path \<noteq> Redirect q \<and>
   (admin_page (route path) \<and> \<not> au_loading s \<and> \<not> is_authenticated s \<longrightarrow>
      resolve s path = Show_Page Login_Page)"
  by (simp add: resolve_cases)


theorem no_redirect_loop_witness:
  "resolve anonymous_session ''/admin/dashboard'' = Show_Page Login_Page"
  using no_redirect_loop [of anonymous_session "''/admin/dashboard''" "''/admin/login''"]
  by (simp add: anonymous_session_def init_session_def is_authenticated_def)

text \<open>
  C33. The router's loader always goes away: from every state the router reaches, the timers
  already pending (at most the splash and one navigation timer) end with no loader shown.
\<close>

theorem loader_eventually_hidden:
  "router_reachable r \<Longrightarrow>
   length (pending_timers r) \<le> 2 \<and> \<not> loader_visible (fold router_step (pending_timers r) r)"
  using router_reachable_ok [of r]
  by (auto simp: pending_timers_def router_ok_def loader_visible_def nav_effect_def)

theorem loader_eventually_hidden_witness:
  "\<not> loader_visible (fold router_step (pending_timers (router_step (Path_Change ''/x'') (router_mount ''/'')))
     (router_step (Path_Change ''/x'') (router_mount ''/'')))"
  using loader_eventually_hidden [OF router_next [OF router_init]] by blast

end
