(* ===== verification/Forms.thy ===== *)
theory Forms
  imports Session Ticket_Store
begin

text \<open>
  The two forms of the client. The admin login form of
  \<open>src/client/src/pages/admin/Login.tsx\<close>: its state, \<open>validateForm\<close> with the email
  pattern \<open>/\S+@\S+\.\S+/\<close>, the input handlers and \<open>handleSubmit\<close>, which calls the
  provider's \<open>login\<close> of \<open>Session\<close>. The public ticket form of
  \<open>src/client/src/pages/SubmitTicket.tsx\<close>: its zod schema and \<open>onSubmit\<close>, which calls
  \<open>createTicket\<close> of \<open>Ticket_Store\<close>. The email check of zod (\<open>z.string().email()\<close>)
  is library code whose pattern depends on the zod release; it is a parameter
  \<open>email_ok\<close> of the schema, and the theorems hold for every such check. The browser's own
  constraint validation of the \<open>required\<close> and \<open>type="email"\<close> inputs runs before
  \<open>handleSubmit\<close> and is not modelled: the model starts where the handler is called.
\<close>

section \<open>The login form\<close>

record login_page =
  lp_email :: string
  lp_password :: string
  lp_submitting :: bool
  lp_email_error :: string
  lp_password_error :: string

definition init_login_page :: login_page where
  "init_login_page = \<lparr>lp_email = [], lp_password = [], lp_submitting = False,
     lp_email_error = [], lp_password_error = []\<rparr>"

text \<open>
  \<open>/\S+@\S+\.\S+/.test(email)\<close>, unanchored: somewhere a non-space character, then
  \<open>@\<close>, then (\<open>dot_tail\<close>) a run of non-space characters, a dot and a non-space
  character. A longer run before \<open>@\<close> or after the dot changes nothing, so one
  character stands for each.
\<close>

fun dot_tail :: "string \<Rightarrow> bool" where
  "dot_tail (c # d # e # r) = (\<not> js_space c \<and> ((d = CHR ''.'' \<and> \<not> js_space e) \<or> dot_tail (d # e # r)))"
| "dot_tail _ = False"

fun email_re :: "string \<Rightarrow> bool" where
  "email_re (c # d # r) = ((\<not> js_space c \<and> d = CHR ''@'' \<and> dot_tail r) \<or> email_re (d # r))"
| "email_re _ = False"

definition validate_login :: "string \<Rightarrow> string \<Rightarrow> (string \<times> string) \<times> bool" where
  "validate_login email pw =
     (let ee = (if email = [] then ''Email is required''
                else if \<not> email_re email then ''Email is invalid'' else []);
          pe = (if pw = [] then ''Password is required''
                else if length pw < 6 then ''Password must be at least 6 characters'' else []);
          ok = (email \<noteq> [] \<and> email_re email) \<and> (pw \<noteq> [] \<and> \<not> length pw < 6)
      in ((ee, pe), ok))"

text \<open>Typing into a field sets it and clears that field's error.\<close>

definition set_email :: "string \<Rightarrow> login_page \<Rightarrow> login_page" where
  "set_email v p = (if lp_email_error p \<noteq> [] then p\<lparr>lp_email := v, lp_email_error := []\<rparr> else p\<lparr>lp_email := v\<rparr>)"

definition set_password :: "string \<Rightarrow> login_page \<Rightarrow> login_page" where
  "set_password v p =
     (if lp_password_error p \<noteq> [] then p\<lparr>lp_password := v, lp_password_error := []\<rparr> else p\<lparr>lp_password := v\<rparr>)"

definition invalid_credentials_notice :: notice where
  "invalid_credentials_notice = \<lparr>notice_title = ''Login Failed'',
     notice_description = ''Invalid credentials. Please try again.'', notice_destructive = True\<rparr>"

text \<open>
  \<open>handleSubmit\<close>: nothing is sent for an invalid form; otherwise the provider's
  \<open>login\<close>, then the dashboard, or on its rejection the page's own toast. The result is
  the page, the session and the location navigated to.
\<close>

definition handle_login_submit ::
  "login_response response \<Rightarrow> login_page \<Rightarrow> session \<Rightarrow> login_page \<times> session \<times> string option" where
  "handle_login_submit r p s =
     (case validate_login (lp_email p) (lp_password p) of
        ((ee, pe), ok) \<Rightarrow>
          (let p1 = p\<lparr>lp_email_error := ee, lp_password_error := pe\<rparr> in
           if \<not> ok then (p1, s, None)
           else (case ctx_login (lp_email p) (lp_password p) r s of
                   (Inr _, s1) \<Rightarrow> (p1\<lparr>lp_submitting := False\<rparr>, s1, Some ''/admin/dashboard'')
                 | (Inl _, s1) \<Rightarrow> (p1\<lparr>lp_submitting := False\<rparr>, au_toast invalid_credentials_notice s1, None))))"

section \<open>The ticket form\<close>

record ticket_form =
  tf_name :: string
  tf_email :: string
  tf_title :: string
  tf_description :: string
  tf_priority :: ticket_priority

definition default_ticket_form :: ticket_form where
  "default_ticket_form = \<lparr>tf_name = [], tf_email = [], tf_title = [], tf_description = [],
     tf_priority = Medium\<rparr>"

text \<open>
  The zod schema: the messages of every failed check, in the order of the fields. The
  priority is one of the four values by its type (the select offers only those).
\<close>

definition ticket_schema_errors :: "(string \<Rightarrow> bool) \<Rightarrow> ticket_form \<Rightarrow> string list" where
  "ticket_schema_errors email_ok f =
     (if length (tf_name f) < 2 then [''Name must be at least 2 characters''] else []) @
     (if \<not> email_ok (tf_email f) then [''Invalid email address''] else []) @
     (if length (tf_title f) < 5 then [''Title must be at least 5 characters''] else []) @
     (if length (tf_description f) < 10 then [''Description must be at least 10 characters''] else [])"

definition input_of_form :: "ticket_form \<Rightarrow> ticket_input" where
  "input_of_form f = \<lparr>in_title = tf_title f, in_description = tf_description f,
     in_priority = tf_priority f,
     in_created_by = \<lparr>creator_name = tf_name f, creator_email = tf_email f\<rparr>\<rparr>"

record submit_page =
  sp_form :: ticket_form
  sp_errors :: "string list"
  sp_submitting :: bool

definition submitted_notice :: notice where
  "submitted_notice = \<lparr>notice_title = ''Ticket Submitted'',
     notice_description = ''Your support ticket has been created successfully.'', notice_destructive = False\<rparr>"

definition submission_failed_notice :: notice where
  "submission_failed_notice = \<lparr>notice_title = ''Submission Failed'',
     notice_description = ''There was an error submitting your ticket. Please try again.'',
     notice_destructive = True\<rparr>"

text \<open>
  \<open>form.handleSubmit(onSubmit)\<close>: the resolver runs the schema and calls \<open>onSubmit\<close>
  only when it passes; \<open>onSubmit\<close> creates the ticket, then resets the form and goes to
  the confirmation page, or raises its own toast when \<open>createTicket\<close> rethrows.
\<close>

definition submit_ticket ::
  "(string \<Rightarrow> bool) \<Rightarrow> django_ticket response \<Rightarrow> submit_page \<Rightarrow> ticket_ctx \<Rightarrow>
   submit_page \<times> ticket_ctx \<times> string option" where
  "submit_ticket email_ok r p c =
     (let errs = ticket_schema_errors email_ok (sp_form p) in
      if errs \<noteq> [] then (p\<lparr>sp_errors := errs\<rparr>, c, None)
      else (case create_ticket (input_of_form (sp_form p)) r c of
              (Inr _, c1) \<Rightarrow> (p\<lparr>sp_form := default_ticket_form, sp_errors := [], sp_submitting := False\<rparr>,
                             toast submitted_notice c1, Some ''/ticket-submitted'')
            | (Inl _, c1) \<Rightarrow> (p\<lparr>sp_errors := [], sp_submitting := False\<rparr>,
                             toast submission_failed_notice c1, None)))"

definition demo_login_page :: login_page where
  "demo_login_page = init_login_page\<lparr>lp_email := ''ana@x.com'', lp_password := ''secret1''\<rparr>"

definition demo_ticket_form :: ticket_form where
  "demo_ticket_form = \<lparr>tf_name = ''Ana'', tf_email = ''ana@x.com'', tf_title = ''Login broken'',
     tf_description = ''Cannot log in since update'', tf_priority = High\<rparr>"

section \<open>Facts of the forms\<close>

lemma dot_tail_iff:
  "dot_tail r \<longleftrightarrow> (\<exists>b e q. r = b @ CHR ''.'' # e # q \<and> b \<noteq> [] \<and> (\<forall>x \<in> set b. \<not> js_space x) \<and> \<not> js_space e)"
proof (induction r rule: dot_tail.induct)
  case (1 c d e r)
  show ?case
  proof
    assume "dot_tail (c # d # e # r)"
    then consider "\<not> js_space c" "d = CHR ''.''" "\<not> js_space e" | "\<not> js_space c" "dot_tail (d # e # r)"
      by auto
    then show "\<exists>b e' q. c # d # e # r = b @ CHR ''.'' # e' # q \<and> b \<noteq> [] \<and> (\<forall>x \<in> set b. \<not> js_space x) \<and> \<not> js_space e'"
    proof cases
      case 1
      then show ?thesis by (intro exI [of _ "[c]"] exI [of _ e] exI [of _ r]) simp
    next
      case 2
      with "1.IH" obtain b e' q where "d # e # r = b @ CHR ''.'' # e' # q" "\<forall>x \<in> set b. \<not> js_space x" "\<not> js_space e'"
        by blast
      with 2 show ?thesis by (intro exI [of _ "c # b"] exI [of _ e'] exI [of _ q]) simp
    qed
  next
    assume "\<exists>b e' q. c # d # e # r = b @ CHR ''.'' # e' # q \<and> b \<noteq> [] \<and> (\<forall>x \<in> set b. \<not> js_space x) \<and> \<not> js_space e'"
    then obtain x b1 e' q where eq: "c # d # e # r = (x # b1) @ CHR ''.'' # e' # q"
      and ws: "\<forall>y \<in> set (x # b1). \<not> js_space y" "\<not> js_space e'"
      by (metis neq_Nil_conv)
    show "dot_tail (c # d # e # r)"
    proof (cases b1)
      case Nil
      with eq ws show ?thesis by simp
    next
      case (Cons y b2)
      with eq ws have "d # e # r = b1 @ CHR ''.'' # e' # q" "b1 \<noteq> []" by simp_all
      with ws "1.IH" have dt: "dot_tail (d # e # r)" by auto
      have "c = x" using eq by simp
      with dt ws(1) show ?thesis by simp
    qed
  qed
qed (simp_all add: Cons_eq_append_conv append_eq_Cons_conv)

lemma email_re_iff:
  "email_re s \<longleftrightarrow> (\<exists>p x r. s = p @ x # CHR ''@'' # r \<and> \<not> js_space x \<and> dot_tail r)"
proof (induction s rule: email_re.induct)
  case (1 c d r)
  show ?case
  proof
    assume "email_re (c # d # r)"
    then consider "\<not> js_space c" "d = CHR ''@''" "dot_tail r" | "email_re (d # r)" by auto
    then show "\<exists>p x r'. c # d # r = p @ x # CHR ''@'' # r' \<and> \<not> js_space x \<and> dot_tail r'"
    proof cases
      case 1
      then show ?thesis by (intro exI [of _ "[]"] exI [of _ c] exI [of _ r]) simp
    next
      case 2
      with "1.IH" obtain p x r' where "d # r = p @ x # CHR ''@'' # r'" "\<not> js_space x" "dot_tail r'"
        by blast
      then show ?thesis by (intro exI [of _ "c # p"] exI [of _ x] exI [of _ r']) simp
    qed
  next
    assume "\<exists>p x r'. c # d # r = p @ x # CHR ''@'' # r' \<and> \<not> js_space x \<and> dot_tail r'"
    then obtain p x r' where eq: "c # d # r = p @ x # CHR ''@'' # r'" and x: "\<not> js_space x" "dot_tail r'"
      by blast
    show "email_re (c # d # r)"
    proof (cases p)
      case Nil
      with eq x show ?thesis by simp
    next
      case (Cons y p1)
      with eq have "d # r = p1 @ x # CHR ''@'' # r'" by simp
      with x "1.IH" have "email_re (d # r)" by blast
      then show ?thesis by simp
    qed
  qed
qed (simp_all add: Cons_eq_append_conv append_eq_Cons_conv)


lemma validate_login_ok:
  "snd (validate_login e pw) \<longleftrightarrow> e \<noteq> [] \<and> email_re e \<and> 6 \<le> length pw"
  by (auto simp: validate_login_def Let_def)

lemma validate_login_errors:
  "fst (validate_login e pw) = ([], []) \<longleftrightarrow> snd (validate_login e pw)"
  by (auto simp: validate_login_def Let_def)

lemma submit_ticket_cases:
  "submit_ticket ok r p c =
     (if ticket_schema_errors ok (sp_form p) \<noteq> [] then (p\<lparr>sp_errors := ticket_schema_errors ok (sp_form p)\<rparr>, c, None)
      else (case r of
              Inr d \<Rightarrow> (p\<lparr>sp_form := default_ticket_form, sp_errors := [], sp_submitting := False\<rparr>,
                    toast submitted_notice (snd (create_ticket (input_of_form (sp_form p)) r c)), Some ''/ticket-submitted'')
            | Inl e \<Rightarrow> (p\<lparr>sp_errors := [], sp_submitting := False\<rparr>,
                    toast submission_failed_notice (snd (create_ticket (input_of_form (sp_form p)) r c)), None)))"
  by (cases r) (simp_all add: submit_ticket_def Let_def create_ticket_Inr create_ticket_Inl)


text \<open>
  The schema counts characters and trims nothing: a title of five spaces and a description
  of ten pass it.
\<close>

lemma schema_accepts_blank_text:
  "ticket_schema_errors (\<lambda>_. True) (demo_ticket_form\<lparr>tf_title := replicate 5 CHR '' '',
     tf_description := replicate 10 CHR '' ''\<rparr>) = []"
  by (simp add: ticket_schema_errors_def demo_ticket_form_def)

section \<open>Properties\<close>

text \<open>
  C30. The login form's email test is the regular expression \<open>/\S+@\S+\.\S+/\<close>: it holds
  exactly when the text contains a non-empty run of non-space characters, an \<open>@\<close>, a
  second such run, a dot and a third such run.
\<close>

theorem email_re_regex:
  "email_re s \<longleftrightarrow>
   (\<exists>p a b c q. s = p @ a @ CHR ''@'' # b @ CHR ''.'' # c @ q \<and> a \<noteq> [] \<and> b \<noteq> [] \<and> c \<noteq> [] \<and>
      (\<forall>x \<in> set (a @ b @ c). \<not> js_space x))"
proof
  assume "email_re s"
  then obtain p x r where s: "s = p @ x # CHR ''@'' # r" "\<not> js_space x" "dot_tail r"
    unfolding email_re_iff by blast
  then obtain b e q where r: "r = b @ CHR ''.'' # e # q" "b \<noteq> []" "\<forall>y \<in> set b. \<not> js_space y" "\<not> js_space e"
    unfolding dot_tail_iff by blast
  have "s = p @ [x] @ CHR ''@'' # b @ CHR ''.'' # [e] @ q" using s(1) r(1) by simp
  moreover have "\<forall>y \<in> set ([x] @ b @ [e]). \<not> js_space y" using s(2) r(3,4) by simp
  ultimately show "\<exists>p a b c q. s = p @ a @ CHR ''@'' # b @ CHR ''.'' # c @ q \<and> a \<noteq> [] \<and> b \<noteq> [] \<and> c \<noteq> [] \<and>
      (\<forall>x \<in> set (a @ b @ c). \<not> js_space x)"
    using r(2) by blast
next
  assume "\<exists>p a b c q. s = p @ a @ CHR ''@'' # b @ CHR ''.'' # c @ q \<and> a \<noteq> [] \<and> b \<noteq> [] \<and> c \<noteq> [] \<and>
      (\<forall>x \<in> set (a @ b @ c). \<not> js_space x)"
  then obtain p a b c q where s: "s = p @ a @ CHR ''@'' # b @ CHR ''.'' # c @ q"
    and ne: "a \<noteq> []" "b \<noteq> []" "c \<noteq> []" and ws: "\<forall>x \<in> set (a @ b @ c). \<not> js_space x"
    by blast
  have c: "c @ q = hd c # (tl c @ q)" "\<not> js_space (hd c)" using ne(3) ws by simp_all
  have "\<forall>y \<in> set b. \<not> js_space y" using ws by simp
  then have "dot_tail (b @ CHR ''.'' # c @ q)"
    unfolding dot_tail_iff using ne(2) c by blast
  moreover have "s = (p @ butlast a) @ last a # CHR ''@'' # b @ CHR ''.'' # c @ q"
  proof -
    have "s = p @ (butlast a @ [last a]) @ CHR ''@'' # b @ CHR ''.'' # c @ q" using s ne(1) by simp
    then show ?thesis by (simp only: append.assoc append_Cons append_Nil)
  qed
  moreover have "\<not> js_space (last a)" using ws ne(1) by simp
  ultimately show "email_re s" unfolding email_re_iff by blast
qed

theorem email_re_regex_witness: "email_re ''ana@x.com''"
  by (rule email_re_regex [THEN iffD2], rule exI [of _ "[]"], rule exI [of _ "''ana''"],
      rule exI [of _ "''x''"], rule exI [of _ "''com''"], rule exI [of _ "[]"]) (simp add: js_space_def)

text \<open>
  C26. Submitting the login form sends nothing and stays on the page when validation fails;
  when it passes it sends exactly one login request with the typed credentials, goes to the
  dashboard exactly when the gateway accepts, and only then is a user logged in (unless one
  already was).
\<close>

theorem login_submit_gate:
  "handle_login_submit r p s = (p', s', nav) \<Longrightarrow>
   (\<not> snd (validate_login (lp_email p) (lp_password p)) \<longrightarrow> s' = s \<and> nav = None) \<and>
   (snd (validate_login (lp_email p) (lp_password p)) \<longrightarrow>
      map fst (sent s') = map fst (sent s) @ [Login (lp_email p) (lp_password p)] \<and>
      (nav = Some ''/admin/dashboard'' \<longleftrightarrow> \<not> isl r) \<and> is_authenticated s' = (\<not> isl r \<or> is_authenticated s))"
  by (cases r) (auto simp: handle_login_submit_def ctx_login_def svc_login_def is_authenticated_def Let_def
      split: prod.splits if_splits)


theorem login_submit_gate_witness:
  "map fst (sent (fst (snd (handle_login_submit (Inl Network_Failure) demo_login_page (init_session None [])))))
     = [Login ''ana@x.com'' ''secret1''] \<and>
   snd (snd (handle_login_submit (Inl Network_Failure) demo_login_page (init_session None [])))
     \<noteq> Some ''/admin/dashboard''"
proof -
  have "snd (validate_login (lp_email demo_login_page) (lp_password demo_login_page))"
    by (simp add: demo_login_page_def init_login_page_def validate_login_def js_space_def)
  then show ?thesis
    using login_submit_gate [of "Inl Network_Failure" demo_login_page "init_session None []"
        "fst (handle_login_submit (Inl Network_Failure) demo_login_page (init_session None []))"
        "fst (snd (handle_login_submit (Inl Network_Failure) demo_login_page (init_session None [])))"
        "snd (snd (handle_login_submit (Inl Network_Failure) demo_login_page (init_session None [])))"]
    by (simp add: demo_login_page_def init_login_page_def init_session_def)
qed

text \<open>
  C27. Submitting the ticket form: a form the schema rejects sends no request and shows the
  schema's messages; an accepted one sends exactly one create request carrying the form's
  fields, goes to the confirmation page exactly when the gateway accepts, and ends with the
  page's Ticket Submitted or Submission Failed toast.
\<close>

theorem submit_ticket_gate:
  "submit_ticket ok r p c = (p', c', nav) \<Longrightarrow>
   (ticket_schema_errors ok (sp_form p) \<noteq> [] \<longrightarrow>
      c' = c \<and> nav = None \<and> sp_errors p' = ticket_schema_errors ok (sp_form p)) \<and>
   (ticket_schema_errors ok (sp_form p) = [] \<longrightarrow>
      requests c' = requests c @ [Create_Ticket (create_dto_of_input (input_of_form (sp_form p)))] \<and>
      (nav = Some ''/ticket-submitted'' \<longleftrightarrow> \<not> isl r) \<and>
      last (notices c') = (if isl r then submission_failed_notice else submitted_notice))"
  by (cases r) (auto simp: submit_ticket_cases create_ticket_Inr create_ticket_Inl split: if_splits)

theorem submit_ticket_gate_witness:
  "requests (fst (snd (submit_ticket (\<lambda>_. True) (Inr demo_django_ticket)
      \<lparr>sp_form = demo_ticket_form, sp_errors = [], sp_submitting = False\<rparr> init_ctx)))
     = [Create_Ticket (create_dto_of_input (input_of_form demo_ticket_form))]"
proof -
  have "ticket_schema_errors (\<lambda>_. True) demo_ticket_form = []"
    by (simp add: ticket_schema_errors_def demo_ticket_form_def)
  then show ?thesis
    using submit_ticket_gate [of "\<lambda>_. True" "Inr demo_django_ticket"
        "\<lparr>sp_form = demo_ticket_form, sp_errors = [], sp_submitting = False\<rparr>" init_ctx
        "fst (submit_ticket (\<lambda>_. True) (Inr demo_django_ticket)
           \<lparr>sp_form = demo_ticket_form, sp_errors = [], sp_submitting = False\<rparr> init_ctx)"
        "fst (snd (submit_ticket (\<lambda>_. True) (Inr demo_django_ticket)
           \<lparr>sp_form = demo_ticket_form, sp_errors = [], sp_submitting = False\<rparr> init_ctx))"
        "snd (snd (submit_ticket (\<lambda>_. True) (Inr demo_django_ticket)
           \<lparr>sp_form = demo_ticket_form, sp_errors = [], sp_submitting = False\<rparr> init_ctx))"]
    by (simp add: init_ctx_def)
qed

end
