(* ===== verification/Page_Views.thy ===== *)
theory Page_Views
  imports Ticket_Workflow Navigation Forms
begin

text \<open>
  What the pages put on screen, as data: the detail page's view of the ticket, its activity
  log, its comment box and its two selects (\<open>src/client/src/pages/admin/TicketDetail.tsx\<close>),
  the dashboard's cards, charts and recent-ticket cards
  (\<open>src/client/src/pages/admin/Dashboard.tsx\<close>), the list page's state and cards
  (\<open>TicketList.tsx\<close>), the navbar's mobile menu and the sidebar's footer, the in-app links of the public pages
  (\<open>Index.tsx\<close>, \<open>TicketSubmitted.tsx\<close>, \<open>NotFound.tsx\<close>, the cancel button of
  \<open>SubmitTicket.tsx\<close>), the two forms' fields and buttons, and the confetti loop of
  \<open>TicketSubmitted.tsx\<close>, which reschedules itself through \<open>requestAnimationFrame\<close>
  until the clock passes its end time. Markup, class names, icons and animations that do
  not depend on state are left out; a view keeps the values the JSX interpolates.
\<close>

section \<open>The selects of the detail page\<close>

text \<open>
  The \<open>SelectItem\<close>s of the status and priority selects, value and label, in the order
  of the JSX. \<open>onValueChange\<close> hands the chosen item's value to the handler with the
  unchecked cast \<open>value as TicketStatus\<close>; the model reads the string back into the union
  (\<open>select_status\<close>, \<open>select_priority\<close>), and a string outside the union, which no
  item carries, leaves the page as it is.
\<close>

definition status_items :: "(string \<times> string) list" where
  "status_items = [(''new'', ''New''), (''open'', ''Open''), (''pending'', ''Pending''),
     (''resolved'', ''Resolved''), (''closed'', ''Closed'')]"

definition priority_items :: "(string \<times> string) list" where
  "priority_items = [(''low'', ''Low''), (''medium'', ''Medium''), (''high'', ''High''), (''urgent'', ''Urgent'')]"

definition select_status :: "string \<Rightarrow> ticket_status option" where
  "select_status v = find (\<lambda>s. status_str s = v) all_statuses"

definition select_priority :: "string \<Rightarrow> ticket_priority option" where
  "select_priority v = find (\<lambda>p. priority_str p = v) all_priorities"

definition on_status_select ::
  "app_user option \<Rightarrow> string \<Rightarrow> django_ticket response \<Rightarrow> django_activity response \<Rightarrow> page \<Rightarrow> page" where
  "on_status_select user v r1 r2 pg =
     (case select_status v of None \<Rightarrow> pg | Some s \<Rightarrow> handle_status_change user s r1 r2 pg)"

definition on_priority_select ::
  "app_user option \<Rightarrow> string \<Rightarrow> django_ticket response \<Rightarrow> django_activity response \<Rightarrow> page \<Rightarrow> page" where
  "on_priority_select user v r1 r2 pg =
     (case select_priority v of None \<Rightarrow> pg | Some p \<Rightarrow> handle_priority_change user p r1 r2 pg)"

text \<open>
  The priority select of the public form (\<open>SubmitTicket.tsx\<close>) hands its value to the
  form field; the schema's \<open>z.enum\<close> then accepts exactly its four strings.
\<close>

definition submit_priority_items :: "(string \<times> string) list" where
  "submit_priority_items = [(''low'', ''Low''), (''medium'', ''Medium''), (''high'', ''High''), (''urgent'', ''Urgent'')]"

definition zod_priority_enum :: "string list" where
  "zod_priority_enum = [''low'', ''medium'', ''high'', ''urgent'']"

section \<open>The detail page on screen\<close>

text \<open>
  The activity card: "Loading\<dots>" while the request is out, else one row per activity
  (author, creation time, message) in the order of the page's list, else the empty-log
  line. \<open>formatDate\<close> (\<open>new Date(s).toLocaleString()\<close>) depends on the host's locale
  and time zone; a row keeps the timestamp it formats.
\<close>

datatype activity_section =
    Activities_Loading
  | Activity_Rows "(string \<times> timestamp \<times> string) list"
  | No_Activity_Yet

definition render_activities :: "detail_state \<Rightarrow> activity_section" where
  "render_activities d =
     (if d_loading_activities d then Activities_Loading
      else if d_activities d \<noteq> [] then
        Activity_Rows (map (\<lambda>a. (activity_created_by a, activity_created_at a, message a)) (d_activities d))
      else No_Activity_Yet)"

text \<open>
  The page once its ticket is found: the heading with the first eight characters of the id
  (\<open>substring(0, 8)\<close>), the ticket's fields and badges from the provider's snapshot, the
  activity card, the comment box with its button (disabled when the text trims to nothing
  or a request is out), the two selects showing the page's own selection, and the
  requester card. Without a ticket the page shows "Ticket Not Found" and a link back to
  the list; the back button of the found page goes to the same list.
\<close>

record detail_view =
  dv_heading :: string
  dv_title :: string
  dv_created :: timestamp
  dv_email :: string
  dv_description :: string
  dv_status_badge :: "string \<times> string"
  dv_priority_badge :: "string \<times> string"
  dv_activity :: activity_section
  dv_comment :: string
  dv_comment_enabled :: bool
  dv_status_value :: string
  dv_priority_value :: string
  dv_requester :: "string \<times> string"

datatype detail_screen = Ticket_Not_Found string | Detail_Screen detail_view

definition detail_back :: string where
  "detail_back = ''/admin/tickets''"

definition detail_not_found :: detail_screen where
  "detail_not_found = Ticket_Not_Found ''/admin/tickets''"

definition render_detail :: "page \<Rightarrow> detail_screen" where
  "render_detail pg = (case pg of (d, c) \<Rightarrow>
     (case get_ticket_by_id c (d_id d) of
        None \<Rightarrow> detail_not_found
      | Some t \<Rightarrow> Detail_Screen
          \<lparr>dv_heading = ''Ticket #'' @ take 8 (ticket_id t), dv_title = title t,
           dv_created = created_at t, dv_email = creator_email (created_by t),
           dv_description = description t,
           dv_status_badge = status_badge (status t), dv_priority_badge = priority_badge (priority t),
           dv_activity = render_activities d,
           dv_comment = d_comment d,
           dv_comment_enabled = (js_trim (d_comment d) \<noteq> [] \<and> \<not> d_submitting d),
           dv_status_value = status_str (d_status d), dv_priority_value = priority_str (d_priority d),
           dv_requester = (creator_name (created_by t), creator_email (created_by t))\<rparr>))"

section \<open>Ticket cards\<close>

text \<open>
  \<open>TicketCard\<close>: the title as the link, the status badge, the description, \<open>#\<close> and
  the first eight characters of the id, the priority badge, an avatar with the requester's
  first character upper-cased (\<open>charAt(0).toUpperCase()\<close>, the empty string for an empty
  name), the requester's name, the comment counter and the creation date. The counter is
  the constant \<open>commentCount = 0\<close>, so its badge (shown only when positive) never
  appears. \<open>toUpperCase\<close> maps the ASCII small letters, as \<open>js_lower\<close> maps the
  capitals.
\<close>

definition js_upper_char :: "char \<Rightarrow> char" where
  "js_upper_char ch = (let n = (of_char ch :: nat) in if 97 \<le> n \<and> n \<le> 122 then char_of (n - 32) else ch)"

definition js_upper :: "string \<Rightarrow> string" where
  "js_upper s = map js_upper_char s"

definition card_comment_count :: nat where
  "card_comment_count = 0"

record card_view =
  cv_link :: string
  cv_title :: string
  cv_status_badge :: "string \<times> string"
  cv_description :: string
  cv_short_id :: string
  cv_priority_badge :: "string \<times> string"
  cv_avatar :: string
  cv_creator :: string
  cv_comments :: "nat option"
  cv_created :: timestamp

definition render_card :: "bool \<Rightarrow> ticket \<Rightarrow> card_view" where
  "render_card is_admin t =
     \<lparr>cv_link = card_link is_admin t, cv_title = title t, cv_status_badge = status_badge (status t),
      cv_description = description t, cv_short_id = ''#'' @ take 8 (ticket_id t),
      cv_priority_badge = priority_badge (priority t),
      cv_avatar = js_upper (take 1 (creator_name (created_by t))),
      cv_creator = creator_name (created_by t),
      cv_comments = (if 0 < card_comment_count then Some card_comment_count else None),
      cv_created = created_at t\<rparr>"

section \<open>The dashboard on screen\<close>

text \<open>
  The four stat cards (label and number), the two bar charts (title and bars), and the
  recent-tickets card: the admin cards of the five newest tickets, or the empty line.
\<close>

datatype recent_section = Recent_Cards "card_view list" | No_Tickets_Yet

record dashboard_screen =
  ds_cards :: "(string \<times> nat) list"
  ds_charts :: "(string \<times> (string \<times> nat) list) list"
  ds_recent :: recent_section

definition render_dashboard :: "ticket list \<Rightarrow> dashboard_screen" where
  "render_dashboard ts =
     (let st = dashboard ts; rs = recent_tickets ts in
      \<lparr>ds_cards = [(''Total Tickets'', total_tickets st), (''Open Tickets'', open_tickets st),
                   (''Pending'', pending_tickets st), (''Resolved'', resolved_tickets st)],
       ds_charts = [(''Tickets by Priority'', priority_stats st), (''Tickets by Status'', status_stats st)],
       ds_recent = (if 0 < length rs then Recent_Cards (map (render_card True) rs) else No_Tickets_Yet)\<rparr>)"

section \<open>The public pages\<close>

text \<open>
  The in-app links of the landing page (the hero button and the call-to-action button),
  of the success page (home, another ticket), of the 404 page (a plain anchor to the
  root), and the target of the form's cancel button (\<open>navigate('/')\<close>).
\<close>

definition index_hero_link :: string where
  "index_hero_link = ''/submit-ticket''"

definition index_cta_link :: string where
  "index_cta_link = ''/submit-ticket''"

definition submitted_links :: "string list" where
  "submitted_links = [''/'', ''/submit-ticket'']"

definition not_found_view :: "string \<times> string \<times> string" where
  "not_found_view = (''404'', ''Oops! Page not found'', ''/'')"

definition submit_cancel :: string where
  "submit_cancel = ''/''"

definition public_links :: "string list" where
  "public_links = [index_hero_link, index_cta_link] @ submitted_links @ [snd (snd not_found_view), submit_cancel]"

section \<open>The confetti loop of the success page\<close>

text \<open>
  The mount effect reads the clock once (\<open>end = Date.now() + 2000\<close>) and calls
  \<open>confettiAnimation\<close>, which fires two bursts and, while \<open>Date.now() < end\<close>,
  schedules itself for the next animation frame. \<open>clock k\<close> is the \<open>k\<close>-th reading of
  \<open>Date.now()\<close>: reading 0 is the effect's, reading \<open>k + 1\<close> the check of frame \<open>k\<close>.
  Whether the loop stops depends on the clock, so it is a partial function: \<open>None\<close> is a
  loop that never ends. The colours of the bursts are left out.
\<close>

record confetti_call =
  cf_particles :: nat
  cf_angle :: nat
  cf_spread :: nat
  cf_origin_x :: nat

definition confetti_frame :: "confetti_call list" where
  "confetti_frame = [\<lparr>cf_particles = 2, cf_angle = 60, cf_spread = 55, cf_origin_x = 0\<rparr>,
                     \<lparr>cf_particles = 2, cf_angle = 120, cf_spread = 55, cf_origin_x = 1\<rparr>]"

partial_function (option) confetti_loop :: "(nat \<Rightarrow> nat) \<Rightarrow> nat \<Rightarrow> nat \<Rightarrow> confetti_call list option" where
  "confetti_loop clock e k =
     (if clock (Suc k) < e then Option.bind (confetti_loop clock e (Suc k)) (\<lambda>cs. Some (confetti_frame @ cs))
      else Some confetti_frame)"

definition submitted_confetti :: "(nat \<Rightarrow> nat) \<Rightarrow> confetti_call list option" where
  "submitted_confetti clock = confetti_loop clock (clock 0 + 2000) 0"

section \<open>The login form on screen\<close>

text \<open>
  The form of \<open>Login.tsx\<close> once loading is over: each field with its value and its
  error (shown, and the input marked, only when the message is non-empty), and the submit
  button, disabled and relabelled while a submit is out.
\<close>

record login_form_view =
  lf_email :: string
  lf_email_error :: "string option"
  lf_password :: string
  lf_password_error :: "string option"
  lf_button :: string
  lf_button_disabled :: bool

definition shown_error :: "string \<Rightarrow> string option" where
  "shown_error e = (if e \<noteq> [] then Some e else None)"

definition render_login_form :: "login_page \<Rightarrow> login_form_view" where
  "render_login_form p =
     \<lparr>lf_email = lp_email p, lf_email_error = shown_error (lp_email_error p),
      lf_password = lp_password p, lf_password_error = shown_error (lp_password_error p),
      lf_button = (if lp_submitting p then ''Logging in...'' else ''Log in''),
      lf_button_disabled = lp_submitting p\<rparr>"

text \<open>
  The footer of the ticket form: the cancel button and the submit button, disabled and
  relabelled while a submission is out; the schema's messages below the fields.
\<close>

record submit_form_view =
  sf_errors :: "string list"
  sf_cancel :: string
  sf_button :: string
  sf_button_disabled :: bool

definition render_submit_form :: "submit_page \<Rightarrow> submit_form_view" where
  "render_submit_form p =
     \<lparr>sf_errors = sp_errors p, sf_cancel = submit_cancel,
      sf_button = (if sp_submitting p then ''Submitting...'' else ''Submit Ticket''),
      sf_button_disabled = sp_submitting p\<rparr>"

section \<open>The ticket list page\<close>

text \<open>
  \<open>TicketList.tsx\<close>: three pieces of state (the two select values, \<open>'all'\<close> at
  first, and the search text), each set by its input; the page shows the admin cards of
  the filtered snapshot, or "No tickets match your filters.". The selects pass their item
  value as it is, a string.
\<close>

record list_page =
  tl_status_filter :: string
  tl_priority_filter :: string
  tl_search :: string

definition init_list_page :: list_page where
  "init_list_page = \<lparr>tl_status_filter = ''all'', tl_priority_filter = ''all'', tl_search = []\<rparr>"

datatype list_event = Search_Typed string | Status_Filter_Picked string | Priority_Filter_Picked string

fun list_page_step :: "list_event \<Rightarrow> list_page \<Rightarrow> list_page" where
  "list_page_step (Search_Typed q) p = p\<lparr>tl_search := q\<rparr>"
| "list_page_step (Status_Filter_Picked v) p = p\<lparr>tl_status_filter := v\<rparr>"
| "list_page_step (Priority_Filter_Picked v) p = p\<lparr>tl_priority_filter := v\<rparr>"

definition list_status_items :: "(string \<times> string) list" where
  "list_status_items = [(''all'', ''All Statuses''), (''new'', ''New''), (''open'', ''Open''),
     (''pending'', ''Pending''), (''resolved'', ''Resolved''), (''closed'', ''Closed'')]"

definition list_priority_items :: "(string \<times> string) list" where
  "list_priority_items = [(''all'', ''All Priorities''), (''low'', ''Low''), (''medium'', ''Medium''),
     (''high'', ''High''), (''urgent'', ''Urgent'')]"

datatype list_body = List_Cards "card_view list" | No_Match

record list_screen =
  ls_search :: string
  ls_status_filter :: string
  ls_priority_filter :: string
  ls_body :: list_body

definition render_ticket_list :: "ticket list \<Rightarrow> list_page \<Rightarrow> list_screen" where
  "render_ticket_list ts p =
     (let fs = filtered_tickets ts (tl_status_filter p) (tl_priority_filter p) (tl_search p) in
      \<lparr>ls_search = tl_search p, ls_status_filter = tl_status_filter p,
       ls_priority_filter = tl_priority_filter p,
       ls_body = (if 0 < length fs then List_Cards (map (render_card True) fs) else No_Match)\<rparr>)"

section \<open>Mobile menu and sidebar footer\<close>

text \<open>
  The navbar's logo links to the root. Its mobile menu, open while \<open>mobileMenuOpen\<close>,
  lists the desktop entries without the active marking. The sidebar's footer shows the
  user's \<open>username\<close> and \<open>email\<close> (nothing without a user) above its logout button,
  which calls the provider's \<open>logout\<close>.
\<close>

definition navbar_logo_link :: string where
  "navbar_logo_link = ''/''"

definition mobile_menu :: "session \<Rightarrow> navbar_state \<Rightarrow> nav_item list option" where
  "mobile_menu s n =
     (if \<not> nb_menu_open n then None
      else Some ([Nav_Link ''Home'' ''/'' False, Nav_Link ''Submit a Ticket'' ''/submit-ticket'' False] @
        (if \<not> is_authenticated s then [Nav_Link ''Admin Login'' ''/admin/login'' False]
         else [Nav_Link ''Dashboard'' ''/admin/dashboard'' False, Nav_User (nav_display_name (au_user s)), Nav_Logout])))"

definition sidebar_footer :: "session \<Rightarrow> string \<times> string" where
  "sidebar_footer s = (case au_user s of None \<Rightarrow> ([], []) | Some u \<Rightarrow> (username u, user_email u))"

definition sidebar_logout :: "unit response \<Rightarrow> session \<Rightarrow> session" where
  "sidebar_logout r s = ctx_logout r s"

section \<open>Loader and viewport hook\<close>

text \<open>
  \<open>Loader\<close> renders nothing unless \<open>isLoading\<close>; otherwise the overlay with the brand
  name (the router mounts it with \<open>isLoading = true\<close> only while it shows a loader).
  \<open>useIsMobile\<close> (\<open>src/client/src/hooks/use-mobile.tsx\<close>, not used by any page) keeps
  \<open>boolean | undefined\<close>, starts undefined, is set from the window width when the effect
  runs and on every change event of the \<open>max-width: 767px\<close> media query, and returns
  \<open>!!isMobile\<close>. An event carries the window width at that moment.
\<close>

definition loader_view :: "bool \<Rightarrow> string option" where
  "loader_view is_loading = (if \<not> is_loading then None else Some ''TicketRax'')"

definition mobile_breakpoint :: nat where
  "mobile_breakpoint = 768"

datatype mobile_event = Mobile_Effect (ev_width: nat) | Media_Change (ev_width: nat)

fun mobile_step :: "mobile_event \<Rightarrow> bool option \<Rightarrow> bool option" where
  "mobile_step (Mobile_Effect w) _ = Some (w < mobile_breakpoint)"
| "mobile_step (Media_Change w) _ = Some (w < mobile_breakpoint)"

definition use_is_mobile :: "bool option \<Rightarrow> bool" where
  "use_is_mobile st = (st = Some True)"

section \<open>Facts of the views\<close>

lemma select_status_iff: "select_status v = Some s \<longleftrightarrow> status_str s = v"
  by (cases s) (auto simp: select_status_def all_statuses_def)

lemma select_priority_iff: "select_priority v = Some p \<longleftrightarrow> priority_str p = v"
  by (cases p) (auto simp: select_priority_def all_priorities_def)

lemma find_ticket_distinct:
  "distinct (map ticket_id ts) \<Longrightarrow> t \<in> set ts \<Longrightarrow> find (\<lambda>x. ticket_id x = ticket_id t) ts = Some t"
  by (induction ts) auto

lemma get_ticket_by_id_member:
  "snapshot_ok (tickets c) \<Longrightarrow> t \<in> set (tickets c) \<Longrightarrow> get_ticket_by_id c (ticket_id t) = Some t"
  by (simp add: get_ticket_by_id_def snapshot_ok_def find_ticket_distinct)

lemma mount_detail_sel [simp]:
  "d_id (fst (mount_detail i c)) = i" "tickets (snd (mount_detail i c)) = tickets c"
  by (simp_all add: mount_detail_def Let_def log_request_def)

lemma get_ticket_by_id_tickets_cong:
  "tickets c' = tickets c \<Longrightarrow> get_ticket_by_id c' i = get_ticket_by_id c i"
  by (simp add: get_ticket_by_id_def)

lemma recent_tickets_subset: "set (recent_tickets ts) \<subseteq> set ts"
  using set_take_subset [of 5 "sort_by created_desc_cmp ts"] by (simp add: recent_tickets_def set_sort_by)

lemma render_detail_found:
  "get_ticket_by_id c (d_id d) = Some t \<Longrightarrow>
   \<exists>w. render_detail (d, c) = Detail_Screen w \<and> dv_title w = title t \<and>
     dv_heading w = ''Ticket #'' @ take 8 (ticket_id t) \<and> dv_status_badge w = status_badge (status t) \<and>
     dv_status_value w = status_str (d_status d) \<and>
     dv_comment_enabled w = (js_trim (d_comment d) \<noteq> [] \<and> \<not> d_submitting d)"
  by (simp add: render_detail_def)

lemma render_detail_Detail_Screen:
  "render_detail (d, c) = Detail_Screen w \<Longrightarrow>
   \<exists>t. get_ticket_by_id c (d_id d) = Some t \<and> dv_comment_enabled w = (js_trim (d_comment d) \<noteq> [] \<and> \<not> d_submitting d)"
  by (auto simp: render_detail_def detail_not_found_def split: option.splits)

lemma ds_recent_render:
  "ds_recent (render_dashboard ts) =
     (if 0 < length (recent_tickets ts) then Recent_Cards (map (render_card True) (recent_tickets ts)) else No_Tickets_Yet)"
  by (simp add: render_dashboard_def Let_def)

lemma render_card_sel:
  "cv_link (render_card a t) = card_link a t" "cv_title (render_card a t) = title t"
  "cv_short_id (render_card a t) = ''#'' @ take 8 (ticket_id t)"
  by (simp_all add: render_card_def)

lemma route_public_targets [simp]:
  "route ''/'' = Index_Page" "route ''/submit-ticket'' = Submit_Page"
  by code_simp+

lemma use_is_mobile_last:
  "use_is_mobile (fold mobile_step (evs @ [e]) st) = (ev_width e < 768)"
  by (cases e) (simp_all add: use_is_mobile_def mobile_breakpoint_def)

lemma login_form_typing:
  "lf_email_error (render_login_form (set_email v p)) = None \<and>
   lf_password_error (render_login_form (set_email v p)) = lf_password_error (render_login_form p) \<and>
   lf_password_error (render_login_form (set_password v p)) = None \<and>
   lf_email_error (render_login_form (set_password v p)) = lf_email_error (render_login_form p)"
  by (simp add: render_login_form_def shown_error_def set_email_def set_password_def)

lemma list_status_item_filters:
  "(v, l) \<in> set list_status_items \<Longrightarrow>
   filtered_tickets ts v ''all'' [] = (if v = ''all'' then ts else filter (\<lambda>t. select_status v = Some (status t)) ts)"
  by (auto simp: list_status_items_def filtered_tickets_def list_filter_def select_status_iff
      split: if_splits intro!: filter_cong)

lemma list_priority_item_filters:
  "(v, l) \<in> set list_priority_items \<Longrightarrow>
   filtered_tickets ts ''all'' v [] = (if v = ''all'' then ts else filter (\<lambda>t. select_priority v = Some (priority t)) ts)"
  by (auto simp: list_priority_items_def filtered_tickets_def list_filter_def select_priority_iff
      split: if_splits intro!: filter_cong)

fun clear_active :: "nav_item \<Rightarrow> nav_item" where
  "clear_active (Nav_Link l t _) = Nav_Link l t False"
| "clear_active i = i"

lemma mobile_menu_desktop:
  "mobile_menu s n = (if nb_menu_open n then Some (map clear_active (nav_items s path)) else None)"
  by (simp add: mobile_menu_def nav_items_def)

lemma sidebar_logout_locks_admin:
  "admin_page (route path) \<Longrightarrow> resolve (sidebar_logout r s) path = Show_Page Login_Page"
  by (simp add: resolve_cases sidebar_logout_def ctx_logout_def is_authenticated_def)

lemma confetti_loop_frames:
  assumes mono: "\<forall>k. clock k < clock (Suc k)"
  shows "\<exists>n. confetti_loop clock e k = Some (concat (replicate (Suc n) confetti_frame)) \<and> n \<le> e - clock (Suc k)"
proof (induction "e - clock (Suc k)" arbitrary: k rule: less_induct)
  case less
  show ?case
  proof (cases "clock (Suc k) < e")
    case True
    have "e - clock (Suc (Suc k)) < e - clock (Suc k)"
      using True mono by (metis diff_less_mono2)
    then obtain n where n: "confetti_loop clock e (Suc k) = Some (concat (replicate (Suc n) confetti_frame))"
      and le: "n \<le> e - clock (Suc (Suc k))"
      using less by blast
    have "Suc n \<le> e - clock (Suc k)"
      using le True mono by (metis Suc_leI diff_less_mono2 le_less_trans)
    with True n show ?thesis
      by (intro exI [of _ "Suc n"]) (simp add: confetti_loop.simps)
  next
    case False
    then show ?thesis by (intro exI [of _ 0]) (simp add: confetti_loop.simps)
  qed
qed

section \<open>Properties of the views\<close>

text \<open>
  An enabled "Add Comment" button always sends: clicking it posts exactly one activity
  request, a comment for the page's ticket carrying the untrimmed text, whatever the
  backend answers.
\<close>

theorem comment_button_posts:
  assumes "render_detail (d, c) = Detail_Screen w" and "dv_comment_enabled w"
  shows "requests (snd (handle_add_comment user r (d, c))) =
           requests c @ [Create_Activity (activity_dto_of_input (comment_activity user (d_id d) (d_comment d)))]"
proof -
  obtain t where t: "get_ticket_by_id c (d_id d) = Some t" and nb: "js_trim (d_comment d) \<noteq> []"
    using render_detail_Detail_Screen [OF assms(1)] assms(2) by auto
  have "ticket_id t = d_id d" using get_ticket_by_id_Some [OF t] by simp
  with t nb show ?thesis
    by (cases "add_activity (comment_activity user (ticket_id t) (d_comment d)) r c", cases r)
      (auto simp: handle_add_comment_def store_branches)
qed

theorem comment_button_posts_witness:
  "\<exists>w. render_detail (set_comment ''Thanks'' (fst demo_page), snd demo_page) = Detail_Screen w \<and>
     dv_comment_enabled w \<and>
     requests (snd (handle_add_comment None (Inl Network_Failure) (set_comment ''Thanks'' (fst demo_page), snd demo_page))) =
       requests (snd demo_page) @ [Create_Activity (activity_dto_of_input (comment_activity None ''t1'' ''Thanks''))]"
proof -
  have "get_ticket_by_id (snd demo_page) (d_id (set_comment ''Thanks'' (fst demo_page))) =
          Some (ticket_of_django demo_django_ticket)"
    using demo_page_ticket [simplified] by (simp add: set_comment_def)
  from render_detail_found [OF this] obtain w where
    w: "render_detail (set_comment ''Thanks'' (fst demo_page), snd demo_page) = Detail_Screen w"
    and en: "dv_comment_enabled w"
    by (auto simp: set_comment_def demo_page_eval js_trim_def js_space_def)
  from comment_button_posts [OF w en, where user = None and r = "Inl Network_Failure"]
  show ?thesis using w en by (simp add: set_comment_def)
qed

text \<open>
  C17. A rejected status update leaves the page showing two statuses: the select shows the
  rejected value while the badge shows the status the ticket still has.
\<close>

theorem rejected_change_shows_two_statuses:
  assumes "get_ticket_by_id c (d_id d) = Some t" and "v \<noteq> d_status d"
  shows "\<exists>w. render_detail (handle_status_change user v (Inl e) r2 (d, c)) = Detail_Screen w \<and>
           dv_status_value w = status_str v \<and> dv_status_badge w = status_badge (status t)"
proof -
  let ?d = "d\<lparr>d_submitting := False, d_status := v\<rparr>"
  let ?c = "c\<lparr>loading := False, requests := requests c @ [Update_Ticket (ticket_id t) (update_dto_of_patch (empty_patch\<lparr>p_status := Some v\<rparr>))],
       notices := notices c @ [update_failed_notice, status_failed_notice]\<rparr>"
  have eq: "handle_status_change user v (Inl e) r2 (d, c) = (?d, ?c)"
    by (rule status_change_update_err_state [OF assms])
  have "get_ticket_by_id ?c (d_id ?d) = Some t"
    using assms(1) by (simp add: get_ticket_by_id_def)
  from render_detail_found [OF this] obtain w where
    "render_detail (?d, ?c) = Detail_Screen w" "dv_status_badge w = status_badge (status t)"
    "dv_status_value w = status_str (d_status ?d)"
    by blast
  then show ?thesis unfolding eq by auto
qed

theorem rejected_change_shows_two_statuses_witness:
  "\<exists>w. render_detail (handle_status_change None Open (Inl Network_Failure) (Inl Network_Failure) demo_page) =
      Detail_Screen w \<and> dv_status_value w = ''open'' \<and> dv_status_badge w = (''ticket-status-new'', ''New'')"
proof -
  have "\<exists>w. render_detail (handle_status_change None Open (Inl Network_Failure) (Inl Network_Failure)
            (fst demo_page, snd demo_page)) = Detail_Screen w \<and>
          dv_status_value w = status_str Open \<and> dv_status_badge w = status_badge (status (ticket_of_django demo_django_ticket))"
    by (rule rejected_change_shows_two_statuses) (simp_all add: demo_page_ticket [simplified])
  then show ?thesis by (simp add: ticket_of_django_def demo_defs status_badge_def)
qed

text \<open>
  A card of the dashboard opens its own ticket: in a snapshot satisfying the provider's
  invariant, with ids that are path segments, the card's link routes to the detail page of
  a ticket of the snapshot, and the detail page mounted at that id shows the same title and
  the same short id.
\<close>

theorem dashboard_card_opens_ticket:
  assumes ok: "snapshot_ok (tickets c)"
    and ids: "\<forall>t \<in> set (tickets c). ticket_id t \<noteq> [] \<and> CHR ''/'' \<notin> set (ticket_id t)"
    and recent: "ds_recent (render_dashboard (tickets c)) = Recent_Cards cs" and cv: "cv \<in> set cs"
  shows "\<exists>t \<in> set (tickets c). route (cv_link cv) = Ticket_Detail_Page (ticket_id t) \<and>
           (\<exists>w. render_detail (mount_detail (ticket_id t) c) = Detail_Screen w \<and>
                dv_title w = cv_title cv \<and> dv_heading w = ''Ticket '' @ cv_short_id cv)"
proof -
  have "cs = map (render_card True) (recent_tickets (tickets c))"
    using recent by (simp add: ds_recent_render split: if_splits)
  then obtain t where t: "t \<in> set (recent_tickets (tickets c))" and cvt: "cv = render_card True t"
    using cv by auto
  have tin: "t \<in> set (tickets c)" using t recent_tickets_subset by blast
  have "get_ticket_by_id (snd (mount_detail (ticket_id t) c)) (d_id (fst (mount_detail (ticket_id t) c))) = Some t"
    using get_ticket_by_id_member [OF ok tin] get_ticket_by_id_tickets_cong [of "snd (mount_detail (ticket_id t) c)" c]
    by simp
  from render_detail_found [OF this] obtain w where
    w: "render_detail (fst (mount_detail (ticket_id t) c), snd (mount_detail (ticket_id t) c)) = Detail_Screen w"
    "dv_title w = title t" "dv_heading w = ''Ticket #'' @ take 8 (ticket_id t)"
    by blast
  have "route (cv_link cv) = Ticket_Detail_Page (ticket_id t)"
    using admin_card_link_route [of t] ids tin by (simp add: cvt render_card_sel)
  moreover have "render_detail (mount_detail (ticket_id t) c) = Detail_Screen w"
    using w(1) by simp
  ultimately show ?thesis
    using tin w(2,3) by (intro bexI [of _ t]) (simp_all add: cvt render_card_sel)
qed

theorem dashboard_card_opens_ticket_witness:
  "\<exists>t \<in> set (tickets (snd demo_page)).
     route (cv_link (render_card True (ticket_of_django demo_django_ticket))) = Ticket_Detail_Page (ticket_id t) \<and>
     (\<exists>w. render_detail (mount_detail (ticket_id t) (snd demo_page)) = Detail_Screen w \<and>
          dv_title w = ''Login broken'' \<and> dv_heading w = ''Ticket #t1'')"
proof -
  let ?t = "ticket_of_django demo_django_ticket"
  have ts: "tickets (snd demo_page) = [?t]"
    by (simp add: demo_page_eval create_ticket_Inr init_ctx_def)
  have "\<exists>t \<in> set (tickets (snd demo_page)). route (cv_link (render_card True ?t)) = Ticket_Detail_Page (ticket_id t) \<and>
          (\<exists>w. render_detail (mount_detail (ticket_id t) (snd demo_page)) = Detail_Screen w \<and>
               dv_title w = cv_title (render_card True ?t) \<and> dv_heading w = ''Ticket '' @ cv_short_id (render_card True ?t))"
  proof (rule dashboard_card_opens_ticket)
    show "snapshot_ok (tickets (snd demo_page))"
      by (simp add: ts snapshot_ok_def ticket_wf_def ticket_of_django_def demo_defs)
    show "\<forall>t \<in> set (tickets (snd demo_page)). ticket_id t \<noteq> [] \<and> CHR ''/'' \<notin> set (ticket_id t)"
      by (simp add: ts ticket_of_django_def demo_defs)
    show "ds_recent (render_dashboard (tickets (snd demo_page))) = Recent_Cards [render_card True ?t]"
      by (simp add: ts ds_recent_render recent_tickets_def)
  qed simp
  then show ?thesis by (simp add: render_card_sel ticket_of_django_def demo_defs)
qed

text \<open>
  The links of the public pages lead to public pages: each routes to a page other than
  the 404 page and the admin pages, and every session, signed in or not, loading or not,
  is shown that page.
\<close>

theorem public_links_resolve:
  "l \<in> set public_links \<Longrightarrow>
   route l \<noteq> Not_Found_Page \<and> \<not> admin_page (route l) \<and> resolve s l = Show_Page (route l)"
  by (auto simp: public_links_def index_hero_link_def index_cta_link_def submitted_links_def
      not_found_view_def submit_cancel_def resolve_cases)

theorem public_links_resolve_witness:
  "route ''/'' \<noteq> Not_Found_Page \<and> \<not> admin_page (route ''/'') \<and>
   resolve anonymous_session ''/'' = Show_Page Index_Page"
  using public_links_resolve [of "''/''" anonymous_session]
  by (simp add: public_links_def submitted_links_def not_found_view_def)

text \<open>
  C34. The confetti loop ends: on a clock that advances between readings, the success page
  fires at least one and at most 2000 frames of two bursts each, whatever the frame rate.
\<close>

theorem confetti_stops:
  assumes "\<forall>k. clock k < clock (Suc k)"
  shows "\<exists>n \<le> 1999. submitted_confetti clock = Some (concat (replicate (Suc n) confetti_frame))"
proof -
  obtain n where n: "confetti_loop clock (clock 0 + 2000) 0 = Some (concat (replicate (Suc n) confetti_frame))"
    and le: "n \<le> clock 0 + 2000 - clock (Suc 0)"
    using confetti_loop_frames [OF assms] by blast
  have "clock 0 < clock (Suc 0)" using assms by blast
  with le have "n \<le> 1999" by linarith
  with n show ?thesis by (auto simp: submitted_confetti_def)
qed

theorem confetti_stops_witness:
  "\<exists>n \<le> 1999. submitted_confetti (\<lambda>k. 1000 + 16 * k) = Some (concat (replicate (Suc n) confetti_frame))"
  by (rule confetti_stops) simp

end
