(* ===== verification/Detail_Interleaving.thy ===== *)
theory Detail_Interleaving
  imports Page_Views
begin

text \<open>
  Status changes of the detail page in flight. \<open>handleStatusChange\<close> in
  \<open>src/client/src/pages/admin/TicketDetail.tsx\<close> is an async function with two
  \<open>await\<close>s, and nothing stops a second call while the first is suspended: the status
  select is never disabled. The handler is split here at its awaits: the synchronous part
  up to \<open>updateTicket\<close>'s request (\<open>Pick_Status\<close>), the part after the update settles
  up to \<open>addActivity\<close>'s request (\<open>Update_Settles\<close>), and the part after the activity
  settles (\<open>Activity_Settles\<close>). The suspended calls are a list of continuations, and
  an event names the one it resumes by its position, so any interleaving of calls and any
  order of answers is a sequence of events. An event that names no suspended call of its
  kind does nothing. The mount effect's \<open>getTicketActivities\<close> is one more suspended
  call (\<open>Activities_Load_Settles\<close>), resumed whenever its answer comes. The states a
  mounted page reaches are an inductive predicate; by rule induction the submitting flag
  is off in every one of them in which no status change is in flight.
\<close>

datatype in_flight =
    Await_Update ident ticket_status ticket_status
  | Await_Activity ident ticket_status ticket_status
  | Await_Activities

type_synonym live_page = "page \<times> in_flight list"

datatype detail_event =
    Pick_Status ticket_status
  | Update_Settles nat "django_ticket response"
  | Activity_Settles nat "django_activity response"
  | Activities_Load_Settles nat "django_activity list response"

definition remove_nth :: "nat \<Rightarrow> 'a list \<Rightarrow> 'a list" where
  "remove_nth i xs = take i xs @ drop (Suc i) xs"

text \<open>
  \<open>Pick_Status v\<close>: the early return, then \<open>setIsSubmitting(true)\<close>,
  \<open>setStatus(v)\<close> and \<open>updateTicket\<close> up to its request (loading on, PATCH sent).
  The closure's \<open>status\<close> is the selection of the render it came from, which is the
  current one: React renders again after every \<open>setStatus\<close>.
\<close>

fun detail_event_step :: "app_user option \<Rightarrow> detail_event \<Rightarrow> live_page \<Rightarrow> live_page" where
  "detail_event_step user (Pick_Status v) ((d, c), fl) =
     (case get_ticket_by_id c (d_id d) of
        None \<Rightarrow> ((d, c), fl)
      | Some t \<Rightarrow>
          (if v = d_status d then ((d, c), fl)
           else ((d\<lparr>d_submitting := True, d_status := v\<rparr>,
                  issue (Update_Ticket (ticket_id t) (update_dto_of_patch (empty_patch\<lparr>p_status := Some v\<rparr>))) c),
                 fl @ [Await_Update (ticket_id t) (d_status d) v])))"
| "detail_event_step user (Update_Settles i r) ((d, c), fl) =
     (if i < length fl then
        (case fl ! i of
           Await_Update tid old v \<Rightarrow>
             (case update_ticket_settle tid r c of
                (Inl _, c1) \<Rightarrow> ((d\<lparr>d_submitting := False\<rparr>, toast status_failed_notice c1), remove_nth i fl)
              | (Inr _, c1) \<Rightarrow>
                  ((d, issue (Create_Activity (activity_dto_of_input (status_activity user tid old v))) c1),
                   fl[i := Await_Activity tid old v]))
         | _ \<Rightarrow> ((d, c), fl))
      else ((d, c), fl))"
| "detail_event_step user (Activity_Settles i r) ((d, c), fl) =
     (if i < length fl then
        (case fl ! i of
           Await_Activity tid old v \<Rightarrow>
             (case add_activity_settle r c of
                (Inl _, c2) \<Rightarrow> ((d\<lparr>d_submitting := False\<rparr>, toast status_failed_notice c2), remove_nth i fl)
              | (Inr a, c2) \<Rightarrow>
                  ((d\<lparr>d_activities := d_activities d @ [a], d_submitting := False\<rparr>,
                    toast (status_updated_notice v) c2), remove_nth i fl))
         | _ \<Rightarrow> ((d, c), fl))
      else ((d, c), fl))"
| "detail_event_step user (Activities_Load_Settles i r) ((d, c), fl) =
     (if i < length fl \<and> fl ! i = Await_Activities then ((activities_loaded r d, c), remove_nth i fl)
      else ((d, c), fl))"

text \<open>The page as mounted: the activity request is in flight when the route has an id.\<close>

definition mount_live :: "ident \<Rightarrow> ticket_ctx \<Rightarrow> live_page" where
  "mount_live i c = (mount_detail i c, if i = [] then [] else [Await_Activities])"

definition detail_run :: "app_user option \<Rightarrow> detail_event list \<Rightarrow> live_page \<Rightarrow> live_page" where
  "detail_run user evs lp = fold (detail_event_step user) evs lp"

text \<open>The states a page reaches from its mount through any events.\<close>

inductive live_reachable :: "app_user option \<Rightarrow> live_page \<Rightarrow> bool" for user where
  mounted: "live_reachable user (mount_live i c)"
| event: "live_reachable user lp \<Longrightarrow> live_reachable user (detail_event_step user e lp)"

definition idle_ok :: "live_page \<Rightarrow> bool" where
  "idle_ok lp \<longleftrightarrow> ((\<forall>x \<in> set (snd lp). x = Await_Activities) \<longrightarrow> \<not> d_submitting (fst (fst lp)))"

section \<open>Lemmas\<close>

lemma remove_nth_single [simp]: "remove_nth 0 [x] = []"
  by (simp add: remove_nth_def)

lemma detail_run_simps [simp]:
  "detail_run user [] lp = lp"
  "detail_run user (e # evs) lp = detail_run user evs (detail_event_step user e lp)"
  by (simp_all add: detail_run_def)

text \<open>
  The submitting flag does not count the calls in flight: when the first of two pending
  updates fails, the flag is cleared (and the comment button enabled again) while the
  second is still waiting for its answer.
\<close>

lemma submitting_cleared_while_in_flight:
  assumes t: "get_ticket_by_id c (d_id d) = Some t" and "v1 \<noteq> d_status d" "v2 \<noteq> v1"
  shows "\<exists>c'. detail_run user [Pick_Status v1, Pick_Status v2, Update_Settles 0 (Inl e)] ((d, c), []) =
           ((d\<lparr>d_submitting := False, d_status := v2\<rparr>, c'), [Await_Update (ticket_id t) v1 v2])"
proof -
  have "get_ticket_by_id (issue r c) (d_id d) = Some t" for r
    using t by (simp add: get_ticket_by_id_def)
  with assms show ?thesis
    by (simp add: update_ticket_settle_def remove_nth_def)
qed

lemma set_remove_nth: "set (remove_nth i xs) \<subseteq> set xs"
  by (auto simp: remove_nth_def dest: in_set_takeD in_set_dropD)

lemma set_remove_nth_insert: "i < length xs \<Longrightarrow> set xs = insert (xs ! i) (set (remove_nth i xs))"
proof -
  assume len: "i < length xs"
  have "set xs = set (take i xs @ drop i xs)" by simp
  also have "drop i xs = xs ! i # drop (Suc i) xs" using len by (rule Cons_nth_drop_Suc [symmetric])
  finally show ?thesis by (auto simp: remove_nth_def)
qed

lemma idle_ok_step: "idle_ok lp \<Longrightarrow> idle_ok (detail_event_step user e lp)"
proof (cases e)
  case (Pick_Status v)
  obtain d c fl where lp: "lp = ((d, c), fl)" by (metis prod.collapse)
  assume "idle_ok lp"
  then show ?thesis
    by (auto simp: lp Pick_Status idle_ok_def split: option.split)
next
  case (Update_Settles i r)
  obtain d c fl where lp: "lp = ((d, c), fl)" by (metis prod.collapse)
  assume ok: "idle_ok lp"
  show ?thesis
  proof (cases "i < length fl")
    case True
    then have mem: "fl ! i \<in> set fl" by simp
    show ?thesis
    proof (cases "fl ! i")
      case (Await_Update tid old v)
      have "Await_Activity tid old v \<in> set (fl[i := Await_Activity tid old v])"
        using True by (rule set_update_memI)
      then have "\<not> (\<forall>x \<in> set (fl[i := Await_Activity tid old v]). x = Await_Activities)"
        by fastforce
      then show ?thesis
        using True Await_Update by (auto simp: lp Update_Settles idle_ok_def update_ticket_settle_def Let_def
            split: sum.split)
    next
      case (Await_Activity tid old v)
      then show ?thesis using ok True by (simp add: lp Update_Settles)
    next
      case Await_Activities
      then show ?thesis using ok True by (simp add: lp Update_Settles)
    qed
  next
    case False
    then show ?thesis using ok by (simp add: lp Update_Settles)
  qed
next
  case (Activity_Settles i r)
  obtain d c fl where lp: "lp = ((d, c), fl)" by (metis prod.collapse)
  assume "idle_ok lp"
  then show ?thesis
    by (auto simp: lp Activity_Settles idle_ok_def add_activity_settle_def Let_def
        split: in_flight.split sum.split)
next
  case (Activities_Load_Settles i r)
  obtain d c fl where lp: "lp = ((d, c), fl)" by (metis prod.collapse)
  assume ok: "idle_ok lp"
  show ?thesis
  proof (cases "i < length fl \<and> fl ! i = Await_Activities")
    case True
    have "idle_ok ((activities_loaded r d, c), remove_nth i fl)"
      unfolding idle_ok_def
    proof (intro impI)
      assume "\<forall>x \<in> set (snd ((activities_loaded r d, c), remove_nth i fl)). x = Await_Activities"
      then have "\<forall>x \<in> set fl. x = Await_Activities"
        using set_remove_nth_insert [of i fl] True by auto
      with ok have "\<not> d_submitting d" by (simp add: lp idle_ok_def)
      then show "\<not> d_submitting (fst (fst ((activities_loaded r d, c), remove_nth i fl)))"
        by (simp add: activities_loaded_def split: sum.split)
    qed
    with True show ?thesis by (simp add: lp Activities_Load_Settles)
  next
    case False
    then have "detail_event_step user e lp = lp" by (auto simp: lp Activities_Load_Settles)
    with ok show ?thesis by simp
  qed
qed

lemma live_reachable_idle_ok: "live_reachable user lp \<Longrightarrow> idle_ok lp"
proof (induction rule: live_reachable.induct)
  case (mounted i c)
  then show ?case by (simp add: idle_ok_def mount_live_def mount_detail_def Let_def)
next
  case (event lp e)
  show ?case by (rule idle_ok_step [OF event.IH])
qed

section \<open>Properties\<close>

text \<open>
  The page's handler is the sequential schedule of its steps: a status pick whose update
  and activity settle before anything else happens ends in exactly the state of the atomic
  handler \<open>handle_status_change\<close> of the workflow theory, with nothing left in flight.
\<close>

theorem sequential_schedule_refines:
  "detail_run user [Pick_Status v, Update_Settles 0 r1, Activity_Settles 0 r2] (pg, []) =
     (handle_status_change user v r1 r2 pg, [])"
proof -
  obtain d c where pg: "pg = (d, c)" by (cases pg)
  show ?thesis
  proof (cases "get_ticket_by_id c (d_id d)")
    case None
    then show ?thesis by (simp add: pg handle_status_change_def)
  next
    case (Some t)
    then show ?thesis
      by (cases r1; cases r2)
        (simp_all add: pg handle_status_change_def update_ticket_def add_activity_def
          update_ticket_settle_def add_activity_settle_def Let_def)
  qed
qed

text \<open>
  C18. Out-of-order answers leave the page inconsistent. Two status changes picked one after
  the other on a contract-keeping backend, whose answers settle in the reverse order:
  the PATCH for the second value is the last one sent, and the select shows the second
  value, but the snapshot holds the answer that settled last, so the badge shows the first
  value. Both picks are audited, the second one first.
\<close>

theorem out_of_order_updates:
  assumes t: "get_ticket_by_id c (d_id d) = Some t"
    and v1: "v1 \<noteq> d_status d" and v2: "v2 \<noteq> v1"
    and dt1: "dj_id dt1 = ticket_id t" "dj_status dt1 = v1"
    and dt2: "dj_id dt2 = ticket_id t" "dj_status dt2 = v2"
  shows "\<exists>w c' fl. detail_run user [Pick_Status v1, Pick_Status v2, Update_Settles 1 (Inr dt2), Update_Settles 0 (Inr dt1)]
              ((d, c), []) = ((d\<lparr>d_submitting := True, d_status := v2\<rparr>, c'), fl) \<and>
           requests c' = requests c @
             [Update_Ticket (ticket_id t) (update_dto_of_patch (empty_patch\<lparr>p_status := Some v1\<rparr>)),
              Update_Ticket (ticket_id t) (update_dto_of_patch (empty_patch\<lparr>p_status := Some v2\<rparr>)),
              Create_Activity (activity_dto_of_input (status_activity user (ticket_id t) v1 v2)),
              Create_Activity (activity_dto_of_input (status_activity user (ticket_id t) (d_status d) v1))] \<and>
           render_detail (d\<lparr>d_submitting := True, d_status := v2\<rparr>, c') = Detail_Screen w \<and>
           dv_status_value w = status_str v2 \<and> dv_status_badge w = status_badge v1"
proof -
  define tid where "tid = ticket_id t"
  define c1 where "c1 = issue (Update_Ticket tid (update_dto_of_patch (empty_patch\<lparr>p_status := Some v1\<rparr>))) c"
  define c2 where "c2 = issue (Update_Ticket tid (update_dto_of_patch (empty_patch\<lparr>p_status := Some v2\<rparr>))) c1"
  define c3 where "c3 = issue (Create_Activity (activity_dto_of_input (status_activity user tid v1 v2)))
                          (snd (update_ticket_settle tid (Inr dt2) c2))"
  define c4 where "c4 = issue (Create_Activity (activity_dto_of_input (status_activity user tid (d_status d) v1)))
                          (snd (update_ticket_settle tid (Inr dt1) c3))"
  let ?d1 = "d\<lparr>d_submitting := True, d_status := v1\<rparr>"
  let ?d2 = "d\<lparr>d_submitting := True, d_status := v2\<rparr>"
  have t1: "get_ticket_by_id c1 (d_id d) = Some t"
    using t by (simp add: c1_def get_ticket_by_id_def)
  have s1: "detail_event_step user (Pick_Status v1) ((d, c), []) = ((?d1, c1), [Await_Update tid (d_status d) v1])"
    using t v1 by (simp add: c1_def tid_def)
  have s2: "detail_event_step user (Pick_Status v2) ((?d1, c1), [Await_Update tid (d_status d) v1]) =
              ((?d2, c2), [Await_Update tid (d_status d) v1, Await_Update tid v1 v2])"
    using t1 v2 by (simp add: c2_def tid_def)
  have s3: "detail_event_step user (Update_Settles 1 (Inr dt2)) ((?d2, c2), [Await_Update tid (d_status d) v1, Await_Update tid v1 v2]) =
              ((?d2, c3), [Await_Update tid (d_status d) v1, Await_Activity tid v1 v2])"
    by (simp add: c3_def update_ticket_settle_def Let_def)
  have s4: "detail_event_step user (Update_Settles 0 (Inr dt1)) ((?d2, c3), [Await_Update tid (d_status d) v1, Await_Activity tid v1 v2]) =
              ((?d2, c4), [Await_Activity tid (d_status d) v1, Await_Activity tid v1 v2])"
    by (simp add: c4_def update_ticket_settle_def Let_def)
  have t2: "get_ticket_by_id c2 (d_id d) = Some t"
    using t1 by (simp add: c2_def get_ticket_by_id_def)
  have t3: "get_ticket_by_id c3 (d_id d) = Some (ticket_of_django dt2)"
    by (rule lookup_after_update [OF t2 dt2(1)]) (simp add: c3_def tid_def update_ticket_settle_def Let_def)
  have t4: "get_ticket_by_id c4 (d_id d) = Some (ticket_of_django dt1)"
    by (rule lookup_after_update [OF t3]) (simp_all add: c4_def tid_def dt1 dt2 ticket_of_django_def update_ticket_settle_def Let_def)
  have req: "requests c4 = requests c @
      [Update_Ticket tid (update_dto_of_patch (empty_patch\<lparr>p_status := Some v1\<rparr>)),
       Update_Ticket tid (update_dto_of_patch (empty_patch\<lparr>p_status := Some v2\<rparr>)),
       Create_Activity (activity_dto_of_input (status_activity user tid v1 v2)),
       Create_Activity (activity_dto_of_input (status_activity user tid (d_status d) v1))]"
    by (simp add: c1_def c2_def c3_def c4_def update_ticket_settle_def Let_def)
  have "get_ticket_by_id c4 (d_id ?d2) = Some (ticket_of_django dt1)"
    using t4 by simp
  from render_detail_found [OF this] obtain w where
    w: "render_detail (?d2, c4) = Detail_Screen w" "dv_status_badge w = status_badge (status (ticket_of_django dt1))"
       "dv_status_value w = status_str (d_status ?d2)"
    by blast
  have "status (ticket_of_django dt1) = v1" using dt1 by (simp add: ticket_of_django_def)
  with w req s1 s2 s3 s4 show ?thesis
    by (intro exI [of _ w] exI [of _ c4]) (simp add: tid_def)
qed

theorem out_of_order_updates_witness:
  "\<exists>w c' fl. detail_run None [Pick_Status Open, Pick_Status Closed,
        Update_Settles 1 (Inr (demo_django_ticket\<lparr>dj_status := Closed\<rparr>)),
        Update_Settles 0 (Inr (demo_django_ticket\<lparr>dj_status := Open\<rparr>))] (demo_page, []) =
      ((fst demo_page\<lparr>d_submitting := True, d_status := Closed\<rparr>, c'), fl) \<and>
    render_detail (fst demo_page\<lparr>d_submitting := True, d_status := Closed\<rparr>, c') = Detail_Screen w \<and>
    dv_status_value w = ''closed'' \<and> dv_status_badge w = (''ticket-status-open'', ''Open'')"
proof -
  have "\<exists>w c' fl. detail_run None [Pick_Status Open, Pick_Status Closed,
        Update_Settles 1 (Inr (demo_django_ticket\<lparr>dj_status := Closed\<rparr>)),
        Update_Settles 0 (Inr (demo_django_ticket\<lparr>dj_status := Open\<rparr>))] ((fst demo_page, snd demo_page), []) =
      ((fst demo_page\<lparr>d_submitting := True, d_status := Closed\<rparr>, c'), fl) \<and>
      requests c' = requests (snd demo_page) @
        [Update_Ticket (ticket_id (ticket_of_django demo_django_ticket)) (update_dto_of_patch (empty_patch\<lparr>p_status := Some Open\<rparr>)),
         Update_Ticket (ticket_id (ticket_of_django demo_django_ticket)) (update_dto_of_patch (empty_patch\<lparr>p_status := Some Closed\<rparr>)),
         Create_Activity (activity_dto_of_input (status_activity None (ticket_id (ticket_of_django demo_django_ticket)) Open Closed)),
         Create_Activity (activity_dto_of_input (status_activity None (ticket_id (ticket_of_django demo_django_ticket)) (d_status (fst demo_page)) Open))] \<and>
      render_detail (fst demo_page\<lparr>d_submitting := True, d_status := Closed\<rparr>, c') = Detail_Screen w \<and>
      dv_status_value w = status_str Closed \<and> dv_status_badge w = status_badge Open"
    by (rule out_of_order_updates) (simp_all add: demo_page_ticket [simplified] ticket_of_django_def demo_defs)
  then show ?thesis by (auto simp: status_badge_def)
qed

text \<open>
  C19. The mount's activity load overwrites what the page added meanwhile. On a page opened
  at a ticket of the snapshot, a status change whose update and audit entry succeed ends
  with the new entry at the end of the page's log when the mount's load answered first; when
  the load answers last, the page's log is the loaded list alone, and the entry the
  provider recorded is missing from the page.
\<close>

theorem late_activity_load_drops_entry:
  assumes t: "get_ticket_by_id c i = Some t" and i: "i \<noteq> []" and v: "v \<noteq> status t"
  shows "(\<exists>d' c'. detail_run user [Activities_Load_Settles 0 (Inr raw), Pick_Status v,
               Update_Settles 0 (Inr dt), Activity_Settles 0 (Inr da)] (mount_live i c) = ((d', c'), []) \<and>
             d_activities d' = map activity_of_django raw @ [activity_of_django da] \<and>
             last (activities c') = activity_of_django da) \<and>
         (\<exists>d' c'. detail_run user [Pick_Status v, Update_Settles 1 (Inr dt), Activity_Settles 1 (Inr da),
               Activities_Load_Settles 0 (Inr raw)] (mount_live i c) = ((d', c'), []) \<and>
             d_activities d' = map activity_of_django raw \<and>
             last (activities c') = activity_of_django da)"
  using t i v
  by (simp add: mount_live_def mount_detail_def log_request_def Let_def update_ticket_settle_def
      add_activity_settle_def activities_loaded_def remove_nth_def get_ticket_by_id_def)
theorem late_activity_load_drops_entry_witness:
  "(\<exists>d' c'. detail_run None [Activities_Load_Settles 0 (Inr []), Pick_Status Open,
        Update_Settles 0 (Inr (demo_django_ticket\<lparr>dj_status := Open\<rparr>)), Activity_Settles 0 (Inr demo_activity)]
        (mount_live ''t1'' (snd (create_ticket demo_input (Inr demo_django_ticket) init_ctx))) = ((d', c'), []) \<and>
      d_activities d' = [activity_of_django demo_activity] \<and> last (activities c') = activity_of_django demo_activity) \<and>
   (\<exists>d' c'. detail_run None [Pick_Status Open, Update_Settles 1 (Inr (demo_django_ticket\<lparr>dj_status := Open\<rparr>)),
        Activity_Settles 1 (Inr demo_activity), Activities_Load_Settles 0 (Inr [])]
        (mount_live ''t1'' (snd (create_ticket demo_input (Inr demo_django_ticket) init_ctx))) = ((d', c'), []) \<and>
      d_activities d' = [] \<and> last (activities c') = activity_of_django demo_activity)"
proof -
  have t: "get_ticket_by_id (snd (create_ticket demo_input (Inr demo_django_ticket) init_ctx)) ''t1'' =
             Some (ticket_of_django demo_django_ticket)"
    by (simp add: create_ticket_Inr get_ticket_by_id_def init_ctx_def demo_defs)
  have v: "Open \<noteq> status (ticket_of_django demo_django_ticket)"
    by (simp add: ticket_of_django_def demo_defs)
  from late_activity_load_drops_entry [OF t _ v, where user = None and raw = "[]"
      and dt = "demo_django_ticket\<lparr>dj_status := Open\<rparr>" and da = demo_activity]
  show ?thesis by simp
qed

end
