(* ===== verification/Store_Refinement.thy ===== *)
theory Store_Refinement
  imports Ticket_Store
begin

text \<open>
  The ticket repository against an abstract specification. The specification (section 4.2
  of the spec) describes the repository as a store of tickets by id: look a ticket up,
  create one under a fresh id, update one that exists (an unknown id is an error), and a
  failed call leaves the store as it was. The abstract store is a map from ids to tickets;
  the provider's snapshot list is abstracted by \<open>map_of\<close> on the ids, the first entry of
  an id winning, as \<open>Array.prototype.find\<close> in \<open>getTicketById\<close> does. The abstract
  step returns \<open>None\<close> where the specification raises an error.
\<close>

type_synonym ticket_map = "ident \<rightharpoonup> ticket"

definition snapshot_map :: "ticket list \<Rightarrow> ticket_map" where
  "snapshot_map ts = map_of (map (\<lambda>t. (ticket_id t, t)) ts)"

fun abs_step :: "ctx_op \<Rightarrow> ticket_map \<Rightarrow> ticket_map option" where
  "abs_step (Fetch r) m = (case r of Inr ds \<Rightarrow> Some (snapshot_map (map ticket_of_django ds)) | Inl _ \<Rightarrow> Some m)"
| "abs_step (Create i r) m = (case r of Inr d \<Rightarrow> Some (m(dj_id d \<mapsto> ticket_of_django d)) | Inl _ \<Rightarrow> Some m)"
| "abs_step (Update i u r) m =
     (if i \<notin> dom m then None
      else (case r of Inr d \<Rightarrow> Some (m(i \<mapsto> ticket_of_django d)) | Inl _ \<Rightarrow> Some m))"
| "abs_step (Add_Activity a r) m = Some m"

fun abs_run :: "ctx_op list \<Rightarrow> ticket_map \<Rightarrow> ticket_map option" where
  "abs_run [] m = Some m"
| "abs_run (op # ops) m = Option.bind (abs_step op m) (abs_run ops)"

fun honours_run :: "ticket_ctx \<Rightarrow> ctx_op list \<Rightarrow> bool" where
  "honours_run c [] = True"
| "honours_run c (op # ops) = (gateway_honours c op \<and> honours_run (ctx_step op c) ops)"

text \<open>
  The provider's first render and mount effect: the initial state, then
  \<open>fetchTickets()\<close> with the backend's answer.
\<close>

definition provider_mount :: "django_ticket list response \<Rightarrow> ticket_ctx" where
  "provider_mount r = fetch_tickets r init_ctx"

section \<open>The abstraction\<close>

lemma find_map_of_ids: "find (\<lambda>t. ticket_id t = i) ts = map_of (map (\<lambda>t. (ticket_id t, t)) ts) i"
  by (induction ts) auto

lemma get_ticket_by_id_map: "get_ticket_by_id c = snapshot_map (tickets c)"
  by (rule ext) (simp add: get_ticket_by_id_def snapshot_map_def find_map_of_ids)

lemma snapshot_map_replace:
  "ticket_id t = i \<Longrightarrow>
   snapshot_map (replace_where (\<lambda>x. ticket_id x = i) t ts) =
     (if i \<in> dom (snapshot_map ts) then (snapshot_map ts)(i \<mapsto> t) else snapshot_map ts)"
  by (induction ts) (auto simp: snapshot_map_def replace_where_def fun_upd_twist)

lemma snapshot_map_append:
  "ticket_id t \<notin> set (map ticket_id ts) \<Longrightarrow> snapshot_map (ts @ [t]) = (snapshot_map ts)(ticket_id t \<mapsto> t)"
  by (induction ts) (auto simp: snapshot_map_def fun_upd_twist)

lemma dom_snapshot_map: "dom (snapshot_map ts) = set (map ticket_id ts)"
  by (force simp: snapshot_map_def dom_map_of_conv_image_fst)

lemma ctx_step_refines:
  assumes "gateway_honours c op" and "abs_step op (snapshot_map (tickets c)) = Some m"
  shows "snapshot_map (tickets (ctx_step op c)) = m"
  using assms
proof (cases op)
  case (Fetch r)
  then show ?thesis using assms by (cases r) (auto simp: store_branches)
next
  case (Create i r)
  then show ?thesis using assms
    by (cases r) (auto simp: store_branches snapshot_map_append ticket_of_django_def)
next
  case (Update i u r)
  then show ?thesis using assms
    by (cases r) (auto simp: store_branches snapshot_map_replace update_contract_def
        update_dto_of_patch_def ticket_of_django_def split: if_splits)
next
  case (Add_Activity a r)
  then show ?thesis using assms by (cases r) (auto simp: store_branches)
qed

lemma provider_mount_reachable:
  "gateway_honours init_ctx (Fetch r) \<Longrightarrow> ctx_reachable (provider_mount r)"
  using ctx_reachable.step [OF ctx_reachable.start, of "Fetch r"] by (simp add: provider_mount_def)

lemma provider_mount_map:
  "get_ticket_by_id (provider_mount r) =
     (case r of Inr ds \<Rightarrow> snapshot_map (map ticket_of_django ds) | Inl _ \<Rightarrow> Map.empty)"
  by (cases r) (simp_all add: provider_mount_def get_ticket_by_id_map store_branches init_ctx_def snapshot_map_def)

section \<open>Refinement\<close>

text \<open>
  C12. The provider refines the abstract store: along any run whose answers keep the
  backend's contract and whose abstract run raises no error, \<open>getTicketById\<close> after the
  run is the abstract store the specification computes: a fetch replaces it, a create adds
  the new id, an update of a known id replaces its ticket by the server's record, and a
  rejected call or an activity leaves it unchanged.
\<close>

theorem store_refines_map:
  "honours_run c ops \<Longrightarrow> abs_run ops (get_ticket_by_id c) = Some m \<Longrightarrow> get_ticket_by_id (ctx_run ops c) = m"
proof (induction ops arbitrary: c)
  case Nil
  then show ?case by simp
next
  case (Cons op ops)
  then obtain m1 where m1: "abs_step op (snapshot_map (tickets c)) = Some m1"
    and rest: "abs_run ops m1 = Some m"
    by (cases "abs_step op (snapshot_map (tickets c))") (auto simp: get_ticket_by_id_map)
  have "get_ticket_by_id (ctx_step op c) = m1"
    using ctx_step_refines [OF _ m1] Cons.prems(1) by (simp add: get_ticket_by_id_map)
  with Cons.IH [of "ctx_step op c"] Cons.prems(1) rest show ?case by simp
qed

definition demo_update :: django_ticket where
  "demo_update = demo_django_ticket\<lparr>dj_status := Open, dj_updated_at := 2000\<rparr>"

theorem store_refines_map_witness:
  "get_ticket_by_id (ctx_run [Create demo_input (Inr demo_django_ticket),
      Update ''t1'' (empty_patch\<lparr>p_status := Some Open\<rparr>) (Inr demo_update)] init_ctx) =
   [''t1'' \<mapsto> ticket_of_django demo_update]"
proof (rule store_refines_map)
  show "honours_run init_ctx [Create demo_input (Inr demo_django_ticket),
      Update ''t1'' (empty_patch\<lparr>p_status := Some Open\<rparr>) (Inr demo_update)]"
    by (simp add: store_branches init_ctx_def create_contract_def create_dto_of_input_def update_contract_def
        update_dto_of_patch_def empty_patch_def demo_update_def demo_defs)
  show "abs_run [Create demo_input (Inr demo_django_ticket),
      Update ''t1'' (empty_patch\<lparr>p_status := Some Open\<rparr>) (Inr demo_update)] (get_ticket_by_id init_ctx) =
    Some [''t1'' \<mapsto> ticket_of_django demo_update]"
    by (simp add: get_ticket_by_id_map init_ctx_def snapshot_map_def demo_defs)
qed

end
