(* ===== verification/Form_Fields.thy ===== *)
theory Form_Fields
  imports Forms
begin

text \<open>
  The ticket form of \<open>src/client/src/pages/SubmitTicket.tsx\<close> field by field. Each
  \<open>FormField\<close> shows its label, its value and, through \<open>FormMessage\<close>, the error the
  zod schema reports for that field. The form's state is kept by \<open>react-hook-form\<close>
  (\<open>useForm\<close> with \<open>zodResolver\<close> and the library's default modes): nothing is
  validated while the user types until the first submit; the submit validates every field
  (\<open>handleSubmit\<close> calls \<open>onSubmit\<close> only when no field fails); after a submit, each
  change revalidates the field that changed. \<open>form.reset()\<close> after a successful submit
  restores the default values and clears the errors and the submitted flag. That library
  behaviour is modelled from its documented defaults; the schema, the fields and
  \<open>onSubmit\<close> are the repository's code (\<open>Forms\<close>).
\<close>

datatype form_field = Name_Field | Email_Field | Title_Field | Description_Field | Priority_Field

definition form_fields :: "form_field list" where
  "form_fields = [Name_Field, Email_Field, Title_Field, Description_Field, Priority_Field]"

fun field_label :: "form_field \<Rightarrow> string" where
  "field_label Name_Field = ''Your Name''"
| "field_label Email_Field = ''Email Address''"
| "field_label Title_Field = ''Ticket Subject''"
| "field_label Description_Field = ''Detailed Description''"
| "field_label Priority_Field = ''Priority''"

fun field_value :: "ticket_form \<Rightarrow> form_field \<Rightarrow> string" where
  "field_value f Name_Field = tf_name f"
| "field_value f Email_Field = tf_email f"
| "field_value f Title_Field = tf_title f"
| "field_value f Description_Field = tf_description f"
| "field_value f Priority_Field = priority_str (tf_priority f)"

text \<open>
  The schema's check of each field: the first failing check's message, or none. Each
  check reads its own field only. The priority is one of the enum's values by its type.
\<close>

fun schema_field_error :: "(string \<Rightarrow> bool) \<Rightarrow> ticket_form \<Rightarrow> form_field \<Rightarrow> string option" where
  "schema_field_error email_ok f Name_Field =
     (if length (tf_name f) < 2 then Some ''Name must be at least 2 characters'' else None)"
| "schema_field_error email_ok f Email_Field =
     (if \<not> email_ok (tf_email f) then Some ''Invalid email address'' else None)"
| "schema_field_error email_ok f Title_Field =
     (if length (tf_title f) < 5 then Some ''Title must be at least 5 characters'' else None)"
| "schema_field_error email_ok f Description_Field =
     (if length (tf_description f) < 10 then Some ''Description must be at least 10 characters'' else None)"
| "schema_field_error email_ok f Priority_Field = None"

text \<open>An input's \<open>field.onChange\<close>: the text fields take the typed string, the select its item.\<close>

datatype form_input = Field_Typed form_field string | Priority_Picked ticket_priority

fun set_field :: "form_input \<Rightarrow> ticket_form \<Rightarrow> ticket_form" where
  "set_field (Field_Typed Name_Field v) f = f\<lparr>tf_name := v\<rparr>"
| "set_field (Field_Typed Email_Field v) f = f\<lparr>tf_email := v\<rparr>"
| "set_field (Field_Typed Title_Field v) f = f\<lparr>tf_title := v\<rparr>"
| "set_field (Field_Typed Description_Field v) f = f\<lparr>tf_description := v\<rparr>"
| "set_field (Field_Typed Priority_Field v) f = f"
| "set_field (Priority_Picked p) f = f\<lparr>tf_priority := p\<rparr>"

fun input_field :: "form_input \<Rightarrow> form_field" where
  "input_field (Field_Typed fld v) = fld"
| "input_field (Priority_Picked p) = Priority_Field"

record rhf_form =
  rf_values :: ticket_form
  rf_errors :: "form_field \<Rightarrow> string option"
  rf_submitted :: bool

definition init_rhf :: rhf_form where
  "init_rhf = \<lparr>rf_values = default_ticket_form, rf_errors = (\<lambda>_. None), rf_submitted = False\<rparr>"

definition rhf_change :: "(string \<Rightarrow> bool) \<Rightarrow> form_input \<Rightarrow> rhf_form \<Rightarrow> rhf_form" where
  "rhf_change email_ok e r =
     (let vs = set_field e (rf_values r) in
      if rf_submitted r
      then r\<lparr>rf_values := vs, rf_errors := (rf_errors r)(input_field e := schema_field_error email_ok vs (input_field e))\<rparr>
      else r\<lparr>rf_values := vs\<rparr>)"

text \<open>
  \<open>form.handleSubmit(onSubmit)\<close>: every field validated and the form marked submitted;
  when no field fails, \<open>onSubmit\<close> (\<open>submit_ticket\<close> of \<open>Forms\<close>) runs on the values,
  and a successful submission resets the form. The result is the form, the provider and
  the location navigated to.
\<close>

definition rhf_submit ::
  "(string \<Rightarrow> bool) \<Rightarrow> django_ticket response \<Rightarrow> rhf_form \<Rightarrow> ticket_ctx \<Rightarrow> rhf_form \<times> ticket_ctx \<times> string option" where
  "rhf_submit email_ok r f c =
     (let errs = schema_field_error email_ok (rf_values f);
          f1 = f\<lparr>rf_errors := errs, rf_submitted := True\<rparr>
      in if list_all (\<lambda>fld. errs fld = None) form_fields
         then (case submit_ticket email_ok r \<lparr>sp_form = rf_values f, sp_errors = [], sp_submitting = False\<rparr> c of
                 (_, c1, Some loc) \<Rightarrow> (init_rhf, c1, Some loc)
               | (_, c1, None) \<Rightarrow> (f1, c1, None))
         else (f1, c, None))"

text \<open>What each \<open>FormItem\<close> shows: label, value and message.\<close>

definition field_view :: "rhf_form \<Rightarrow> form_field \<Rightarrow> string \<times> string \<times> string option" where
  "field_view f fld = (field_label fld, field_value (rf_values f) fld, rf_errors f fld)"

inductive rhf_reachable :: "(string \<Rightarrow> bool) \<Rightarrow> rhf_form \<Rightarrow> bool" for email_ok where
  init: "rhf_reachable email_ok init_rhf"
| change: "rhf_reachable email_ok f \<Longrightarrow> rhf_reachable email_ok (rhf_change email_ok e f)"
| submit: "rhf_reachable email_ok f \<Longrightarrow> rhf_reachable email_ok (fst (rhf_submit email_ok r f c))"

section \<open>Lemmas\<close>

lemma schema_field_error_other:
  assumes "fld \<noteq> input_field e"
  shows "schema_field_error email_ok (set_field e f) fld = schema_field_error email_ok f fld"
proof (cases e)
  case (Field_Typed g v)
  then show ?thesis using assms by (cases g; cases fld) auto
next
  case (Priority_Picked p)
  then show ?thesis using assms by (cases fld) auto
qed

lemma ticket_schema_errors_fields:
  "ticket_schema_errors email_ok f = List.map_filter (schema_field_error email_ok f) form_fields"
  by (simp add: ticket_schema_errors_def form_fields_def map_filter_simps)

lemma fields_ok_iff:
  "list_all (\<lambda>fld. schema_field_error email_ok f fld = None) form_fields \<longleftrightarrow> ticket_schema_errors email_ok f = []"
  by (auto simp: ticket_schema_errors_def form_fields_def)

lemma rhf_submit_cases:
  "fst (rhf_submit email_ok r f c) = init_rhf \<or>
   fst (rhf_submit email_ok r f c) = f\<lparr>rf_errors := schema_field_error email_ok (rf_values f), rf_submitted := True\<rparr>"
  by (auto simp: rhf_submit_def Let_def split: prod.split option.split)

section \<open>Properties\<close>

text \<open>
  C29. The messages under the fields follow the values: in every state the form reaches,
  before the first submit no field shows a message, and from the first submit on each
  field shows exactly the schema's message for its current value, however the fields were
  edited since.
\<close>

theorem form_errors_track_values:
  "rhf_reachable email_ok f \<Longrightarrow>
   rf_errors f = (if rf_submitted f then schema_field_error email_ok (rf_values f) else (\<lambda>_. None))"
proof (induction rule: rhf_reachable.induct)
  case init
  then show ?case by (simp add: init_rhf_def)
next
  case (change f e)
  show ?case
  proof (cases "rf_submitted f")
    case True
    have "(schema_field_error email_ok (rf_values f))
            (input_field e := schema_field_error email_ok (set_field e (rf_values f)) (input_field e)) =
          schema_field_error email_ok (set_field e (rf_values f))"
      by (rule ext) (simp add: schema_field_error_other)
    with True change.IH show ?thesis by (simp add: rhf_change_def Let_def)
  next
    case False
    with change.IH show ?thesis by (simp add: rhf_change_def Let_def)
  qed
next
  case (submit f r c)
  from rhf_submit_cases [of email_ok r f c] show ?case
    by (auto simp: init_rhf_def)
qed

theorem form_errors_track_values_witness:
  "rf_errors (rhf_change email_re (Field_Typed Name_Field ''Ana'')
      (fst (rhf_submit email_re (Inl Network_Failure) init_rhf init_ctx))) Name_Field = None \<and>
   rf_errors (rhf_change email_re (Field_Typed Name_Field ''Ana'')
      (fst (rhf_submit email_re (Inl Network_Failure) init_rhf init_ctx))) Title_Field =
     Some ''Title must be at least 5 characters''"
proof -
  let ?f = "rhf_change email_re (Field_Typed Name_Field ''Ana'') (fst (rhf_submit email_re (Inl Network_Failure) init_rhf init_ctx))"
  have "rhf_reachable email_re ?f"
    by (intro rhf_reachable.change rhf_reachable.submit rhf_reachable.init)
  from form_errors_track_values [OF this]
  have e: "rf_errors ?f = (if rf_submitted ?f then schema_field_error email_re (rf_values ?f) else (\<lambda>_. None))" .
  have "rf_submitted ?f" and "rf_values ?f = default_ticket_form\<lparr>tf_name := ''Ana''\<rparr>"
    by (auto simp: rhf_change_def rhf_submit_def Let_def init_rhf_def form_fields_def default_ticket_form_def)
  with e show ?thesis by (simp add: default_ticket_form_def)
qed

end
