(* ===== verification/Store_Interleaving.thy ===== *)
theory Store_Interleaving
  imports Store_Refinement Detail_Interleaving
begin

text \<open>
  The provider's operations in flight. Every operation of \<open>TicketProvider\<close>
  (\<open>src/client/src/context/TicketContext.tsx\<close>) is an async function suspended at its one
  \<open>await\<close>: its first part sets \<open>loading\<close> and sends the request (\<open>issue\<close>), its
  second part runs when the answer comes (the \<open>*_settle\<close> functions of
  \<open>Ticket_Store\<close>). Several pages share the provider, and nothing orders the calls: the
  mount effect's \<open>fetchTickets\<close> may still be waiting when the public form's
  \<open>createTicket\<close> is called. As for the detail page, the suspended calls are a list and
  an answer names the call it resumes by its position; an answer that names no suspended
  call of its kind does nothing.
\<close>

datatype pending_op = Pending_Fetch | Pending_Create | Pending_Update ident | Pending_Activity

type_synonym live_store = "ticket_ctx \<times> pending_op list"

datatype store_event =
    Start_Fetch
  | Start_Create ticket_input
  | Start_Update ident ticket_patch
  | Start_Activity activity_input
  | Fetch_Answer nat "django_ticket list response"
  | Create_Answer nat "django_ticket response"
  | Update_Answer nat "django_ticket response"
  | Activity_Answer nat "django_activity response"

fun store_event_step :: "store_event \<Rightarrow> live_store \<Rightarrow> live_store" where
  "store_event_step Start_Fetch (c, ps) = (issue List_Tickets c, ps @ [Pending_Fetch])"
| "store_event_step (Start_Create i) (c, ps) =
     (issue (Create_Ticket (create_dto_of_input i)) c, ps @ [Pending_Create])"
| "store_event_step (Start_Update i u) (c, ps) =
     (issue (Update_Ticket i (update_dto_of_patch u)) c, ps @ [Pending_Update i])"
| "store_event_step (Start_Activity a) (c, ps) =
     (issue (Create_Activity (activity_dto_of_input a)) c, ps @ [Pending_Activity])"
| "store_event_step (Fetch_Answer k r) (c, ps) =
     (if k < length ps \<and> ps ! k = Pending_Fetch then (fetch_tickets_settle r c, remove_nth k ps) else (c, ps))"
| "store_event_step (Create_Answer k r) (c, ps) =
     (if k < length ps \<and> ps ! k = Pending_Create then (snd (create_ticket_settle r c), remove_nth k ps) else (c, ps))"
| "store_event_step (Update_Answer k r) (c, ps) =
     (if k < length ps then
        (case ps ! k of Pending_Update i \<Rightarrow> (snd (update_ticket_settle i r c), remove_nth k ps) | _ \<Rightarrow> (c, ps))
      else (c, ps))"
| "store_event_step (Activity_Answer k r) (c, ps) =
     (if k < length ps \<and> ps ! k = Pending_Activity then (snd (add_activity_settle r c), remove_nth k ps) else (c, ps))"

definition store_run :: "store_event list \<Rightarrow> live_store \<Rightarrow> live_store" where
  "store_run evs ls = fold store_event_step evs ls"

section \<open>Lemmas\<close>

lemma store_run_simps [simp]:
  "store_run [] ls = ls"
  "store_run (e # evs) ls = store_run evs (store_event_step e ls)"
  by (simp_all add: store_run_def)

lemma remove_nth_append_last [simp]: "remove_nth (length xs) (xs @ [x]) = xs"
  by (simp add: remove_nth_def)

lemma find_append_found: "p x \<Longrightarrow> find p (xs @ [x]) \<noteq> None"
  by (induction xs) auto

text \<open>
  An operation whose answer comes before anything else happens is the atomic operation
  of \<open>Ticket_Store\<close>: the split refines \<open>ctx_step\<close>.
\<close>

lemma sequential_ops_refine:
  "store_run [Start_Fetch, Fetch_Answer (length ps) r] (c, ps) = (ctx_step (Fetch r) c, ps)"
  "store_run [Start_Create i, Create_Answer (length ps) rc] (c, ps) = (ctx_step (Create i rc) c, ps)"
  "store_run [Start_Update j u, Update_Answer (length ps) ru] (c, ps) = (ctx_step (Update j u ru) c, ps)"
  "store_run [Start_Activity a, Activity_Answer (length ps) ra] (c, ps) = (ctx_step (Add_Activity a ra) c, ps)"
  by (simp_all add: fetch_tickets_def create_ticket_def update_ticket_def add_activity_def)

section \<open>Properties\<close>

text \<open>
  C13. A fetch that answers after a create loses the created ticket. With the mount's
  \<open>fetchTickets\<close> still waiting, a \<open>createTicket\<close> that succeeds appends the new
  ticket, raises "Ticket Created" and turns \<open>loading\<close> off while the fetch is still out;
  when the fetch then answers with a list the backend computed before the create, the
  snapshot is replaced by it and \<open>getTicketById\<close> no longer finds the new ticket. Had the
  fetch answered first, the ticket would be found.
\<close>

theorem late_fetch_drops_created:
  assumes new: "dj_id d \<notin> set (map dj_id ds)"
  shows "(\<exists>c1. store_run [Start_Fetch, Start_Create i, Create_Answer 1 (Inr d)] (c, []) = (c1, [Pending_Fetch]) \<and>
             \<not> loading c1 \<and> get_ticket_by_id c1 (dj_id d) \<noteq> None \<and> created_notice \<in> set (notices c1)) \<and>
         (\<exists>c2. store_run [Start_Fetch, Start_Create i, Create_Answer 1 (Inr d), Fetch_Answer 0 (Inr ds)] (c, []) = (c2, []) \<and>
             get_ticket_by_id c2 (dj_id d) = None) \<and>
         (\<exists>c3. store_run [Start_Fetch, Start_Create i, Fetch_Answer 0 (Inr ds), Create_Answer 0 (Inr d)] (c, []) = (c3, []) \<and>
             get_ticket_by_id c3 (dj_id d) = Some (ticket_of_django d))"
proof -
  have none: "find (\<lambda>t. ticket_id t = dj_id d) (map ticket_of_django ds) = None"
    using new by (induction ds) (auto simp: ticket_of_django_def)
  have first: "find (\<lambda>t. ticket_id t = dj_id d) (map ticket_of_django ds @ [ticket_of_django d]) = Some (ticket_of_django d)"
    using none by (induction ds) (auto simp: ticket_of_django_def split: if_splits)
  show ?thesis
    using none first find_append_found [of "\<lambda>t. ticket_id t = dj_id d" "ticket_of_django d" "tickets c"]
    by (simp add: store_defs create_ticket_settle_def Let_def get_ticket_by_id_def remove_nth_def)
qed

theorem late_fetch_drops_created_witness:
  "(\<exists>c1. store_run [Start_Fetch, Start_Create demo_input, Create_Answer 1 (Inr demo_django_ticket)] (init_ctx, []) =
          (c1, [Pending_Fetch]) \<and>
      \<not> loading c1 \<and> get_ticket_by_id c1 (dj_id demo_django_ticket) \<noteq> None \<and> created_notice \<in> set (notices c1)) \<and>
   (\<exists>c2. store_run [Start_Fetch, Start_Create demo_input, Create_Answer 1 (Inr demo_django_ticket),
          Fetch_Answer 0 (Inr [])] (init_ctx, []) = (c2, []) \<and> get_ticket_by_id c2 (dj_id demo_django_ticket) = None) \<and>
   (\<exists>c3. store_run [Start_Fetch, Start_Create demo_input, Fetch_Answer 0 (Inr []),
          Create_Answer 0 (Inr demo_django_ticket)] (init_ctx, []) = (c3, []) \<and>
      get_ticket_by_id c3 (dj_id demo_django_ticket) = Some (ticket_of_django demo_django_ticket))"
  by (rule late_fetch_drops_created) simp

text \<open>
  C14. Overlapping calls duplicate a ticket. With the mount's \<open>fetchTickets\<close> and a
  \<open>createTicket\<close> both waiting, the backend may create the ticket first and list it in
  the fetch's answer; the fetch answer then replaces the snapshot with a list holding the new
  ticket, and the create's answer appends it again. Each answer keeps the backend's contract,
  yet the snapshot ends with two entries of one id, which the sequential provider never
  reaches.
\<close>

theorem fetch_then_create_duplicates:
  assumes listed: "d \<in> set ds" and fetch_ok: "snapshot_ok (map ticket_of_django ds)"
    and create_ok: "create_contract (create_dto_of_input i) d"
    and fresh: "dj_id d \<notin> set (map ticket_id (tickets c))"
  shows "\<exists>c'. store_run [Start_Fetch, Start_Create i, Fetch_Answer 0 (Inr ds), Create_Answer 0 (Inr d)] (c, []) =
           (c', []) \<and> 2 \<le> length (filter (\<lambda>t. ticket_id t = dj_id d) (tickets c')) \<and>
           \<not> snapshot_ok (tickets c')"
proof -
  have "d \<in> set (filter (\<lambda>x. dj_id x = dj_id d) ds)"
    using listed by simp
  then have "0 < length (filter (\<lambda>x. dj_id x = dj_id d) ds)"
    by (rule length_pos_if_in_set)
  then have two: "2 \<le> length (filter (\<lambda>t. ticket_id t = dj_id d) (map ticket_of_django ds @ [ticket_of_django d]))"
    by (simp add: filter_map o_def Suc_le_eq)
  have nd: "\<not> distinct (map ticket_id (map ticket_of_django ds @ [ticket_of_django d]))"
    using listed by (auto simp: ticket_of_django_sel)
  let ?r = "store_run [Start_Fetch, Start_Create i, Fetch_Answer 0 (Inr ds), Create_Answer 0 (Inr d)] (c, [])"
  have run: "?r = (fst ?r, [])" and tk: "tickets (fst ?r) = map ticket_of_django ds @ [ticket_of_django d]"
    by (simp_all add: store_defs create_ticket_settle_def Let_def remove_nth_def)
  show ?thesis
  proof (intro exI conjI)
    show "?r = (fst ?r, [])" by (rule run)
    show "2 \<le> length (filter (\<lambda>t. ticket_id t = dj_id d) (tickets (fst ?r)))" using two by (simp only: tk)
    show "\<not> snapshot_ok (tickets (fst ?r))" using nd by (simp only: tk snapshot_ok_def) simp
  qed
qed

theorem fetch_then_create_duplicates_witness:
  "\<exists>c'. store_run [Start_Fetch, Start_Create demo_input, Fetch_Answer 0 (Inr [demo_django_ticket]),
       Create_Answer 0 (Inr demo_django_ticket)] (init_ctx, []) = (c', []) \<and>
     2 \<le> length (filter (\<lambda>t. ticket_id t = dj_id demo_django_ticket) (tickets c')) \<and> \<not> snapshot_ok (tickets c')"
  by (rule fetch_then_create_duplicates)
    (simp_all add: snapshot_ok_def ticket_wf_def create_contract_def create_dto_of_input_def init_ctx_def
      ticket_of_django_def demo_defs)

end
