(* ===== verification/Context_Api.thy ===== *)
theory Context_Api
  imports Navigation Forms
begin

text \<open>
  The two React contexts as interfaces. \<open>TicketContextType\<close>
  (\<open>src/client/src/context/TicketContext.tsx\<close>) and \<open>AuthContextType\<close>
  (\<open>src/client/src/context/AuthContext.tsx\<close>) are records of values and functions; the
  pages read them through \<open>useTickets()\<close> and \<open>useAuth()\<close> and never see which
  implementation they get. Each context has two: the provider's \<open>value\<close>, and the
  default value given to \<open>createContext\<close>, which a consumer rendered outside the
  provider receives. Here the interface is a record of operations over a state type
  \<open>'c\<close>: the provider's state (\<open>ticket_ctx\<close>, \<open>session\<close>) for the provider, and
  \<open>unit\<close> for the default, which keeps no state. The consumers (the ticket form's
  \<open>onSubmit\<close>, the login page, the admin layout) are written once over the interface;
  their toasts are returned as a list, since \<open>useToast\<close> is separate from the context.
\<close>

text \<open>
  \<open>{} as Ticket\<close>: the default's operations resolve with an empty object cast to the
  result type.
\<close>

datatype 'a js_obj = Obj 'a | Empty_Obj

record 'c ticket_context =
  tc_tickets :: "'c \<Rightarrow> ticket list"
  tc_activities :: "'c \<Rightarrow> ticket_activity list"
  tc_loading :: "'c \<Rightarrow> bool"
  tc_error :: "'c \<Rightarrow> string option"
  tc_create_ticket :: "ticket_input \<Rightarrow> django_ticket response \<Rightarrow> 'c \<Rightarrow> ticket js_obj response \<times> 'c"
  tc_update_ticket :: "ident \<Rightarrow> ticket_patch \<Rightarrow> django_ticket response \<Rightarrow> 'c \<Rightarrow> ticket js_obj response \<times> 'c"
  tc_add_activity ::
    "activity_input \<Rightarrow> django_activity response \<Rightarrow> 'c \<Rightarrow> ticket_activity js_obj response \<times> 'c"
  tc_get_ticket_by_id :: "'c \<Rightarrow> ident \<Rightarrow> ticket option"
  tc_get_activities_by_ticket_id :: "'c \<Rightarrow> ident \<Rightarrow> ticket_activity list"
  tc_filter_tickets :: "'c \<Rightarrow> ticket_status option \<Rightarrow> ticket_priority option \<Rightarrow> ticket list"
  tc_fetch_tickets :: "django_ticket list response \<Rightarrow> 'c \<Rightarrow> 'c"

definition obj_result :: "'a response \<times> 'c \<Rightarrow> 'a js_obj response \<times> 'c" where
  "obj_result rc = (map_sum id Obj (fst rc), snd rc)"

text \<open>The provider's \<open>value\<close>: its state and its operations.\<close>

definition provider_context :: "ticket_ctx ticket_context" where
  "provider_context =
     \<lparr>tc_tickets = tickets, tc_activities = activities, tc_loading = loading, tc_error = ctx_error,
      tc_create_ticket = (\<lambda>i r c. obj_result (create_ticket i r c)),
      tc_update_ticket = (\<lambda>i u r c. obj_result (update_ticket i u r c)),
      tc_add_activity = (\<lambda>a r c. obj_result (add_activity a r c)),
      tc_get_ticket_by_id = get_ticket_by_id,
      tc_get_activities_by_ticket_id = get_activities_by_ticket_id,
      tc_filter_tickets = filter_tickets,
      tc_fetch_tickets = fetch_tickets\<rparr>"

text \<open>
  \<open>initialTicketContext\<close>: no tickets, not loading, no error; every operation resolves at
  once without a request, the three that return an object with \<open>{}\<close>.
\<close>

definition initial_ticket_context :: "unit ticket_context" where
  "initial_ticket_context =
     \<lparr>tc_tickets = (\<lambda>_. []), tc_activities = (\<lambda>_. []), tc_loading = (\<lambda>_. False), tc_error = (\<lambda>_. None),
      tc_create_ticket = (\<lambda>i r u. (Inr Empty_Obj, u)),
      tc_update_ticket = (\<lambda>i p r u. (Inr Empty_Obj, u)),
      tc_add_activity = (\<lambda>a r u. (Inr Empty_Obj, u)),
      tc_get_ticket_by_id = (\<lambda>u i. None),
      tc_get_activities_by_ticket_id = (\<lambda>u i. []),
      tc_filter_tickets = (\<lambda>u s p. []),
      tc_fetch_tickets = (\<lambda>r u. u)\<rparr>"

record 'c auth_context =
  ac_user :: "'c \<Rightarrow> app_user option"
  ac_is_loading :: "'c \<Rightarrow> bool"
  ac_is_authenticated :: "'c \<Rightarrow> bool"
  ac_login :: "string \<Rightarrow> string \<Rightarrow> login_response response \<Rightarrow> 'c \<Rightarrow> unit response \<times> 'c"
  ac_logout :: "unit response \<Rightarrow> 'c \<Rightarrow> 'c"

definition provider_auth_context :: "session auth_context" where
  "provider_auth_context =
     \<lparr>ac_user = au_user, ac_is_loading = au_loading, ac_is_authenticated = is_authenticated,
      ac_login = ctx_login, ac_logout = ctx_logout\<rparr>"

text \<open>
  \<open>initialContext\<close> of \<open>AuthContext.tsx\<close>: no user, \<open>isLoading: true\<close>, and a
  \<open>login\<close> and a \<open>logout\<close> that do nothing.
\<close>

definition initial_auth_context :: "unit auth_context" where
  "initial_auth_context =
     \<lparr>ac_user = (\<lambda>_. None), ac_is_loading = (\<lambda>_. True), ac_is_authenticated = (\<lambda>_. False),
      ac_login = (\<lambda>e pw r u. (Inr (), u)), ac_logout = (\<lambda>r u. u)\<rparr>"

section \<open>The consumers over the interface\<close>

definition admin_layout_via :: "'c auth_context \<Rightarrow> 'c \<Rightarrow> app_page \<Rightarrow> view" where
  "admin_layout_via ac c p =
     (if ac_is_loading ac c then Auth_Loading
      else if \<not> ac_is_authenticated ac c then Redirect ''/admin/login''
      else Show_Page p)"

definition login_view_via :: "'c auth_context \<Rightarrow> 'c \<Rightarrow> view" where
  "login_view_via ac c =
     (if ac_is_authenticated ac c \<and> \<not> ac_is_loading ac c then Redirect ''/admin/dashboard''
      else if ac_is_loading ac c then Login_Spinner
      else Show_Page Login_Page)"

definition render_via :: "'c auth_context \<Rightarrow> 'c \<Rightarrow> app_page \<Rightarrow> view" where
  "render_via ac c p =
     (if admin_page p then admin_layout_via ac c p
      else if p = Login_Page then login_view_via ac c
      else Show_Page p)"

definition resolve_via :: "'c auth_context \<Rightarrow> 'c \<Rightarrow> string \<Rightarrow> view" where
  "resolve_via ac c path =
     (case render_via ac c (route path) of Redirect q \<Rightarrow> render_via ac c (route q) | v \<Rightarrow> v)"

definition handle_login_submit_via ::
  "'c auth_context \<Rightarrow> login_response response \<Rightarrow> login_page \<Rightarrow> 'c \<Rightarrow>
   login_page \<times> 'c \<times> notice list \<times> string option" where
  "handle_login_submit_via ac r p c =
     (case validate_login (lp_email p) (lp_password p) of
        ((ee, pe), ok) \<Rightarrow>
          (let p1 = p\<lparr>lp_email_error := ee, lp_password_error := pe\<rparr> in
           if \<not> ok then (p1, c, [], None)
           else (case ac_login ac (lp_email p) (lp_password p) r c of
                   (Inr _, c1) \<Rightarrow> (p1\<lparr>lp_submitting := False\<rparr>, c1, [], Some ''/admin/dashboard'')
                 | (Inl _, c1) \<Rightarrow> (p1\<lparr>lp_submitting := False\<rparr>, c1, [invalid_credentials_notice], None))))"

definition submit_ticket_via ::
  "'c ticket_context \<Rightarrow> (string \<Rightarrow> bool) \<Rightarrow> django_ticket response \<Rightarrow> submit_page \<Rightarrow> 'c \<Rightarrow>
   submit_page \<times> 'c \<times> notice list \<times> string option" where
  "submit_ticket_via tc email_ok r p c =
     (let errs = ticket_schema_errors email_ok (sp_form p) in
      if errs \<noteq> [] then (p\<lparr>sp_errors := errs\<rparr>, c, [], None)
      else (case tc_create_ticket tc (input_of_form (sp_form p)) r c of
              (Inr _, c1) \<Rightarrow> (p\<lparr>sp_form := default_ticket_form, sp_errors := [], sp_submitting := False\<rparr>,
                             c1, [submitted_notice], Some ''/ticket-submitted'')
            | (Inl _, c1) \<Rightarrow> (p\<lparr>sp_errors := [], sp_submitting := False\<rparr>, c1, [submission_failed_notice], None)))"

section \<open>The provider implements the interface\<close>

text \<open>
  Read through the interface, the provider's value is what the pages of the other
  theories use directly: the routing of \<open>Navigation\<close>, the login submit and the ticket
  submit of \<open>Forms\<close>, with the page's toasts appended to the provider's log.
\<close>

lemma render_provider: "render_via provider_auth_context s p = render s p"
  by (simp add: render_via_def render_def admin_layout_via_def admin_layout_def login_view_via_def
      login_view_def provider_auth_context_def)

lemma resolve_provider: "resolve_via provider_auth_context s path = resolve s path"
  unfolding resolve_via_def resolve_def render_provider by (rule refl)

lemma handle_login_submit_provider:
  "handle_login_submit r p s =
     (case handle_login_submit_via provider_auth_context r p s of (p', s', ns, nav) \<Rightarrow> (p', fold au_toast ns s', nav))"
  by (simp add: handle_login_submit_def handle_login_submit_via_def provider_auth_context_def Let_def
      split: prod.split sum.split)

lemma submit_ticket_provider:
  "submit_ticket ok r p c =
     (case submit_ticket_via provider_context ok r p c of (p', c', ns, nav) \<Rightarrow> (p', fold toast ns c', nav))"
  by (cases r) (simp_all add: submit_ticket_def submit_ticket_via_def provider_context_def obj_result_def
      Let_def create_ticket_Inr create_ticket_Inl)

text \<open>The ticket form over any implementation: it navigates exactly when the schema passes and \<open>createTicket\<close> resolves.\<close>

lemma submit_ticket_via_navigates:
  "snd (snd (snd (submit_ticket_via tc ok r p c))) = Some ''/ticket-submitted'' \<longleftrightarrow>
   ticket_schema_errors ok (sp_form p) = [] \<and> \<not> isl (fst (tc_create_ticket tc (input_of_form (sp_form p)) r c))"
  by (simp add: submit_ticket_via_def Let_def split: prod.split sum.split)

lemma provider_create_resolves: "isl (fst (tc_create_ticket provider_context i r c)) \<longleftrightarrow> isl r"
  by (cases r) (simp_all add: provider_context_def obj_result_def create_ticket_Inr create_ticket_Inl)

lemma initial_create_resolves: "\<not> isl (fst (tc_create_ticket initial_ticket_context i r u))"
  by (simp add: initial_ticket_context_def)

section \<open>Outside the providers\<close>

text \<open>
  C28. Outside a \<open>TicketProvider\<close> the ticket form reports a success it did not have:
  with the default context, a form that passes the schema is reset, "Ticket Submitted" is
  raised and the page goes to \<open>/ticket-submitted\<close> whatever the backend would have
  answered, since \<open>createTicket\<close> resolves with \<open>{}\<close> and sends nothing; through the
  provider, a rejected request keeps the form and raises "Submission Failed".
\<close>

theorem default_submit_reports_success:
  assumes "ticket_schema_errors ok (sp_form p) = []"
  shows "submit_ticket_via initial_ticket_context ok r p u =
           (p\<lparr>sp_form := default_ticket_form, sp_errors := [], sp_submitting := False\<rparr>, u,
            [submitted_notice], Some ''/ticket-submitted'') \<and>
         submit_ticket_via provider_context ok (Inl e) p c =
           (p\<lparr>sp_errors := [], sp_submitting := False\<rparr>, snd (create_ticket (input_of_form (sp_form p)) (Inl e) c),
            [submission_failed_notice], None)"
  using assms
  by (simp add: submit_ticket_via_def initial_ticket_context_def provider_context_def obj_result_def
      create_ticket_Inl Let_def)

definition demo_submit_page :: submit_page where
  "demo_submit_page = \<lparr>sp_form = demo_ticket_form, sp_errors = [], sp_submitting = False\<rparr>"

theorem default_submit_reports_success_witness:
  "submit_ticket_via initial_ticket_context (\<lambda>_. True) (Inl Network_Failure) demo_submit_page () =
     (demo_submit_page\<lparr>sp_form := default_ticket_form, sp_errors := [], sp_submitting := False\<rparr>, (),
      [submitted_notice], Some ''/ticket-submitted'') \<and>
   submit_ticket_via provider_context (\<lambda>_. True) (Inl Network_Failure) demo_submit_page init_ctx =
     (demo_submit_page\<lparr>sp_errors := [], sp_submitting := False\<rparr>,
      snd (create_ticket (input_of_form (sp_form demo_submit_page)) (Inl Network_Failure) init_ctx),
      [submission_failed_notice], None)"
  by (rule default_submit_reports_success)
    (simp add: demo_submit_page_def demo_ticket_form_def ticket_schema_errors_def)

text \<open>
  C21. Outside an \<open>AuthProvider\<close> no admin page and no login form is ever shown: the
  default context's \<open>isLoading\<close> is \<open>true\<close> and nothing ever sets it, so every admin
  path stays on the layout's loading screen and the login page on its spinner.
\<close>

theorem default_auth_blocks_admin:
  "(admin_page (route path) \<longrightarrow> resolve_via initial_auth_context u path = Auth_Loading) \<and>
   (route path = Login_Page \<longrightarrow> resolve_via initial_auth_context u path = Login_Spinner)"
  by (simp add: resolve_via_def render_via_def admin_layout_via_def login_view_via_def initial_auth_context_def)

theorem default_auth_blocks_admin_witness:
  "resolve_via initial_auth_context () ''/admin/dashboard'' = Auth_Loading \<and>
   resolve_via initial_auth_context () ''/admin/login'' = Login_Spinner"
proof -
  have d: "route ''/admin/dashboard'' = Dashboard_Page" and l: "route ''/admin/login'' = Login_Page"
    by code_simp+
  show ?thesis
    using default_auth_blocks_admin [of "''/admin/dashboard''" "()"] default_auth_blocks_admin [of "''/admin/login''" "()"]
    by (simp add: d l)
qed

end
