(* ===== verification/Toast_Listeners.thy ===== *)
theory Toast_Listeners
  imports Toast
begin

text \<open>
  The subscribers of the toast store (\<open>src/client/src/hooks/use-toast.ts\<close>). Every
  component that calls \<open>useToast()\<close> keeps the toasts in its own React state, first
  \<open>useState(memoryState)\<close> at its first render, and subscribes its \<open>setState\<close> to the
  module's \<open>listeners\<close> in an effect; \<open>dispatch\<close> hands the new \<open>memoryState\<close> to every
  listener. The effect depends on \<open>[state]\<close>: after every change of the component's state
  it runs again, its cleanup first (\<open>indexOf\<close> and \<open>splice\<close> of the first occurrence),
  so the listener moves to the end of the array; on unmount the cleanup removes it.

  Hook instances are numbered. The hub holds the store, the listener array, the React state
  of every mounted instance (\<open>None\<close> when not mounted) and the instances whose effect is
  due (mounted or re-rendered and not yet committed). React commits an effect after the
  render, at a moment of its choosing: \<open>Hook_Effect\<close> is that moment, and any event of
  the store may come before it. A removal timer dispatches only when its id is queued.
\<close>

record toast_hub =
  hub_globals :: toast_globals
  hub_listeners :: "nat list"
  hub_state :: "nat \<Rightarrow> toaster_toast list option"
  hub_pending :: "nat list"

definition init_hub :: toast_hub where
  "init_hub = \<lparr>hub_globals = init_toasts, hub_listeners = [], hub_state = (\<lambda>_. None), hub_pending = []\<rparr>"

datatype hub_event =
    Hook_Mount nat
  | Hook_Effect nat
  | Hook_Unmount nat
  | Hub_Event toast_event

text \<open>Whether an event of the store reaches \<open>dispatch\<close>.\<close>

fun dispatches :: "toast_event \<Rightarrow> toast_globals \<Rightarrow> bool" where
  "dispatches (Timer_Fires i) g = (i \<in> set (toast_timeouts g))"
| "dispatches _ g = True"

text \<open>\<open>listeners.forEach((listener) => listener(memoryState))\<close>: each listener's state is set.\<close>

definition notify :: "nat list \<Rightarrow> toaster_toast list \<Rightarrow> (nat \<Rightarrow> toaster_toast list option) \<Rightarrow>
    nat \<Rightarrow> toaster_toast list option" where
  "notify ls ms st = (\<lambda>k. if k \<in> set ls then Some ms else st k)"

fun hub_step :: "hub_event \<Rightarrow> toast_hub \<Rightarrow> toast_hub" where
  "hub_step (Hook_Mount k) h =
     (if hub_state h k = None
      then h\<lparr>hub_state := (hub_state h)(k \<mapsto> memory_state (hub_globals h)), hub_pending := hub_pending h @ [k]\<rparr>
      else h)"
| "hub_step (Hook_Effect k) h =
     (if k \<in> set (hub_pending h)
      then h\<lparr>hub_listeners := remove1 k (hub_listeners h) @ [k], hub_pending := remove1 k (hub_pending h)\<rparr>
      else h)"
| "hub_step (Hook_Unmount k) h =
     (if hub_state h k \<noteq> None
      then h\<lparr>hub_listeners := remove1 k (hub_listeners h), hub_state := (hub_state h)(k := None),
             hub_pending := remove1 k (hub_pending h)\<rparr>
      else h)"
| "hub_step (Hub_Event e) h =
     (if dispatches e (hub_globals h)
      then (let g = toast_event_step e (hub_globals h) in
            h\<lparr>hub_globals := g, hub_state := notify (hub_listeners h) (memory_state g) (hub_state h),
              hub_pending := hub_pending h @ filter (\<lambda>k. k \<notin> set (hub_pending h)) (hub_listeners h)\<rparr>)
      else h)"

definition hub_run :: "hub_event list \<Rightarrow> toast_hub \<Rightarrow> toast_hub" where
  "hub_run evs h = fold hub_step evs h"

inductive hub_reachable :: "toast_hub \<Rightarrow> bool" where
  hub_init: "hub_reachable init_hub"
| hub_next: "hub_reachable h \<Longrightarrow> hub_reachable (hub_step e h)"

definition hub_ok :: "toast_hub \<Rightarrow> bool" where
  "hub_ok h \<longleftrightarrow> distinct (hub_listeners h) \<and> distinct (hub_pending h) \<and>
     (\<forall>k \<in> set (hub_listeners h). hub_state h k \<noteq> None) \<and>
     (\<forall>k \<in> set (hub_pending h). hub_state h k \<noteq> None)"

section \<open>Lemmas\<close>

lemma hub_run_simps [simp]:
  "hub_run [] h = h"
  "hub_run (e # evs) h = hub_run evs (hub_step e h)"
  by (simp_all add: hub_run_def)

lemma notify_listener [simp]: "k \<in> set ls \<Longrightarrow> notify ls ms st k = Some ms"
  by (simp add: notify_def)

lemma notify_other [simp]: "k \<notin> set ls \<Longrightarrow> notify ls ms st k = st k"
  by (simp add: notify_def)

lemma hub_ok_init: "hub_ok init_hub"
  by (simp add: hub_ok_def init_hub_def)

lemma hub_ok_step:
  assumes "hub_ok h"
  shows "hub_ok (hub_step e h)"
proof (cases e)
  case (Hook_Mount k)
  then show ?thesis using assms by (auto simp: hub_ok_def set_remove1_eq dest: subsetD [OF set_remove1_subset])
next
  case (Hook_Effect k)
  then show ?thesis using assms by (auto simp: hub_ok_def set_remove1_eq dest: subsetD [OF set_remove1_subset])
next
  case (Hook_Unmount k)
  then show ?thesis using assms by (auto simp: hub_ok_def set_remove1_eq dest: subsetD [OF set_remove1_subset])
next
  case (Hub_Event e')
  then show ?thesis using assms by (auto simp: hub_ok_def Let_def notify_def)
qed

lemma hub_reachable_ok: "hub_reachable h \<Longrightarrow> hub_ok h"
  by (induction rule: hub_reachable.induct) (simp_all add: hub_ok_init hub_ok_step)

lemma toast_fn_shows: "memory_state (snd (toast_fn n g)) \<noteq> []"
  by (simp add: toast_fn_def gen_id_def Let_def toast_limit_def)

section \<open>Properties\<close>

text \<open>
  C36. The subscriptions are kept clean: in every state the hooks reach, whatever the order
  of renders, effects, unmounts and store events, the listener array holds each hook
  instance at most once and only instances that are mounted, so \<open>dispatch\<close> never calls
  the \<open>setState\<close> of an unmounted component.
\<close>

theorem hub_subscriptions_ok:
  "hub_reachable h \<Longrightarrow> distinct (hub_listeners h) \<and> (\<forall>k \<in> set (hub_listeners h). hub_state h k \<noteq> None)"
  using hub_reachable_ok by (simp add: hub_ok_def)

theorem hub_subscriptions_ok_witness:
  "distinct (hub_listeners (hub_step (Hook_Effect 1) (hub_step (Hook_Mount 1) init_hub))) \<and>
   hub_state (hub_step (Hook_Effect 1) (hub_step (Hook_Mount 1) init_hub)) 1 \<noteq> None"
proof -
  let ?h = "hub_step (Hook_Effect 1) (hub_step (Hook_Mount 1) init_hub)"
  have "hub_reachable ?h"
    by (intro hub_reachable.hub_next hub_reachable.hub_init)
  from hub_subscriptions_ok [OF this]
  have d: "distinct (hub_listeners ?h)" and m: "\<forall>k \<in> set (hub_listeners ?h). hub_state ?h k \<noteq> None"
    by simp_all
  have "1 \<in> set (hub_listeners ?h)"
    by (simp add: init_hub_def)
  with d m show ?thesis by blast
qed

text \<open>
  C37. A toast raised between a component's first render and its subscription effect is
  missed: the component rendered with the empty \<open>memoryState\<close>, the toast was dispatched
  before its effect subscribed it, and the effect does not read \<open>memoryState\<close> again; so
  the component ends subscribed, with no effect due, and still without the toast, which it
  sees only at the next dispatch.
\<close>

theorem toast_view_misses_early_dispatch:
  assumes ok: "hub_ok h" and fresh: "hub_state h k = None" and empty: "memory_state (hub_globals h) = []"
  shows "hub_state (hub_run [Hook_Mount k, Hub_Event (Call_Toast n), Hook_Effect k] h) k = Some [] \<and>
         k \<in> set (hub_listeners (hub_run [Hook_Mount k, Hub_Event (Call_Toast n), Hook_Effect k] h)) \<and>
         k \<notin> set (hub_pending (hub_run [Hook_Mount k, Hub_Event (Call_Toast n), Hook_Effect k] h)) \<and>
         memory_state (hub_globals (hub_run [Hook_Mount k, Hub_Event (Call_Toast n), Hook_Effect k] h)) \<noteq> [] \<and>
         hub_state (hub_run [Hook_Mount k, Hub_Event (Call_Toast n), Hook_Effect k, Hub_Event (Call_Dismiss None)] h) k =
           Some (memory_state (hub_globals
             (hub_run [Hook_Mount k, Hub_Event (Call_Toast n), Hook_Effect k, Hub_Event (Call_Dismiss None)] h)))"
proof -
  from ok fresh have nl: "k \<notin> set (hub_listeners h)" and np: "k \<notin> set (hub_pending h)"
    by (auto simp: hub_ok_def)
  then show ?thesis
    using fresh empty toast_fn_shows [of n "hub_globals h"] by (simp add: Let_def remove1_append)
qed

theorem toast_view_misses_early_dispatch_witness:
  "hub_state (hub_run [Hook_Mount 1, Hub_Event (Call_Toast (sample_notice ''Saved'')), Hook_Effect 1] init_hub) 1 = Some [] \<and>
   1 \<in> set (hub_listeners (hub_run [Hook_Mount 1, Hub_Event (Call_Toast (sample_notice ''Saved'')), Hook_Effect 1] init_hub)) \<and>
   1 \<notin> set (hub_pending (hub_run [Hook_Mount 1, Hub_Event (Call_Toast (sample_notice ''Saved'')), Hook_Effect 1] init_hub)) \<and>
   memory_state (hub_globals (hub_run [Hook_Mount 1, Hub_Event (Call_Toast (sample_notice ''Saved'')), Hook_Effect 1] init_hub)) \<noteq> [] \<and>
   hub_state (hub_run [Hook_Mount 1, Hub_Event (Call_Toast (sample_notice ''Saved'')), Hook_Effect 1,
       Hub_Event (Call_Dismiss None)] init_hub) 1 =
     Some (memory_state (hub_globals (hub_run [Hook_Mount 1, Hub_Event (Call_Toast (sample_notice ''Saved'')),
       Hook_Effect 1, Hub_Event (Call_Dismiss None)] init_hub)))"
  by (rule toast_view_misses_early_dispatch [OF hub_ok_init]) (simp_all add: init_hub_def init_toasts_def)

end
