(* ===== verification/Session_Interleaving.thy ===== *)
theory Session_Interleaving
  imports Detail_Interleaving
begin

text \<open>
  The authentication provider with its calls in flight
  (\<open>src/client/src/context/AuthContext.tsx\<close>). \<open>login\<close> and \<open>logout\<close> each set
  \<open>isLoading\<close> and send their request before their one \<open>await\<close>
  (\<open>authService.login\<close>, \<open>authService.logout\<close>); the rest runs when the answer comes.
  In between, the provider is in a state of its own: loading, the request sent, and for a
  logout the user still set. The calls the UI can start depend on that state: the login
  form is rendered only when \<open>login_view\<close> shows the page (not loading, no user), and the
  navbar's logout button whenever a user is set (\<open>Navbar.tsx\<close> does not look at
  \<open>isLoading\<close>). The mount's \<open>checkAuth\<close> is pending from the first render; no call
  can start before it ends, since the login page shows its spinner and no user is set, and
  in each of its intermediate states the user is unset. As in \<open>Store_Interleaving\<close>,
  the calls in flight are a list and an answer names the call it resumes by its position.
\<close>

datatype auth_call = Check_Call | Login_Call | Logout_Call

type_synonym live_session = "session \<times> auth_call list"

definition login_issue :: "string \<Rightarrow> string \<Rightarrow> session \<Rightarrow> session" where
  "login_issue e pw s = send (Login e pw) (s\<lparr>au_loading := True\<rparr>)"

definition login_settle :: "login_response response \<Rightarrow> session \<Rightarrow> session" where
  "login_settle r s = (case r of
       Inr lr \<Rightarrow> (au_toast (login_ok_notice (username (lr_user lr)))
                   (s\<lparr>ls_token := Some (lr_token lr), au_user := Some (lr_user lr)\<rparr>))\<lparr>au_loading := False\<rparr>
     | Inl _ \<Rightarrow> (au_toast login_failed_notice s)\<lparr>au_loading := False\<rparr>)"

definition logout_issue :: "session \<Rightarrow> session" where
  "logout_issue s = send Logout (s\<lparr>au_loading := True\<rparr>)"

text \<open>
  After the answer, whatever it is: the service's \<open>finally\<close> removes the token, then the
  provider clears the user, toasts and ends loading.
\<close>

definition logout_settle :: "session \<Rightarrow> session" where
  "logout_settle s = (au_toast logged_out_notice (s\<lparr>ls_token := None, au_user := None\<rparr>))\<lparr>au_loading := False\<rparr>"

datatype auth_event =
    Start_Login string string
  | Start_Logout
  | Check_Answer "app_user response" "app_user response"
  | Login_Answer nat "login_response response"
  | Logout_Answer nat

text \<open>Whether the UI can start an event in a state: the rendered login form, the navbar button.\<close>

fun auth_enabled :: "auth_event \<Rightarrow> live_session \<Rightarrow> bool" where
  "auth_enabled (Start_Login e pw) (s, cs) = (login_view s = Show_Page Login_Page)"
| "auth_enabled Start_Logout (s, cs) = is_authenticated s"
| "auth_enabled (Check_Answer r1 r2) (s, cs) = (Check_Call \<in> set cs)"
| "auth_enabled (Login_Answer k r) (s, cs) = (k < length cs \<and> cs ! k = Login_Call)"
| "auth_enabled (Logout_Answer k) (s, cs) = (k < length cs \<and> cs ! k = Logout_Call)"

fun auth_event_step :: "auth_event \<Rightarrow> live_session \<Rightarrow> live_session" where
  "auth_event_step (Start_Login e pw) (s, cs) = (login_issue e pw s, cs @ [Login_Call])"
| "auth_event_step Start_Logout (s, cs) = (logout_issue s, cs @ [Logout_Call])"
| "auth_event_step (Check_Answer r1 r2) (s, cs) = (check_auth r1 r2 s, remove1 Check_Call cs)"
| "auth_event_step (Login_Answer k r) (s, cs) = (login_settle r s, remove_nth k cs)"
| "auth_event_step (Logout_Answer k) (s, cs) = (logout_settle s, remove_nth k cs)"

inductive auth_live :: "live_session \<Rightarrow> bool" where
  live_init: "auth_live (init_session tok ck, [Check_Call])"
| live_step: "auth_live ls \<Longrightarrow> auth_enabled e ls \<Longrightarrow> auth_live (auth_event_step e ls)"

text \<open>
  What the provider keeps in every state: a user only with a stored token, and a user
  while loading only when a logout is in flight.
\<close>

definition live_ok :: "live_session \<Rightarrow> bool" where
  "live_ok ls \<longleftrightarrow> (case ls of (s, cs) \<Rightarrow>
     (au_user s \<noteq> None \<longrightarrow> ls_token s \<noteq> None) \<and>
     (au_loading s \<and> au_user s \<noteq> None \<longrightarrow> Logout_Call \<in> set cs) \<and>
     (Check_Call \<in> set cs \<longrightarrow> cs = [Check_Call] \<and> au_user s = None \<and> au_loading s))"

section \<open>Lemmas\<close>

text \<open>The split calls run back to back are the provider's \<open>login\<close> and \<open>logout\<close> of \<open>Session\<close>.\<close>

lemma ctx_login_split: "snd (ctx_login e pw r s) = login_settle r (login_issue e pw s)"
  by (cases r) (simp_all add: ctx_login_def svc_login_def login_settle_def login_issue_def Let_def)

lemma ctx_logout_split: "ctx_logout r s = logout_settle (logout_issue s)"
  by (simp add: ctx_logout_def svc_logout_def logout_settle_def logout_issue_def)

lemma login_view_form_iff: "login_view s = Show_Page Login_Page \<longleftrightarrow> \<not> au_loading s \<and> au_user s = None"
  by (simp add: login_view_def is_authenticated_def)

lemma check_auth_done:
  "au_user s = None \<Longrightarrow> \<not> au_loading (check_auth r1 r2 s) \<and>
   (au_user (check_auth r1 r2 s) \<noteq> None \<longrightarrow> ls_token (check_auth r1 r2 s) \<noteq> None)"
  by (auto simp: check_auth_def svc_is_authenticated_def svc_get_current_user_def send_def Let_def
      split: option.split if_splits sum.split)

lemma live_ok_init: "live_ok (init_session tok ck, [Check_Call])"
  by (simp add: live_ok_def init_session_def)

lemma live_ok_step:
  assumes ok: "live_ok (s, cs)" and en: "auth_enabled e (s, cs)"
  shows "live_ok (auth_event_step e (s, cs))"
proof (cases e)
  case (Start_Login e pw)
  then show ?thesis using ok en by (auto simp: live_ok_def login_view_form_iff login_issue_def send_def)
next
  case Start_Logout
  then show ?thesis using ok en by (auto simp: live_ok_def is_authenticated_def logout_issue_def send_def)
next
  case (Check_Answer r1 r2)
  then show ?thesis using ok en check_auth_done [of s r1 r2] by (auto simp: live_ok_def)
next
  case (Login_Answer k r)
  then show ?thesis using ok en
    by (cases r) (auto simp: live_ok_def login_settle_def au_toast_def dest: subsetD [OF set_remove_nth])
next
  case (Logout_Answer k)
  then show ?thesis using ok en by (auto simp: live_ok_def logout_settle_def au_toast_def dest: subsetD [OF set_remove_nth])
qed

lemma auth_live_ok: "auth_live ls \<Longrightarrow> live_ok ls"
  by (induction rule: auth_live.induct) (auto simp: live_ok_init intro: live_ok_step)

section \<open>Properties\<close>

text \<open>
  C22. Across every interleaving of the provider's calls the UI allows, the session never
  shows a user without a stored token, and the provider is loading with a user set only
  while a logout is in flight (between \<open>setIsLoading(true)\<close> and the answer of
  \<open>authService.logout\<close>).
\<close>

theorem session_live_ok:
  "auth_live (s, cs) \<Longrightarrow>
   (au_user s \<noteq> None \<longrightarrow> ls_token s \<noteq> None) \<and> (au_loading s \<and> au_user s \<noteq> None \<longrightarrow> Logout_Call \<in> set cs)"
  using auth_live_ok [of "(s, cs)"] by (simp add: live_ok_def)

definition demo_live :: live_session where
  "demo_live = auth_event_step Start_Logout
     (auth_event_step (Check_Answer (Inr demo_user) (Inr demo_user)) (init_session (Some ''tok'') [], [Check_Call]))"

theorem session_live_ok_witness:
  "au_loading (fst demo_live) \<and> au_user (fst demo_live) = Some demo_user \<and>
   ls_token (fst demo_live) \<noteq> None \<and> Logout_Call \<in> set (snd demo_live)"
proof -
  have reach: "auth_live (fst demo_live, snd demo_live)"
    unfolding prod.collapse demo_live_def
  proof (rule auth_live.live_step)
    show "auth_live (auth_event_step (Check_Answer (Inr demo_user) (Inr demo_user)) (init_session (Some ''tok'') [], [Check_Call]))"
      by (rule auth_live.live_step [OF auth_live.live_init]) simp
    show "auth_enabled Start_Logout
      (auth_event_step (Check_Answer (Inr demo_user) (Inr demo_user)) (init_session (Some ''tok'') [], [Check_Call]))"
      by (simp add: check_auth_def svc_is_authenticated_def svc_get_current_user_def send_def init_session_def
          is_authenticated_def)
  qed
  have st: "au_loading (fst demo_live) \<and> au_user (fst demo_live) = Some demo_user"
    by (simp add: demo_live_def check_auth_def svc_is_authenticated_def svc_get_current_user_def send_def
        init_session_def logout_issue_def)
  from session_live_ok [OF reach] st show ?thesis by simp
qed

end
