(* ===== verification/Spec2Isabelle.thy ===== *)
theory Spec2Isabelle
  imports Ticket_Workflow Ticket_Queries Navigation Forms Page_Views Detail_Interleaving Store_Refinement Form_Fields Store_Interleaving Context_Api Toast_Listeners Session_Interleaving
begin

text \<open>
  \<^bold>\<open>TicketRax client: a verification library.\<close>
  The repository is a React single-page client (\<open>src/client/src\<close>) for a support-ticket
  system whose Django backend is not part of it. The client keeps a local snapshot of the
  tickets and their audit-trail activities (\<open>context/TicketContext.tsx\<close>), reads and
  filters it on three admin pages, changes it through a two-step workflow on the detail
  page (update the ticket, then record an activity), and gates the admin pages behind a
  session (\<open>services/authService.ts\<close>, \<open>context/AuthContext.tsx\<close>). Every outcome
  is reported through one toast store (\<open>hooks/use-toast.ts\<close>).

  \<^bold>\<open>Theories and what they model.\<close>
  \<^item> \<open>Prelude\<close>: the model's basic types (identifiers, millisecond timestamps,
    \<open>'a response = api_error + 'a\<close> for a gateway call that resolves or rejects), JavaScript
    white space, and generic list facts (replacing matching elements, counting by a key, a
    counter that wraps).
  \<^item> \<open>Ticket_Model\<close>: the TypeScript unions as datatypes, \<open>Ticket\<close>,
    \<open>TicketActivity\<close>, the Django records and DTOs of \<open>services/ticketService.ts\<close> as
    records, and the conversions the provider writes out in each operation.
  \<^item> \<open>Gateway\<close>: one \<open>api_request\<close> per service function, its method and path, the
    query of \<open>getFilteredTickets\<close> and the header rule of the axios interceptor.
  \<^item> \<open>Toast\<close>: the module state of \<open>use-toast.ts\<close> (counter, \<open>memoryState\<close>, removal
    queue), \<open>genId\<close>, the \<open>reducer\<close> with its queueing side effect, \<open>toast()\<close>, and the
    removal timers as events of a step function; reachable states by an inductive predicate.
  \<^item> \<open>Session\<close>: \<open>localStorage.token\<close>, \<open>document.cookie\<close> with the CSRF regex
    \<open>getCsrfToken\<close>, the request log with the interceptor's headers, the four service
    functions and the provider's \<open>checkAuth\<close>, \<open>login\<close>, \<open>logout\<close>.
  \<^item> \<open>Ticket_Store\<close>: the provider state \<open>ticket_ctx\<close> with logs of the requests sent and
    the toasts raised; each async operation split at its \<open>await\<close> into \<open>issue\<close> and
    \<open>*_settle\<close>; the backend's contract as predicates; the states of sequential runs
    (each operation to completion; the overlapping runs are in \<open>Store_Interleaving\<close>).
  \<^item> \<open>Ticket_Workflow\<close>: the detail page \<open>pages/admin/TicketDetail.tsx\<close>, its state next
    to the provider's, and the status, priority and comment handlers.
  \<^item> \<open>Ticket_Queries\<close>: the list filter and search of \<open>TicketList.tsx\<close>, the statistics
    and recent-tickets panel of \<open>Dashboard.tsx\<close> (\<open>toLowerCase\<close>, \<open>includes\<close> and the
    stable \<open>Array.prototype.sort\<close> written out).
  \<^item> \<open>Navigation\<close>: the route table of \<open>AppRouter.tsx\<close> with its two loading timers, the
    guard of \<open>AdminLayout.tsx\<close>, the redirect of the login page, the auth-dependent items
    of \<open>Navbar.tsx\<close> and \<open>AdminSidebar.tsx\<close>, the link of \<open>TicketCard.tsx\<close> and the
    class and label maps of the two badges.
  \<^item> \<open>Forms\<close>: \<open>validateForm\<close> and \<open>handleSubmit\<close> of \<open>pages/admin/Login.tsx\<close>,
    the zod schema and \<open>onSubmit\<close> of \<open>pages/SubmitTicket.tsx\<close>.
  \<^item> \<open>Page_Views\<close>: what the pages render, as data computed from their state: the
    detail page (ticket fields and badges from the snapshot, activity card, comment box,
    the two selects with the casts of their values), \<open>TicketCard\<close>, the dashboard's
    cards, charts and recent cards, the list page's filter state and cards, the navbar's
    mobile menu, the sidebar's footer and logout, the two forms' errors and buttons, the links of
    \<open>Index\<close>, \<open>TicketSubmitted\<close> and \<open>NotFound\<close>, \<open>Loader\<close>, the \<open>useIsMobile\<close>
    hook, and the confetti loop of \<open>TicketSubmitted\<close> as a \<open>partial_function (option)\<close>
    of the clock.
  \<^item> \<open>Detail_Interleaving\<close>: \<open>handleStatusChange\<close> split at its two \<open>await\<close>s into
    events, with the suspended calls (and the mount's activity load) as a list of
    continuations, so that overlapping calls and answers in any order are sequences of
    events.
  \<^item> \<open>Store_Refinement\<close>: the provider's mount effect, and the specification's
    repository as an abstract map from ids to tickets (lookup, create, update with an
    error for an unknown id), with the snapshot list abstracted by \<open>map_of\<close>.
  \<^item> \<open>Form_Fields\<close>: the ticket form field by field: labels, values, the schema's
    message under each field, and the validation modes of \<open>react-hook-form\<close> (no
    message before the first submit, revalidation of an edited field after it).
  \<^item> \<open>Store_Interleaving\<close>: every operation of \<open>TicketProvider\<close> split at its
    \<open>await\<close> (\<open>store_event_step\<close>), with the calls in flight as a list, so that the
    mount's \<open>fetchTickets\<close> and a page's \<open>createTicket\<close> or \<open>updateTicket\<close> overlap.
  \<^item> \<open>Context_Api\<close>: \<open>TicketContextType\<close> and \<open>AuthContextType\<close> as records of
    operations over a state type, each implemented by the provider's \<open>value\<close> and by the
    default value of \<open>createContext\<close> (\<open>initialTicketContext\<close>, \<open>initialContext\<close>);
    the admin guard, the login page and the two form submits written once over the
    interface.
  \<^item> \<open>Toast_Listeners\<close>: the \<open>listeners\<close> array of \<open>use-toast.ts\<close> with the React
    state of every \<open>useToast\<close> instance, its subscription effect on \<open>[state]\<close> and
    the effect's cleanup, under any order of renders, effects, unmounts and store events.
  \<^item> \<open>Session_Interleaving\<close>: \<open>login\<close> and \<open>logout\<close> of the auth provider split at
    their \<open>await\<close>, with \<open>checkAuth\<close>, the calls in flight, and the calls the login
    form and the navbar can start in each state.
  \<^item> This theory: the properties that span components (the specification's scenario from
    the public form through the detail page; the toasts of a failed login).

  \<^bold>\<open>How the components interact.\<close> The forms call the providers (\<open>Forms\<close> uses
  \<open>ctx_login\<close> and \<open>create_ticket\<close>), the pages call the ticket provider, the providers
  call the gateway and the toast store; every gateway answer is an argument of the
  operation, so each theorem holds for every answer the backend may give, and where a
  property depends on the backend it assumes the contract \<open>gateway_honours\<close> explicitly.
  The toast logs of the providers are what \<open>show_all\<close> of \<open>Toast\<close> consumes. The views
  of \<open>Page_Views\<close> read the page states of \<open>Ticket_Workflow\<close> and \<open>Forms\<close> and the
  snapshot of \<open>Ticket_Store\<close>; their links are checked against the route table of
  \<open>Navigation\<close>. \<open>Detail_Interleaving\<close> reuses the settle functions of
  \<open>Ticket_Store\<close> and is tied to the atomic handler of \<open>Ticket_Workflow\<close> by a
  refinement theorem; \<open>Store_Interleaving\<close> does the same for the provider's own
  operations, and an operation answered at once is the atomic \<open>ctx_step\<close>.

  \<^bold>\<open>What the lemmas show.\<close> Invariants of every reachable state by rule induction
  (toast store, toast listeners, the session across interleaved calls, router, ticket form); the functional result of every operation on
  every branch, failures included; equivalences with a reference definition (substring
  search and \<open>Sublist.sublist\<close>, the dashboard sort and \<open>sort_key\<close>, the email test and
  its regular expression); a round trip (cookie serialisation and \<open>getCsrfToken\<close>); the
  bound on unique toast ids given by the wrap of \<open>genId\<close> at \<open>MAX_SAFE_INTEGER\<close>; a
  liveness property of the router's loader; an invariant of every interleaving of the status handler (the
  submitting flag is off once no change is in flight); the refinement of the atomic status
  handler by its split, and what out-of-order schedules do to the page (a stale badge, a
  lost audit entry); the refinement of the specification's map store by the provider's
  snapshot list along every run that keeps the backend's contract; an invariant of the
  ticket form tying the messages on screen to the current values; and, for overlapping
  provider calls, that a mount fetch answered after a create drops the created ticket
  from the snapshot for the rest of the session, and that a fetch answered before the
  create can list the ticket and so duplicate it (unique ids hold only for sequential
  runs); the specification's scenario for every valid form and contract-keeping backend;
  that the consumers written over the
  context interfaces are, for the providers, the definitions of \<open>Navigation\<close> and
  \<open>Forms\<close>, and what they do outside the providers (the ticket form reports a success it
  did not have; the admin area never leaves its loading screen). For the toast hooks: the listener
  array never holds a hook twice or an unmounted one, and a toast dispatched between a
  hook's first render and its effect is missed until the next dispatch.

  \<^bold>\<open>Loops and bounds.\<close> The loops of the code are structural recursions over lists
  or \<open>div 10\<close> on naturals, except the confetti loop, which runs until the clock passes
  its end time: it is a partial function whose \<open>None\<close> is a loop that never ends, and
  its termination is proved for every clock that advances between two readings (at most
  2000 frames: the end is 2000 ms after the first reading). No fuel is used. The toast
  counter is kept at its JavaScript width: it wraps at \<open>MAX_SAFE_INTEGER\<close>.

  \<^bold>\<open>Not modelled.\<close> The Django backend (only its contract); axios, React Router's
  matcher beyond the route table (percent-decoding), zod's email pattern (a parameter of the
  schema), the browser's constraint validation of the login inputs; Unicode beyond ASCII in
  \<open>trim\<close>, \<open>toLowerCase\<close>, \<open>toUpperCase\<close> and \<open>\\s\<close>; \<open>formatDate\<close> and
  \<open>toLocaleDateString\<close> (host locale and time zone: a view keeps the timestamp); the
  static copy of the pages and \<open>Footer\<close> (no state), \<open>lib/utils\<close> \<open>cn\<close> (clsx and
  tailwind-merge library code), \<open>NotFound\<close>'s console logging, the confetti colours,
  animations and styling; the nesting of the providers (the repository has no
  application entry point that renders them: \<open>Context_Api\<close> covers both cases, a
  consumer inside its provider and one outside it); the library internals of
  \<open>react-hook-form\<close> beyond its documented default validation modes. The claims are
  numbered by importance: the workflow and the
  repository first, then the views and schedules of the detail page, the session gate, the
  forms, the queries and the toast store.
\<close>


definition admin_user :: app_user where
  "admin_user = \<lparr>user_id = ''9'', username = ''admin'', user_email = ''admin@x.com'',
     first_name = [], last_name = []\<rparr>"

definition scenario :: "submit_page \<times> ticket_ctx \<times> string option" where
  "scenario = submit_ticket (\<lambda>_. True) (Inr demo_django_ticket)
     \<lparr>sp_form = demo_ticket_form, sp_errors = [], sp_submitting = False\<rparr> init_ctx"

definition scenario_page :: page where
  "scenario_page = handle_status_change (Some admin_user) Open
     (Inr (demo_django_ticket\<lparr>dj_status := Open, dj_updated_at := 2000\<rparr>)) (Inr demo_activity)
     (mount_detail ''t1'' (fst (snd scenario)))"

lemma find_append_last: "\<forall>x \<in> set xs. \<not> p x \<Longrightarrow> p y \<Longrightarrow> find p (xs @ [y]) = Some y"
  by (induction xs) auto

lemma get_ticket_by_id_appended:
  assumes fr: "ticket_id t \<notin> set (map ticket_id (tickets c))" and tk: "tickets c' = tickets c @ [t]"
  shows "get_ticket_by_id c' (ticket_id t) = Some t"
proof -
  have "\<forall>x \<in> set (tickets c). \<not> ticket_id x = ticket_id t"
    using fr by (metis image_eqI set_map)
  then show ?thesis
    unfolding get_ticket_by_id_def tk by (rule find_append_last) (rule refl)
qed

lemma show_all_two:
  "map (\<lambda>t. (tt_props t, tt_open t)) (memory_state (show_all [a, b] g)) = [(b, True)]"
  by (simp add: show_all_def toast_fn_memory)

lemma failed_login_notices:
  "snd (validate_login (lp_email p) (lp_password p)) \<Longrightarrow>
   au_notices (fst (snd (handle_login_submit (Inl err) p s))) =
     au_notices s @ [login_failed_notice, invalid_credentials_notice]"
  by (cases "validate_login (lp_email p) (lp_password p)")
     (auto simp: handle_login_submit_def ctx_login_def svc_login_def Let_def)

text \<open>
  C31. A rejected login raises two toasts, the provider's and then the login page's, and with
  \<open>TOAST_LIMIT\<close> = 1 only the page's "Invalid credentials" toast is left on screen.
\<close>

theorem failed_login_one_toast:
  "snd (validate_login (lp_email p) (lp_password p)) \<Longrightarrow>
   map (\<lambda>t. (tt_props t, tt_open t))
     (memory_state (show_all (drop (length (au_notices s))
        (au_notices (fst (snd (handle_login_submit (Inl err) p s))))) g)) =
   [(invalid_credentials_notice, True)]"
  by (simp add: failed_login_notices show_all_two)

theorem failed_login_one_toast_witness:
  "map (\<lambda>t. (tt_props t, tt_open t))
     (memory_state (show_all (drop 0
        (au_notices (fst (snd (handle_login_submit (Inl Network_Failure) demo_login_page (init_session None [])))))) init_toasts)) =
   [(invalid_credentials_notice, True)]"
proof -
  have "snd (validate_login (lp_email demo_login_page) (lp_password demo_login_page))"
    by (simp add: demo_login_page_def init_login_page_def validate_login_def js_space_def)
  then show ?thesis
    using failed_login_one_toast [where p = demo_login_page and err = Network_Failure and s = "init_session None []" and g = init_toasts]
    by (simp add: init_session_def)
qed

text \<open>
  C2. The scenario of the specification, end to end, for every form and every backend that
  keeps its contract: a form that passes the schema is created with status new in the
  snapshot and the page goes to the confirmation page; on the admin detail page of the new
  ticket, the status change to open then leaves the ticket open, records exactly one new
  activity, and its request carries the message "Status changed from new to open".
\<close>

theorem spec_scenario_end_to_end:
  assumes form_ok: "ticket_schema_errors ok f = []"
    and created: "create_contract (create_dto_of_input (input_of_form f)) d"
    and fresh: "dj_id d \<notin> set (map ticket_id (tickets c))"
    and updated: "update_contract (dj_id d) (update_dto_of_patch (empty_patch\<lparr>p_status := Some Open\<rparr>)) d'"
    and submitted: "submit_ticket ok (Inr d) \<lparr>sp_form = f, sp_errors = [], sp_submitting = False\<rparr> c = (p1, c1, nav)"
    and changed: "handle_status_change user Open (Inr d') (Inr da) (mount_detail (dj_id d) c1) = (dp, c2)"
  shows "nav = Some ''/ticket-submitted'' \<and>
         map_option status (get_ticket_by_id c1 (dj_id d)) = Some New \<and>
         map_option status (get_ticket_by_id c2 (dj_id d)) = Some Open \<and>
         activities c2 = activities c @ [activity_of_django da] \<and>
         last (requests c2) = Create_Activity \<lparr>ca_ticket = dj_id d, ca_type = Status_Change,
           ca_message = ''Status changed from new to open'', ca_created_by = display_name user\<rparr>"
proof -
  have c1: "c1 = toast submitted_notice (snd (create_ticket (input_of_form f) (Inr d) c))"
    and nav: "nav = Some ''/ticket-submitted''"
    using submitted form_ok by (simp_all add: submit_ticket_cases)
  have tk1: "tickets c1 = tickets c @ [ticket_of_django d]" and act1: "activities c1 = activities c"
    by (simp_all add: c1 create_ticket_Inr toast_def)
  have new: "dj_status d = New"
    using created by (simp add: create_contract_def)
  have found: "get_ticket_by_id c1 (dj_id d) = Some (ticket_of_django d)"
    using get_ticket_by_id_appended [of "ticket_of_django d" c c1] fresh tk1 by simp
  obtain d0 c0 where mnt: "mount_detail (dj_id d) c1 = (d0, c0)" by fastforce
  have d0: "d_id d0 = dj_id d" "d_status d0 = New"
    and c0: "tickets c0 = tickets c1" "activities c0 = activities c1"
    using mnt found new by (auto simp: mount_detail_def log_request_def split: if_splits)
  have found0: "get_ticket_by_id c0 (d_id d0) = Some (ticket_of_django d)"
    using found by (simp add: get_ticket_by_id_def c0 d0)
  have st: "requests c2 = requests c0 @ [Update_Ticket (dj_id d) (update_dto_of_patch (empty_patch\<lparr>p_status := Some Open\<rparr>)),
           Create_Activity (activity_dto_of_input (status_activity user (dj_id d) New Open))]"
    and act2: "activities c2 = activities c0 @ [activity_of_django da]"
    and tk2: "tickets c2 = replace_where (\<lambda>x. ticket_id x = dj_id d) (ticket_of_django d') (tickets c0)"
    using status_change_ok_state [OF found0, of Open user d' da dp c2] changed mnt d0 by simp_all
  have "get_ticket_by_id c2 (dj_id d) = Some (ticket_of_django d')"
    using lookup_after_update [OF found0, of d' c2] tk2 updated d0
    by (simp add: update_contract_def)
  moreover have "dj_status d' = Open"
    using updated by (simp add: update_contract_def update_dto_of_patch_def empty_patch_def)
  ultimately show ?thesis
    using nav found new st act2 c0 act1
    by (simp add: activity_dto_of_input_def status_activity_def status_message_def)
qed

theorem spec_scenario_end_to_end_witness:
  "snd (snd scenario) = Some ''/ticket-submitted'' \<and>
   map_option status (get_ticket_by_id (fst (snd scenario)) (dj_id demo_django_ticket)) = Some New \<and>
   map_option status (get_ticket_by_id (snd scenario_page) (dj_id demo_django_ticket)) = Some Open \<and>
   activities (snd scenario_page) = activities init_ctx @ [activity_of_django demo_activity] \<and>
   last (requests (snd scenario_page)) = Create_Activity \<lparr>ca_ticket = dj_id demo_django_ticket,
     ca_type = Status_Change, ca_message = ''Status changed from new to open'',
     ca_created_by = display_name (Some admin_user)\<rparr>"
proof (rule spec_scenario_end_to_end [where ok = "\<lambda>_. True" and f = demo_ticket_form and c = init_ctx
    and d' = "demo_django_ticket\<lparr>dj_status := Open, dj_updated_at := 2000\<rparr>"])
  show "ticket_schema_errors (\<lambda>_. True) (demo_ticket_form) = []"
    by (simp add: ticket_schema_errors_def demo_ticket_form_def)
  show "create_contract (create_dto_of_input (input_of_form demo_ticket_form)) demo_django_ticket"
    by (simp add: create_contract_def create_dto_of_input_def input_of_form_def demo_ticket_form_def demo_defs)
  show "dj_id demo_django_ticket \<notin> set (map ticket_id (tickets init_ctx))"
    by (simp add: init_ctx_def)
  show "update_contract (dj_id demo_django_ticket) (update_dto_of_patch (empty_patch\<lparr>p_status := Some Open\<rparr>))
      (demo_django_ticket\<lparr>dj_status := Open, dj_updated_at := 2000\<rparr>)"
    by (simp add: update_contract_def update_dto_of_patch_def empty_patch_def demo_defs)
  show "submit_ticket (\<lambda>_. True) (Inr demo_django_ticket) \<lparr>sp_form = demo_ticket_form, sp_errors = [], sp_submitting = False\<rparr>
      init_ctx = (fst scenario, fst (snd scenario), snd (snd scenario))"
    by (simp add: scenario_def)
  show "handle_status_change (Some admin_user) Open (Inr (demo_django_ticket\<lparr>dj_status := Open, dj_updated_at := 2000\<rparr>))
      (Inr demo_activity) (mount_detail (dj_id demo_django_ticket) (fst (snd scenario))) =
    (fst scenario_page, snd scenario_page)"
    by (simp add: scenario_page_def demo_defs)
qed

end
